theory Spec2Isabelle
  imports Complex_Main "HOL-Library.Log_Nat"
begin

section \<open>JavaScript numbers\<close>

text \<open>
  The pricing code computes with JavaScript \<^verbatim>\<open>number\<close>s, that is IEEE 754 binary64
  values. A finite double is modelled by the rational it denotes, the two infinities and
  NaN by constructors of their own. The sign of zero is not modelled: the code never
  divides by a computed value and never inspects a sign, so \<^verbatim>\<open>-0\<close> and \<^verbatim>\<open>+0\<close> behave alike.
\<close>

datatype number = Fin rat | PInf | NInf | NaN

text \<open>\<open>floor_log2 x\<close> is the binary exponent of a positive rational: \<open>2^e \<le> x < 2^(e+1)\<close>.\<close>

definition floor_log2 :: "rat \<Rightarrow> int" where
  "floor_log2 x = (if 1 \<le> x then bitlen \<lfloor>x\<rfloor> - 1 else - bitlen (\<lceil>1 / x\<rceil> - 1))"

text \<open>Rounding to the nearest integer, ties to the even one (the IEEE default mode).\<close>

definition round_half_even :: "rat \<Rightarrow> int" where
  "round_half_even a =
     (let f = \<lfloor>a\<rfloor>; d = a - of_int f
      in if d < 1 / 2 then f else if 1 / 2 < d then f + 1 else if even f then f else f + 1)"

text \<open>
  The spacing of the doubles around \<open>x\<close>: 53 significant bits, and the fixed spacing
  \<open>2^-1074\<close> of the subnormal range below \<open>2^-1022\<close>.
\<close>

definition quantum :: "rat \<Rightarrow> rat" where
  "quantum x = 2 powi (max (floor_log2 \<bar>x\<bar>) (- 1022) - 52)"

definition fl :: "rat \<Rightarrow> rat" where
  "fl x = (if x = 0 then 0 else of_int (round_half_even (x / quantum x)) * quantum x)"

text \<open>The result of an arithmetic operation whose exact value is \<open>x\<close>: rounded, or overflowed.\<close>

definition rnd :: "rat \<Rightarrow> number" where
  "rnd x = (let y = fl x in
     if 2 ^ 1024 \<le> \<bar>y\<bar> then (if 0 < y then PInf else NInf) else Fin y)"

text \<open>A decimal literal of the source text, and \<^verbatim>\<open>parseFloat\<close>/\<^verbatim>\<open>Number\<close> of a decimal.\<close>

definition lit :: "rat \<Rightarrow> number" where
  "lit r = rnd r"

fun js_neg :: "number \<Rightarrow> number" where
  "js_neg (Fin a) = Fin (- a)"
| "js_neg PInf = NInf"
| "js_neg NInf = PInf"
| "js_neg NaN = NaN"

fun js_add :: "number \<Rightarrow> number \<Rightarrow> number" where
  "js_add (Fin a) (Fin b) = rnd (a + b)"
| "js_add NaN _ = NaN"
| "js_add _ NaN = NaN"
| "js_add PInf NInf = NaN"
| "js_add NInf PInf = NaN"
| "js_add PInf _ = PInf"
| "js_add NInf _ = NInf"
| "js_add _ PInf = PInf"
| "js_add _ NInf = NInf"

definition js_sub :: "number \<Rightarrow> number \<Rightarrow> number" where
  "js_sub a b = js_add a (js_neg b)"

text \<open>The sign of a number that is not NaN: \<open>-1\<close>, \<open>0\<close> or \<open>1\<close>.\<close>

fun js_sign :: "number \<Rightarrow> int" where
  "js_sign (Fin a) = (if a < 0 then - 1 else if a = 0 then 0 else 1)"
| "js_sign PInf = 1"
| "js_sign NInf = - 1"
| "js_sign NaN = 0"

fun js_mul :: "number \<Rightarrow> number \<Rightarrow> number" where
  "js_mul (Fin a) (Fin b) = rnd (a * b)"
| "js_mul NaN _ = NaN"
| "js_mul _ NaN = NaN"
| "js_mul a b =
     (let s = js_sign a * js_sign b
      in if s = 0 then NaN else if 0 < s then PInf else NInf)"

text \<open>
  Division. The quotient by a zero takes the sign of the dividend alone, the zero being
  unsigned here; the source divides by the literal \<^verbatim>\<open>100\<close> only.
\<close>

fun js_div :: "number \<Rightarrow> number \<Rightarrow> number" where
  "js_div (Fin a) (Fin b) =
     (if b = 0 then (if a = 0 then NaN else if 0 < a then PInf else NInf) else rnd (a / b))"
| "js_div NaN _ = NaN"
| "js_div _ NaN = NaN"
| "js_div (Fin a) _ = Fin 0"
| "js_div a (Fin b) = (if 0 \<le> js_sign a * (if b < 0 then - 1 else 1) then PInf else NInf)"
| "js_div _ _ = NaN"

text \<open>Comparison: every comparison with NaN is false.\<close>

fun js_lt :: "number \<Rightarrow> number \<Rightarrow> bool" where
  "js_lt NaN _ = False"
| "js_lt _ NaN = False"
| "js_lt (Fin a) (Fin b) = (a < b)"
| "js_lt PInf _ = False"
| "js_lt _ NInf = False"
| "js_lt _ _ = True"

fun js_eq :: "number \<Rightarrow> number \<Rightarrow> bool" where
  "js_eq NaN _ = False"
| "js_eq _ NaN = False"
| "js_eq a b = (a = b)"

definition js_le :: "number \<Rightarrow> number \<Rightarrow> bool" where
  "js_le a b = (js_lt a b \<or> js_eq a b)"


text \<open>\<^verbatim>\<open>Math.min\<close> of two arguments: NaN if either is.\<close>

fun Math_min :: "number \<Rightarrow> number \<Rightarrow> number" where
  "Math_min NaN _ = NaN"
| "Math_min _ NaN = NaN"
| "Math_min a b = (if js_lt b a then b else a)"

text \<open>\<^verbatim>\<open>Math.ceil\<close>; the ceiling of a double is a double.\<close>

fun Math_ceil :: "number \<Rightarrow> number" where
  "Math_ceil (Fin a) = Fin (of_int \<lceil>a\<rceil>)"
| "Math_ceil a = a"

text \<open>\<^verbatim>\<open>Math.round\<close>: the nearest integer, a tie going up (towards \<open>+\<infinity>\<close>).\<close>

fun Math_round :: "number \<Rightarrow> number" where
  "Math_round (Fin a) = Fin (of_int \<lfloor>a + 1 / 2\<rfloor>)"
| "Math_round a = a"

text \<open>Truthiness of a number, and \<^verbatim>\<open>a || b\<close> on numbers.\<close>

fun truthy :: "number \<Rightarrow> bool" where
  "truthy (Fin a) = (a \<noteq> 0)"
| "truthy NaN = False"
| "truthy _ = True"

definition js_or :: "number \<Rightarrow> number \<Rightarrow> number" where
  "js_or a b = (if truthy a then a else b)"

section \<open>The complexity estimator\<close>

datatype ProjectType = creative | fullstack | web3 | ai_automation

datatype Urgency = standard | urgent | critical

text \<open>
  The project scope is a JSON document. Its three members that the code reads are each
  optional; an integration carries its type tag.
\<close>

record Integration =
  itype :: string

record Scope =
  features :: "string list option"
  integrations :: "Integration list option"
  timeline :: "string option"

text \<open>\<^verbatim>\<open>x || dflt\<close> on an optional array, and on an optional string (the empty string is falsy).\<close>

definition or_list :: "'a list option \<Rightarrow> 'a list \<Rightarrow> 'a list" where
  "or_list x dflt = (case x of None \<Rightarrow> dflt | Some xs \<Rightarrow> xs)"

definition or_string :: "string option \<Rightarrow> string \<Rightarrow> string" where
  "or_string x dflt = (case x of None \<Rightarrow> dflt | Some s \<Rightarrow> if s = [] then dflt else s)"

text \<open>\<^verbatim>\<open>xs.length\<close> as a number.\<close>

definition js_length :: "'a list \<Rightarrow> number" where
  "js_length xs = Fin (of_nat (length xs))"

definition typeComplexity :: "ProjectType \<Rightarrow> number" where
  "typeComplexity t = (case t of
       creative \<Rightarrow> lit 1
     | fullstack \<Rightarrow> lit 2
     | web3 \<Rightarrow> lit 3
     | ai_automation \<Rightarrow> lit (5 / 2))"

definition complexIntegrationTypes :: "string list" where
  "complexIntegrationTypes = [''payment'', ''blockchain'', ''ai'', ''custom_api'']"

definition calculateComplexity :: "ProjectType \<Rightarrow> Scope option \<Rightarrow> Urgency \<Rightarrow> number" where
  "calculateComplexity projectType scope urgency =
    (let score = Fin 0;
         fs = or_list (case scope of None \<Rightarrow> None | Some s \<Rightarrow> features s) [];
         score = js_add score (Math_min (js_mul (js_length fs) (lit (1 / 2))) (lit 3));
         is = or_list (case scope of None \<Rightarrow> None | Some s \<Rightarrow> integrations s) [];
         complexIntegrations = filter (\<lambda>i. itype i \<in> set complexIntegrationTypes) is;
         score = js_add score
                   (Math_min (js_mul (js_length complexIntegrations) (lit (4 / 5))) (lit 3));
         tl = or_string (case scope of None \<Rightarrow> None | Some s \<Rightarrow> timeline s) ''standard'';
         score = (if tl = ''urgent'' then js_add score (lit (3 / 2)) else score);
         score = (if tl = ''critical'' then js_add score (lit (5 / 2)) else score);
         score = js_add score (js_or (typeComplexity projectType) (lit 1));
         score = (if urgency = urgent then js_add score (lit (1 / 2)) else score);
         score = (if urgency = critical then js_add score (lit 1) else score)
     in Math_min score (lit 10))"


section \<open>Persistent storage\<close>

text \<open>
  The tables of the schema that the pricing core reads and writes, each a list of rows.

  A number written to a \<^verbatim>\<open>DECIMAL(p,s)\<close> column takes two steps. The query engine turns
  the double into a decimal of 16 significant digits (one digit, then 15 after the
  point, in scientific notation), the nearest one to the exact value of the double,
  a tie going to the even last digit. The database then rounds that decimal to \<open>s\<close>
  fractional digits, half away from zero, and the write fails when the rounded value
  needs more than \<open>p\<close> digits or the number is not finite.
\<close>

definition floor_log10 :: "rat \<Rightarrow> int" where
  "floor_log10 x =
     (if 1 \<le> x then int (floorlog 10 (nat \<lfloor>x\<rfloor>)) - 1
      else - int (floorlog 10 (nat (\<lceil>1 / x\<rceil> - 1))))"

definition decimal16 :: "rat \<Rightarrow> rat" where
  "decimal16 x =
     (if x = 0 then 0
      else (let u = 10 powi (floor_log10 \<bar>x\<bar> - 15)
            in of_int (round_half_even (x / u)) * u))"

definition round_half_away :: "rat \<Rightarrow> int" where
  "round_half_away x = (if 0 \<le> x then \<lfloor>x + 1 / 2\<rfloor> else - \<lfloor>- x + 1 / 2\<rfloor>)"

fun to_decimal :: "nat \<Rightarrow> nat \<Rightarrow> number \<Rightarrow> rat option" where
  "to_decimal p s (Fin x) =
     (let r = round_half_away (decimal16 x * 10 ^ s)
      in if \<bar>r\<bar> < 10 ^ p then Some (of_int r / 10 ^ s) else None)"
| "to_decimal p s _ = None"

text \<open>
  Instants are milliseconds since the epoch. A \<^verbatim>\<open>DATE\<close> column keeps the day of an
  instant, which reads back as the midnight (UTC) that begins it.
\<close>

definition msPerDay :: int where
  "msPerDay = 86400000"

definition to_date :: "int \<Rightarrow> int" where
  "to_date t = t - t mod msPerDay"

text \<open>An \<^verbatim>\<open>INTEGER\<close> column accepts an integral number of 32 bits.\<close>

fun to_integer :: "number \<Rightarrow> int option" where
  "to_integer (Fin x) =
     (if x = of_int \<lfloor>x\<rfloor> \<and> - (2 ^ 31) \<le> \<lfloor>x\<rfloor> \<and> \<lfloor>x\<rfloor> < 2 ^ 31 then Some \<lfloor>x\<rfloor> else None)"
| "to_integer _ = None"

text \<open>
  The enumerations and rows of the schema. A column name that several tables share is
  written with the initial of its table (\<open>p_id\<close>, \<open>q_id\<close>, \<open>p_status\<close>, \<open>q_status\<close>, \<dots>).
  Keys are UUIDs, modelled as strings.
\<close>

datatype ProjectStatus =
  initiated | assessment_complete | quote_generated | strategy_call_booked
  | quote_accepted | in_progress | completed

datatype QuoteStatus = pending | sent | accepted | declined | expired

datatype json = JNull | JBool bool | JNum number | JStr string

record ProjectAssessment =
  p_id :: string
  p_userId :: string
  projectType :: ProjectType
  projectScope :: "Scope option"
  p_urgency :: "Urgency option"
  complexityScore :: "rat option"
  p_status :: ProjectStatus

record PaymentStructure =
  deposit :: number
  milestone_1 :: number
  milestone_2 :: number
  final :: number

record ProjectQuote =
  q_id :: string
  q_projectId :: string
  q_userId :: string
  baseRate :: rat
  complexityAdjustment :: rat
  urgencyAdjustment :: rat
  totalEstimate :: rat
  notToExceed :: rat
  estimatedTimelineWeeks :: "int option"
  deliveryDate :: "int option"
  paymentStructure :: "PaymentStructure option"
  termsAccepted :: bool
  acceptedAt :: "int option"
  validUntil :: int
  q_status :: QuoteStatus
  metadata :: "string \<rightharpoonup> json"

record AuditLog =
  a_userId :: string
  action :: string
  entityType :: string
  entityId :: string

record db =
  projectAssessments :: "ProjectAssessment list"
  projectQuotes :: "ProjectQuote list"
  auditLogs :: "AuditLog list"

text \<open>
  \<^verbatim>\<open>update({ where: { id }, data })\<close> changes the row with that key and returns it; it
  throws (\<open>None\<close>) when there is none.
\<close>

fun update_first :: "('a \<Rightarrow> bool) \<Rightarrow> ('a \<Rightarrow> 'a) \<Rightarrow> 'a list \<Rightarrow> ('a \<times> 'a list) option" where
  "update_first P f [] = None"
| "update_first P f (x # xs) =
     (if P x then Some (f x, f x # xs)
      else (case update_first P f xs of None \<Rightarrow> None | Some (y, ys) \<Rightarrow> Some (y, x # ys)))"

text \<open>
  What a handler does with its request: answer with a status code and an error message,
  answer with the success payload, or pass a thrown exception on to \<^verbatim>\<open>next\<close>.
\<close>

datatype 'a response = Status nat string | Ok 'a | Thrown

section \<open>The quote calculator\<close>

text \<open>
  \<^verbatim>\<open>BASE_RATES\<close> is read from the environment when the module is loaded, so it is a
  parameter of the model; these are the values it has when the environment sets none.
\<close>

definition default_BASE_RATES :: "ProjectType \<Rightarrow> number" where
  "default_BASE_RATES t = (case t of
       creative \<Rightarrow> lit 5000
     | fullstack \<Rightarrow> lit 8000
     | web3 \<Rightarrow> lit 12000
     | ai_automation \<Rightarrow> lit 10000)"

text \<open>
  The keys of \<^verbatim>\<open>COMPLEXITY_MULTIPLIERS\<close>; \<open>critical_level\<close> is its key \<^verbatim>\<open>critical\<close>, written
  apart from the urgency of the same name.
\<close>

datatype ComplexityLevel = low | medium | high | critical_level

definition COMPLEXITY_MULTIPLIERS :: "ComplexityLevel \<Rightarrow> number" where
  "COMPLEXITY_MULTIPLIERS l = (case l of
       low \<Rightarrow> lit 1
     | medium \<Rightarrow> lit (13 / 10)
     | high \<Rightarrow> lit (3 / 2)
     | critical_level \<Rightarrow> lit (9 / 5))"

definition URGENCY_MULTIPLIERS :: "Urgency \<Rightarrow> number" where
  "URGENCY_MULTIPLIERS u = (case u of
       standard \<Rightarrow> lit 1
     | urgent \<Rightarrow> lit (13 / 10)
     | critical \<Rightarrow> lit (3 / 2))"

definition baseTimeline :: "ProjectType \<Rightarrow> number" where
  "baseTimeline t = (case t of
       creative \<Rightarrow> lit 4
     | fullstack \<Rightarrow> lit 8
     | web3 \<Rightarrow> lit 12
     | ai_automation \<Rightarrow> lit 10)"

definition complexityLevel :: "number \<Rightarrow> ComplexityLevel" where
  "complexityLevel score =
     (if js_lt score (lit 3) then low
      else if js_lt score (lit 6) then medium
      else if js_lt score (lit 8) then high
      else critical_level)"

text \<open>\<^verbatim>\<open>project.urgency || 'standard'\<close> on the nullable column.\<close>

definition or_urgency :: "Urgency option \<Rightarrow> Urgency" where
  "or_urgency u = (case u of None \<Rightarrow> standard | Some v \<Rightarrow> v)"

text \<open>The \<^verbatim>\<open>data\<close> object that \<^verbatim>\<open>generateQuote\<close> hands to \<^verbatim>\<open>projectQuote.create\<close>.\<close>

record QuoteData =
  d_baseRate :: number
  d_complexityAdjustment :: number
  d_urgencyAdjustment :: number
  d_totalEstimate :: number
  d_notToExceed :: number
  d_estimatedTimelineWeeks :: number
  d_deliveryDate :: "int option"
  d_paymentStructure :: PaymentStructure
  d_validUntil :: int

text \<open>
  \<^verbatim>\<open>deliveryDate.setDate(deliveryDate.getDate() + estimatedTimeline * 7)\<close>: a date that
  many days later, or an invalid date when the count is not finite.
\<close>

fun addDays :: "int \<Rightarrow> number \<Rightarrow> int option" where
  "addDays now (Fin n) = Some (now + \<lfloor>n\<rfloor> * msPerDay)"
| "addDays now _ = None"

definition quoteData ::
    "(ProjectType \<Rightarrow> number) \<Rightarrow> ProjectAssessment \<Rightarrow> number \<Rightarrow> int \<Rightarrow> QuoteData" where
  "quoteData BASE_RATES project score now =
    (let baseRate = js_or (BASE_RATES (projectType project)) (lit 5000);
         complexityMultiplier = COMPLEXITY_MULTIPLIERS (complexityLevel score);
         complexityAdjustment = js_mul baseRate (js_sub complexityMultiplier (lit 1));
         urgencyMultiplier = URGENCY_MULTIPLIERS (or_urgency (p_urgency project));
         urgencyAdjustment = js_mul baseRate (js_sub urgencyMultiplier (lit 1));
         totalEstimate = js_add (js_add baseRate complexityAdjustment) urgencyAdjustment;
         notToExceed = Math_ceil (js_mul totalEstimate (lit (115 / 100)));
         estimatedTimeline =
           Math_ceil (js_mul (js_or (baseTimeline (projectType project)) (lit 6))
                        complexityMultiplier);
         deliveryDate = addDays now (js_mul estimatedTimeline (lit 7));
         paymentStructure = \<lparr>
           deposit = Math_round (js_mul totalEstimate (lit (3 / 10))),
           milestone_1 = Math_round (js_mul totalEstimate (lit (3 / 10))),
           milestone_2 = Math_round (js_mul totalEstimate (lit (2 / 10))),
           final = Math_round (js_mul totalEstimate (lit (2 / 10)))\<rparr>;
         validUntil = now + 30 * msPerDay
     in \<lparr>d_baseRate = baseRate,
         d_complexityAdjustment = complexityAdjustment,
         d_urgencyAdjustment = urgencyAdjustment,
         d_totalEstimate = totalEstimate,
         d_notToExceed = notToExceed,
         d_estimatedTimelineWeeks = estimatedTimeline,
         d_deliveryDate = deliveryDate,
         d_paymentStructure = paymentStructure,
         d_validUntil = validUntil\<rparr>)"

text \<open>
  \<^verbatim>\<open>projectQuote.create\<close>: the row as the table stores it, the key and the column defaults
  filled in, or \<open>None\<close> when a value does not fit its column.
\<close>

definition createQuote :: "string \<Rightarrow> string \<Rightarrow> string \<Rightarrow> QuoteData \<Rightarrow> ProjectQuote option" where
  "createQuote newId projectId userId d =
    (case (to_decimal 10 2 (d_baseRate d), to_decimal 10 2 (d_complexityAdjustment d),
           to_decimal 10 2 (d_urgencyAdjustment d), to_decimal 10 2 (d_totalEstimate d),
           to_decimal 10 2 (d_notToExceed d), to_integer (d_estimatedTimelineWeeks d),
           d_deliveryDate d) of
       (Some br, Some ca, Some ua, Some te, Some nte, Some weeks, Some delivery) \<Rightarrow>
         Some \<lparr>q_id = newId, q_projectId = projectId, q_userId = userId,
           baseRate = br, complexityAdjustment = ca, urgencyAdjustment = ua,
           totalEstimate = te, notToExceed = nte,
           estimatedTimelineWeeks = Some weeks, deliveryDate = Some (to_date delivery),
           paymentStructure = Some (d_paymentStructure d),
           termsAccepted = False, acceptedAt = None,
           validUntil = to_date (d_validUntil d),
           q_status = pending, metadata = Map.empty\<rparr>
     | _ \<Rightarrow> None)"

text \<open>
  \<^verbatim>\<open>generateQuote\<close>, as a function of the store. \<open>now\<close> is the instant of the request,
  \<open>newId\<close> the key that the table gives the new row, \<open>userId\<close> is \<^verbatim>\<open>req.userId\<close>, absent
  when the request is not authenticated. The writes are not in a transaction: an
  exception leaves the store as the writes before it made it. The answer carries the
  stored quote, whose decimals the handler converts back with \<^verbatim>\<open>parseFloat\<close>.
\<close>

definition activeStatuses :: "QuoteStatus list" where
  "activeStatuses = [pending, sent, accepted]"

definition generateQuote ::
    "(ProjectType \<Rightarrow> number) \<Rightarrow> int \<Rightarrow> string \<Rightarrow> string option \<Rightarrow> string \<Rightarrow> db
       \<Rightarrow> ProjectQuote response \<times> db" where
  "generateQuote BASE_RATES now newId userId projectId s =
    (case userId of
       None \<Rightarrow> (Status 401 ''Unauthorized'', s)
     | Some uid \<Rightarrow>
    (case find (\<lambda>p. p_id p = projectId) (projectAssessments s) of
       None \<Rightarrow> (Status 404 ''Project not found'', s)
     | Some project \<Rightarrow>
    if p_userId project \<noteq> uid then (Status 403 ''Access denied'', s)
    else
    (case find (\<lambda>q. q_projectId q = projectId \<and> q_status q \<in> set activeStatuses)
            (projectQuotes s) of
       Some existingQuote \<Rightarrow> (Status 400 ''Active quote already exists for this project'', s)
     | None \<Rightarrow>
    (let score = (case complexityScore project of
                    Some c \<Rightarrow> lit c
                  | None \<Rightarrow> calculateComplexity (projectType project) (projectScope project)
                              (or_urgency (p_urgency project)));
         s1 = (if complexityScore project = None
               then (case to_decimal 3 2 score of
                       None \<Rightarrow> None
                     | Some c \<Rightarrow>
                      (case update_first (\<lambda>p. p_id p = projectId)
                              (\<lambda>p. p\<lparr>complexityScore := Some c\<rparr>) (projectAssessments s) of
                         None \<Rightarrow> None
                       | Some (_, ps) \<Rightarrow> Some (s\<lparr>projectAssessments := ps\<rparr>)))
               else Some s)
     in case s1 of
          None \<Rightarrow> (Thrown, s)
        | Some s1 \<Rightarrow>
       (case createQuote newId projectId uid (quoteData BASE_RATES project score now) of
          None \<Rightarrow> (Thrown, s1)
        | Some quote \<Rightarrow>
         (let s2 = s1\<lparr>projectQuotes := projectQuotes s1 @ [quote]\<rparr>
          in case update_first (\<lambda>p. p_id p = projectId) (\<lambda>p. p\<lparr>p_status := quote_generated\<rparr>)
                    (projectAssessments s2) of
               None \<Rightarrow> (Thrown, s2)
             | Some (_, ps) \<Rightarrow>
                 (Ok quote,
                  s2\<lparr>projectAssessments := ps,
                     auditLogs := auditLogs s2 @
                       [\<lparr>a_userId = uid, action = ''quote_generated'',
                         entityType = ''quote'', entityId = q_id quote\<rparr>]\<rparr>)))))))"


section \<open>The quote lifecycle\<close>

definition statusName :: "QuoteStatus \<Rightarrow> string" where
  "statusName st = (case st of
       pending \<Rightarrow> ''pending''
     | sent \<Rightarrow> ''sent''
     | accepted \<Rightarrow> ''accepted''
     | declined \<Rightarrow> ''declined''
     | expired \<Rightarrow> ''expired'')"

definition acceptQuote ::
    "int \<Rightarrow> string option \<Rightarrow> string \<Rightarrow> db \<Rightarrow> ProjectQuote response \<times> db" where
  "acceptQuote now userId quoteId s =
    (case userId of
       None \<Rightarrow> (Status 401 ''Unauthorized'', s)
     | Some uid \<Rightarrow>
    (case find (\<lambda>q. q_id q = quoteId) (projectQuotes s) of
       None \<Rightarrow> (Status 404 ''Quote not found'', s)
     | Some quote \<Rightarrow>
    if q_userId quote \<noteq> uid then (Status 403 ''Access denied'', s)
    else if now > validUntil quote then (Status 400 ''Quote has expired'', s)
    else if q_status quote \<noteq> pending \<and> q_status quote \<noteq> sent
      then (Status 400 (''Quote cannot be accepted (status: '' @ statusName (q_status quote) @ '')''), s)
    else
    (case update_first (\<lambda>q. q_id q = quoteId)
            (\<lambda>q. q\<lparr>q_status := accepted, termsAccepted := True, acceptedAt := Some now\<rparr>)
            (projectQuotes s) of
       None \<Rightarrow> (Thrown, s)
     | Some (updatedQuote, qs) \<Rightarrow>
      (let s1 = s\<lparr>projectQuotes := qs\<rparr>
       in case update_first (\<lambda>p. p_id p = q_projectId quote)
                 (\<lambda>p. p\<lparr>p_status := quote_accepted\<rparr>) (projectAssessments s1) of
            None \<Rightarrow> (Thrown, s1)
          | Some (_, ps) \<Rightarrow>
              (Ok updatedQuote,
               s1\<lparr>projectAssessments := ps,
                  auditLogs := auditLogs s1 @
                    [\<lparr>a_userId = uid, action = ''quote_accepted'',
                      entityType = ''quote'', entityId = quoteId\<rparr>]\<rparr>)))))"


section \<open>The bundle pricing calculator\<close>

record RevenueCategory =
  rc_id :: string
  rc_name :: string
  rc_code :: string

record CompanyScale =
  cs_id :: string
  cs_name :: string
  cs_code :: string
  multiplier :: rat

record ComplexityTier =
  rating :: int
  adjustmentMultiplier :: rat

record BasePricing =
  bundleId :: string
  revenueCategoryId :: string
  companyScaleId :: string
  basePrice :: rat

record pricing_db =
  revenueCategories :: "RevenueCategory list"
  companyScales :: "CompanyScale list"
  complexityTiers :: "ComplexityTier list"
  basePricings :: "BasePricing list"

text \<open>
  The plain filter \<^verbatim>\<open>{ code: key }\<close> compares the strings as they are. The filter
  \<^verbatim>\<open>{ equals: key, mode: 'insensitive' }\<close> is evaluated by the database, as the
  case-insensitive pattern match \<^verbatim>\<open>name ILIKE key\<close>; that operator is not code of the
  service, so it is the parameter \<open>ilike\<close> of the queries, applied to the name of the row
  and the key.

  These are the \<^verbatim>\<open>where\<close> clauses of the three \<^verbatim>\<open>findFirst\<close> queries: the code as it is or
  the name under the operator, and the exact triple of the price row.
\<close>

definition categoryMatches ::
    "(string \<Rightarrow> string \<Rightarrow> bool) \<Rightarrow> string \<Rightarrow> RevenueCategory \<Rightarrow> bool" where
  "categoryMatches ilike key c = (rc_code c = key \<or> ilike (rc_name c) key)"

definition scaleMatches ::
    "(string \<Rightarrow> string \<Rightarrow> bool) \<Rightarrow> string \<Rightarrow> CompanyScale \<Rightarrow> bool" where
  "scaleMatches ilike key c = (cs_code c = key \<or> ilike (cs_name c) key)"

definition pricingMatches :: "string \<Rightarrow> RevenueCategory \<Rightarrow> CompanyScale \<Rightarrow> BasePricing \<Rightarrow> bool" where
  "pricingMatches bundle category scale b =
     (bundleId b = bundle \<and> revenueCategoryId b = rc_id category \<and>
      companyScaleId b = cs_id scale)"

record Breakdown =
  b_base :: number
  b_scaleAdjustment :: number
  b_complexityAdjustment :: number

record PricingCalculation =
  basePricing :: number
  scaleMultiplier :: number
  pc_complexityAdjustment :: number
  finalPrice :: number
  breakdown :: Breakdown

text \<open>The three errors that \<^verbatim>\<open>calculatePricing\<close> throws, each with the keys of its message.\<close>

datatype pricing_error =
  CategoryNotFound string
  | ScaleNotFound string
  | PricingNotFound string string string

text \<open>\<^verbatim>\<open>Math.round(x * 100) / 100\<close>.\<close>

definition round2 :: "number \<Rightarrow> number" where
  "round2 x = js_div (Math_round (js_mul x (lit 100))) (lit 100)"

definition calculatePricing ::
    "(string \<Rightarrow> string \<Rightarrow> bool) \<Rightarrow> pricing_db \<Rightarrow> string \<Rightarrow> string \<Rightarrow> string \<Rightarrow> int
       \<Rightarrow> pricing_error + PricingCalculation" where
  "calculatePricing ilike t bundle revenueCategory companyRevenueScale complexityRating =
    (case find (categoryMatches ilike revenueCategory) (revenueCategories t) of
       None \<Rightarrow> Inl (CategoryNotFound revenueCategory)
     | Some revCategory \<Rightarrow>
    (case find (scaleMatches ilike companyRevenueScale) (companyScales t) of
       None \<Rightarrow> Inl (ScaleNotFound companyRevenueScale)
     | Some scale \<Rightarrow>
    (case find (pricingMatches bundle revCategory scale) (basePricings t) of
       None \<Rightarrow> Inl (PricingNotFound bundle revenueCategory companyRevenueScale)
     | Some pricing \<Rightarrow>
    (let complexityTier = find (\<lambda>c. rating c = complexityRating) (complexityTiers t);
         complexityMultiplier =
           (case complexityTier of
              Some tier \<Rightarrow> lit (adjustmentMultiplier tier)
            | None \<Rightarrow> lit 1);
         base = lit (basePrice pricing);
         scaleMult = lit (multiplier scale);
         scaleAdjustment = js_mul base (js_sub scaleMult (lit 1));
         complexityAdjustmentValue =
           js_mul (js_add base scaleAdjustment) (js_sub complexityMultiplier (lit 1));
         price = js_add (js_add base scaleAdjustment) complexityAdjustmentValue
     in Inr \<lparr>basePricing = base,
              scaleMultiplier = scaleMult,
              pc_complexityAdjustment = complexityMultiplier,
              finalPrice = round2 price,
              breakdown = \<lparr>b_base = base,
                            b_scaleAdjustment = round2 scaleAdjustment,
                            b_complexityAdjustment = round2 complexityAdjustmentValue\<rparr>\<rparr>))))"

text \<open>
  The operator as PostgreSQL evaluates it, for the examples below: both strings are
  folded to lower case (here the letters of ASCII), then the key is matched as a
  \<^verbatim>\<open>LIKE\<close> pattern against the whole name. In the pattern \<^verbatim>\<open>%\<close> stands for any sequence of
  characters, \<^verbatim>\<open>_\<close> for any one character, and a backslash makes the character after it
  stand for itself. A pattern that ends in a lone backslash matches nothing here; the
  database refuses it with an error when the match reaches that place.
\<close>

definition lower_char :: "char \<Rightarrow> char" where
  "lower_char c =
     (let n = (of_char c :: nat) in if 65 \<le> n \<and> n \<le> 90 then char_of (n + 32) else c)"

fun like_match :: "string \<Rightarrow> string \<Rightarrow> bool" where
  "like_match [] t = (t = [])"
| "like_match (p # ps) t =
     (if p = CHR ''%'' then
        (like_match ps t \<or> (case t of [] \<Rightarrow> False | c # cs \<Rightarrow> like_match (p # ps) cs))
      else if p = CHR ''_'' then
        (case t of [] \<Rightarrow> False | c # cs \<Rightarrow> like_match ps cs)
      else if p = CHR 0x5C then
        (case ps of
           [] \<Rightarrow> False
         | e # es \<Rightarrow> (case t of [] \<Rightarrow> False | c # cs \<Rightarrow> e = c \<and> like_match es cs))
      else (case t of [] \<Rightarrow> False | c # cs \<Rightarrow> p = c \<and> like_match ps cs))"

definition pg_ilike :: "string \<Rightarrow> string \<Rightarrow> bool" where
  "pg_ilike name key = like_match (map lower_char key) (map lower_char name)"

section \<open>Example data\<close>

text \<open>
  The project of the specification's worked example: type \<^verbatim>\<open>fullstack\<close>, four features, two
  \<^verbatim>\<open>payment\<close> integrations, no timeline in the scope, urgency \<^verbatim>\<open>urgent\<close>, no complexity score
  stored yet; and the quote that \<^verbatim>\<open>generateQuote\<close> stores for it at the instant \<open>now\<close>.
\<close>

definition ex_scope :: Scope where
  "ex_scope = \<lparr>features = Some [''f1'', ''f2'', ''f3'', ''f4''],
     integrations = Some [\<lparr>itype = ''payment''\<rparr>, \<lparr>itype = ''payment''\<rparr>],
     timeline = None\<rparr>"

definition ex_project :: ProjectAssessment where
  "ex_project = \<lparr>p_id = ''p1'', p_userId = ''u1'', projectType = fullstack,
     projectScope = Some ex_scope, p_urgency = Some urgent, complexityScore = None,
     p_status = initiated\<rparr>"

definition ex_db :: db where
  "ex_db = \<lparr>projectAssessments = [ex_project], projectQuotes = [], auditLogs = []\<rparr>"

definition ex_quote :: "int \<Rightarrow> ProjectQuote" where
  "ex_quote now = \<lparr>q_id = ''q1'', q_projectId = ''p1'', q_userId = ''u1'',
     baseRate = 8000, complexityAdjustment = 4000, urgencyAdjustment = 2400,
     totalEstimate = 14400, notToExceed = 16560,
     estimatedTimelineWeeks = Some 12, deliveryDate = Some (to_date (now + 84 * msPerDay)),
     paymentStructure = Some \<lparr>deposit = Fin 4320, milestone_1 = Fin 4320,
       milestone_2 = Fin 2880, final = Fin 2880\<rparr>,
     termsAccepted = False, acceptedAt = None, validUntil = to_date (now + 30 * msPerDay),
     q_status = pending, metadata = Map.empty\<rparr>"

text \<open>The store after that quote has been generated at the instant 0.\<close>

definition ex_db_quoted :: db where
  "ex_db_quoted =
     \<lparr>projectAssessments =
        [ex_project\<lparr>complexityScore := Some (61 / 10), p_status := quote_generated\<rparr>],
      projectQuotes = [ex_quote 0],
      auditLogs = [\<lparr>a_userId = ''u1'', action = ''quote_generated'',
                    entityType = ''quote'', entityId = ''q1''\<rparr>]\<rparr>"

text \<open>The same store with the quote already accepted.\<close>

definition ex_db_accepted :: db where
  "ex_db_accepted = ex_db_quoted\<lparr>projectQuotes := [(ex_quote 0)\<lparr>q_status := accepted\<rparr>]\<rparr>"



text \<open>Rows of the pricing tables as the seeding endpoint writes them.\<close>

definition ex_pricing_db :: pricing_db where
  "ex_pricing_db =
     \<lparr>revenueCategories =
        [\<lparr>rc_id = ''rc1'', rc_name = ''SaaS'', rc_code = ''saas''\<rparr>,
         \<lparr>rc_id = ''rc2'', rc_name = ''E-Commerce'', rc_code = ''ecommerce''\<rparr>],
      companyScales =
        [\<lparr>cs_id = ''cs1'', cs_name = ''Medium ($1M - $10M)'', cs_code = ''medium_10m'',
          multiplier = 3 / 2\<rparr>,
         \<lparr>cs_id = ''cs2'', cs_name = ''Pre-Revenue'', cs_code = ''pre_revenue'',
          multiplier = 4 / 5\<rparr>],
      complexityTiers = [\<lparr>rating = 7, adjustmentMultiplier = 27 / 20\<rparr>],
      basePricings =
        [\<lparr>bundleId = ''bundle_saas_starter'', revenueCategoryId = ''rc1'',
          companyScaleId = ''cs1'', basePrice = 5000\<rparr>]\<rparr>"










section \<open>Predicates of the stated properties\<close>

text \<open>The quotes of a project that count as active, and the invariant on them.\<close>

definition activeQuotes :: "db \<Rightarrow> string \<Rightarrow> ProjectQuote list" where
  "activeQuotes s pid =
     filter (\<lambda>q. q_projectId q = pid \<and> q_status q \<in> set activeStatuses) (projectQuotes s)"

definition at_most_one_active :: "db \<Rightarrow> bool" where
  "at_most_one_active s =
     list_all (\<lambda>q. length (activeQuotes s (q_projectId q)) \<le> 1) (projectQuotes s)"


text \<open>A finite number within two bounds.\<close>

definition number_between :: "rat \<Rightarrow> rat \<Rightarrow> number \<Rightarrow> bool" where
  "number_between l h n = (case n of Fin y \<Rightarrow> l \<le> y \<and> y \<le> h | _ \<Rightarrow> False)"

text \<open>The base contribution of a project type to its complexity score.\<close>

definition baseContribution :: "ProjectType \<Rightarrow> rat" where
  "baseContribution T = (case T of creative \<Rightarrow> 1 | fullstack \<Rightarrow> 2 | web3 \<Rightarrow> 3 | ai_automation \<Rightarrow> 5 / 2)"



section \<open>Properties of binary64 rounding\<close>

text \<open>
  Rounding is monotone, leaves a representable value as it is, and is determined by the
  binade of its argument and the nearest multiple of the spacing there. The last fact
  evaluates an operation at given operands inside the logic.
\<close>

lemma pow2_less_iff: "(2::rat) powi a < 2 powi b \<longleftrightarrow> a < b"
proof
  assume h: "(2::rat) powi a < 2 powi b"
  show "a < b"
  proof (rule ccontr)
    assume "\<not> a < b"
    then have "b \<le> a" by simp
    then have "(2::rat) powi b \<le> 2 powi a" by (intro power_int_increasing) auto
    with h show False by simp
  qed
next
  assume "a < b" then show "(2::rat) powi a < 2 powi b"
    by (intro power_int_strict_increasing) auto
qed

lemma pow2_le_iff: "(2::rat) powi a \<le> 2 powi b \<longleftrightarrow> a \<le> b"
  using pow2_less_iff [of b a] by (auto simp: not_less [symmetric])

lemma pow2_Suc: "(2::rat) powi (e + 1) = 2 * 2 powi e"
  by (simp add: power_int_add)

lemma floor_log2_bounds:
  assumes "0 < x"
  shows "2 powi floor_log2 x \<le> x" and "x < 2 powi (floor_log2 x + 1)"
proof -
  have "2 powi floor_log2 x \<le> x \<and> x < 2 powi (floor_log2 x + 1)"
  proof (cases "1 \<le> x")
    case True
    define n where "n = \<lfloor>x\<rfloor>"
    have n1: "1 \<le> n" using True by (simp add: n_def le_floor_iff)
    then have n0: "0 < n" by simp
    have b1: "1 \<le> bitlen n" using n0 bitlen_eq_zero_iff [of n] bitlen_nonneg [of n] by linarith
    from bitlen_bounds [OF n0]
    have lo: "2 ^ nat (bitlen n - 1) \<le> n" and hi: "n < 2 ^ nat (bitlen n)" by auto
    have e: "floor_log2 x = bitlen n - 1" using True by (simp add: floor_log2_def n_def)
    have "(2::rat) powi (bitlen n - 1) = 2 ^ nat (bitlen n - 1)"
      using b1 by (simp add: power_int_def)
    also have "\<dots> = of_int (2 ^ nat (bitlen n - 1))" by simp
    also have "\<dots> \<le> of_int n" using lo by (simp only: of_int_le_iff)
    also have "\<dots> \<le> x" by (simp add: n_def)
    finally have A: "2 powi floor_log2 x \<le> x" by (simp add: e)
    have "n + 1 \<le> 2 ^ nat (bitlen n)" using hi by simp
    then have "(of_int (n + 1) :: rat) \<le> of_int (2 ^ nat (bitlen n))" by (simp only: of_int_le_iff)
    moreover have "x < of_int (n + 1)" using floor_correct [of x] by (simp add: n_def)
    ultimately have "x < (of_int (2 ^ nat (bitlen n)) :: rat)" by linarith
    also have "\<dots> = 2 powi (bitlen n)" using b1 by (simp add: power_int_def)
    finally have B: "x < 2 powi (floor_log2 x + 1)" by (simp add: e)
    from A B show ?thesis by simp
  next
    case False
    define y where "y = 1 / x"
    define m where "m = \<lceil>y\<rceil> - 1"
    have y1: "1 < y" using False assms by (simp add: y_def)
    have m1: "1 \<le> m" using y1 by (simp add: m_def less_ceiling_iff)
    then have m0: "0 < m" by simp
    have my: "of_int m < y" using ceiling_correct [of y] by (simp add: m_def)
    have ym: "y \<le> of_int (m + 1)" using ceiling_correct [of y] by (simp add: m_def)
    have b1: "1 \<le> bitlen m" using m0 bitlen_eq_zero_iff [of m] bitlen_nonneg [of m] by linarith
    from bitlen_bounds [OF m0]
    have lo: "2 ^ nat (bitlen m - 1) \<le> m" and hi: "m < 2 ^ nat (bitlen m)" by auto
    have e: "floor_log2 x = - bitlen m" using False by (simp add: floor_log2_def m_def y_def)
    have "m + 1 \<le> 2 ^ nat (bitlen m)" using hi by simp
    then have "(of_int (m + 1) :: rat) \<le> of_int (2 ^ nat (bitlen m))" by (simp only: of_int_le_iff)
    with ym have "y \<le> (of_int (2 ^ nat (bitlen m)) :: rat)" by linarith
    also have "\<dots> = 2 powi (bitlen m)" using b1 by (simp add: power_int_def)
    finally have "1 / x \<le> 2 powi (bitlen m)" by (simp add: y_def)
    then have "1 \<le> 2 powi (bitlen m) * x" using assms by (simp add: field_simps)
    then have A: "2 powi (- bitlen m) \<le> x"
      by (simp add: power_int_minus field_simps)
    have "(of_int (2 ^ nat (bitlen m - 1)) :: rat) \<le> of_int m" using lo by (simp only: of_int_le_iff)
    with my have "(of_int (2 ^ nat (bitlen m - 1)) :: rat) < y" by linarith
    moreover have "(of_int (2 ^ nat (bitlen m - 1)) :: rat) = 2 powi (bitlen m - 1)"
      using b1 by (simp add: power_int_def)
    ultimately have "2 powi (bitlen m - 1) < 1 / x" by (simp add: y_def)
    then have h: "x * 2 powi (bitlen m - 1) < 1" using assms by (simp add: field_simps)
    have P0: "0 < (2::rat) powi (bitlen m - 1)" by simp
    have "x < 1 / 2 powi (bitlen m - 1)" using h P0 by (simp add: pos_less_divide_eq)
    also have "1 / 2 powi (bitlen m - 1) = (2::rat) powi (- bitlen m + 1)"
      using power_int_minus_divide [of "2::rat" "bitlen m - 1"] by simp
    finally have B: "x < 2 powi (- bitlen m + 1)" .
    from A B show ?thesis by (simp add: e)
  qed
  then show "2 powi floor_log2 x \<le> x" and "x < 2 powi (floor_log2 x + 1)" by auto
qed

lemma floor_log2_unique:
  assumes "2 powi e \<le> x" and "x < 2 powi (e + 1)"
  shows "floor_log2 x = e"
proof -
  have x0: "0 < x" using assms(1) zero_less_power_int [of "2::rat" e] by linarith
  note b = floor_log2_bounds [OF x0]
  have "(2::rat) powi e < 2 powi (floor_log2 x + 1)" using assms(1) b(2) by linarith
  then have 1: "e < floor_log2 x + 1" by (simp only: pow2_less_iff)
  have "(2::rat) powi floor_log2 x < 2 powi (e + 1)" using assms(2) b(1) by linarith
  then have 2: "floor_log2 x < e + 1" by (simp only: pow2_less_iff)
  from 1 2 show ?thesis by simp
qed

lemma floor_log2_mono:
  assumes "0 < x" and "x \<le> y"
  shows "floor_log2 x \<le> floor_log2 y"
proof -
  have y0: "0 < y" using assms by simp
  have "2 powi floor_log2 x \<le> x" by (rule floor_log2_bounds [OF assms(1)])
  also have "x \<le> y" by fact
  also have "y < 2 powi (floor_log2 y + 1)" by (rule floor_log2_bounds [OF y0])
  finally have "floor_log2 x < floor_log2 y + 1" by (simp only: pow2_less_iff)
  then show ?thesis by simp
qed

lemma rhe_spec:
  "\<bar>a - of_int (round_half_even a)\<bar> < 1 / 2 \<or>
   (\<bar>a - of_int (round_half_even a)\<bar> = 1 / 2 \<and> even (round_half_even a))"
proof -
  define f where "f = \<lfloor>a\<rfloor>"
  have 1: "of_int f \<le> a" and 2: "a < of_int f + 1"
    using floor_correct [of a] by (simp_all add: f_def)
  have r: "round_half_even a =
    (if a - of_int f < 1 / 2 then f else if 1 / 2 < a - of_int f then f + 1
     else if even f then f else f + 1)"
    by (simp add: round_half_even_def Let_def f_def)
  show ?thesis using 1 2 unfolding r by (auto simp: abs_if)
qed

lemma rhe_eqI:
  assumes "\<bar>a - of_int m\<bar> < 1 / 2 \<or> (\<bar>a - of_int m\<bar> = 1 / 2 \<and> even m)"
  shows "round_half_even a = m"
proof -
  define n where "n = round_half_even a"
  have sp: "\<bar>a - of_int n\<bar> < 1 / 2 \<or> (\<bar>a - of_int n\<bar> = 1 / 2 \<and> even n)"
    unfolding n_def by (rule rhe_spec)
  have d: "\<bar>(of_int n :: rat) - of_int m\<bar> \<le> 1" using assms sp by (auto simp: abs_if split: if_splits)
  then have "\<bar>(of_int (n - m) :: rat)\<bar> \<le> of_int 1" by simp
  then have d1: "\<bar>n - m\<bar> \<le> 1" by (simp only: of_int_abs [symmetric] of_int_le_iff)
  have "n = m"
  proof (rule ccontr)
    assume ne: "n \<noteq> m"
    with d1 have c: "n = m + 1 \<or> n = m - 1" by auto
    then have par: "even n \<longleftrightarrow> odd m" by auto
    from c have "\<bar>(of_int n :: rat) - of_int m\<bar> = 1" by auto
    with assms sp have "\<bar>a - of_int n\<bar> = 1 / 2 \<and> \<bar>a - of_int m\<bar> = 1 / 2"
      by (auto simp: abs_if split: if_splits)
    with assms sp have "even n \<and> even m" by auto
    with par show False by simp
  qed
  then show ?thesis by (simp add: n_def)
qed

lemma rhe_of_int: "round_half_even (of_int n) = n"
  by (rule rhe_eqI) simp

lemma rhe_neg: "round_half_even (- a) = - round_half_even a"
proof (rule rhe_eqI)
  have "\<bar>- a - of_int (- round_half_even a)\<bar> = \<bar>a - of_int (round_half_even a)\<bar>"
    by (simp add: abs_if)
  then show "\<bar>- a - of_int (- round_half_even a)\<bar> < 1 / 2 \<or>
    (\<bar>- a - of_int (- round_half_even a)\<bar> = 1 / 2 \<and> even (- round_half_even a))"
    using rhe_spec [of a] by auto
qed

lemma rhe_mono:
  assumes "a \<le> b"
  shows "round_half_even a \<le> round_half_even b"
proof (rule ccontr)
  define m where "m = round_half_even a"
  define n where "n = round_half_even b"
  assume "\<not> round_half_even a \<le> round_half_even b"
  then have "n + 1 \<le> m" by (simp add: m_def n_def)
  then have mn: "(of_int n :: rat) + 1 \<le> of_int m"
    by (metis of_int_1 of_int_add of_int_le_iff)
  have sa: "\<bar>a - of_int m\<bar> \<le> 1 / 2" using rhe_spec [of a] by (auto simp: m_def)
  have sb: "\<bar>b - of_int n\<bar> \<le> 1 / 2" using rhe_spec [of b] by (auto simp: n_def)
  from sa sb mn assms have "a = b" by (auto simp: abs_if split: if_splits)
  then have "m = n" by (simp add: m_def n_def)
  with \<open>n + 1 \<le> m\<close> show False by simp
qed

lemma rhe_le_int: "a \<le> of_int N \<Longrightarrow> round_half_even a \<le> N"
  using rhe_mono [of a "of_int N"] by (simp add: rhe_of_int)

lemma rhe_ge_int: "of_int N \<le> a \<Longrightarrow> N \<le> round_half_even a"
  using rhe_mono [of "of_int N" a] by (simp add: rhe_of_int)

lemma pow2_shift: "(2::rat) powi (e + int n) = 2 ^ n * 2 powi e"
  by (simp add: power_int_add)

lemma pow2_shift53: "(2::rat) powi (E + 1) = 2 ^ 53 * 2 powi (E - 52)"
  using pow2_shift [of "E - 52" 53] by (simp add: add.commute)

lemma pow2_shift52: "(2::rat) powi E = 2 ^ 52 * 2 powi (E - 52)"
  using pow2_shift [of "E - 52" 52] by simp

lemma quantum_pos: "0 < quantum x"
  by (simp add: quantum_def)

lemma quantum_neg: "quantum (- x) = quantum x"
  by (simp add: quantum_def)

lemma quantum_eqI:
  assumes "2 powi e \<le> \<bar>x\<bar>" and "\<bar>x\<bar> < 2 powi (e + 1)"
  shows "quantum x = 2 powi (max e (- 1022) - 52)"
  by (simp add: quantum_def floor_log2_unique [OF assms])

lemma fl_0: "fl 0 = 0"
  by (simp add: fl_def)

lemma fl_neg: "fl (- x) = - fl x"
  by (simp add: fl_def quantum_neg rhe_neg)

lemma fl_eqI:
  assumes "2 powi e \<le> \<bar>x\<bar>" and "\<bar>x\<bar> < 2 powi (e + 1)"
    and "q = 2 powi (max e (- 1022) - 52)"
    and "\<bar>x / q - of_int m\<bar> < 1 / 2 \<or> (\<bar>x / q - of_int m\<bar> = 1 / 2 \<and> even m)"
  shows "fl x = of_int m * q"
proof -
  have "0 < \<bar>x\<bar>" using assms(1) zero_less_power_int [of "2::rat" e] by linarith
  then have x0: "x \<noteq> 0" by simp
  have q: "quantum x = q" using quantum_eqI [OF assms(1,2)] assms(3) by simp
  show ?thesis using x0 rhe_eqI [OF assms(4)] by (simp add: fl_def q)
qed

text \<open>The exponent that fixes the spacing around a nonzero \<open>x\<close>, and what it bounds.\<close>

lemma quantum_bounds:
  assumes "x \<noteq> 0"
  defines "E \<equiv> max (floor_log2 \<bar>x\<bar>) (- 1022)"
  shows "quantum x = 2 powi (E - 52)" and "\<bar>x\<bar> < 2 powi (E + 1)"
    and "- 1022 \<le> E" and "- 1022 < E \<Longrightarrow> 2 powi E \<le> \<bar>x\<bar>"
proof -
  have ax: "0 < \<bar>x\<bar>" using assms(1) by simp
  show "quantum x = 2 powi (E - 52)" by (simp add: quantum_def E_def)
  have "\<bar>x\<bar> < 2 powi (floor_log2 \<bar>x\<bar> + 1)" by (rule floor_log2_bounds [OF ax])
  also have "\<dots> \<le> 2 powi (E + 1)" by (simp add: pow2_le_iff E_def)
  finally show "\<bar>x\<bar> < 2 powi (E + 1)" .
  show "- 1022 \<le> E" by (simp add: E_def)
  assume "- 1022 < E"
  then have "E = floor_log2 \<bar>x\<bar>" by (simp add: E_def max_def split: if_splits)
  then show "2 powi E \<le> \<bar>x\<bar>" using floor_log2_bounds(1) [OF ax] by simp
qed

lemma fl_exact:
  assumes "\<bar>m\<bar> < 2 ^ 53" and "- 1074 \<le> k"
  shows "fl (of_int m * 2 powi k) = of_int m * 2 powi k"
proof (cases "m = 0")
  case True
  then show ?thesis by (simp add: fl_0)
next
  case False
  define x :: rat where "x = of_int m * 2 powi k"
  have x0: "x \<noteq> 0" using False by (simp add: x_def)
  define E where "E = max (floor_log2 \<bar>x\<bar>) (- 1022)"
  note qb = quantum_bounds [OF x0, folded E_def]
  have ax: "\<bar>x\<bar> = of_int \<bar>m\<bar> * 2 powi k" by (simp add: x_def abs_mult)
  have "(of_int \<bar>m\<bar> :: rat) < of_int (2 ^ 53)" using assms(1) by (simp only: of_int_less_iff)
  then have "of_int \<bar>m\<bar> * 2 powi k < (2::rat) ^ 53 * 2 powi k"
    by (intro mult_strict_right_mono) simp_all
  also have "\<dots> = 2 powi (53 + k)" by (simp add: power_int_add)
  finally have up: "\<bar>x\<bar> < 2 powi (53 + k)" by (simp add: ax)
  have "E - 52 \<le> k"
  proof (cases "- 1022 < E")
    case True
    from qb(4) [OF True] up have "(2::rat) powi E < 2 powi (53 + k)" by linarith
    then have "E < 53 + k" by (simp only: pow2_less_iff)
    then show ?thesis by simp
  next
    case False
    with qb(3) have "E = - 1022" by simp
    with assms(2) show ?thesis by simp
  qed
  then obtain j where j: "k = E - 52 + int j"
    by (metis add.commute diff_add_cancel nonneg_int_cases diff_ge_0_iff_ge)
  have "x / quantum x = of_int m * (2 powi k / 2 powi (E - 52))"
    unfolding qb(1) by (simp add: x_def)
  also have "2 powi k / 2 powi (E - 52) = (2::rat) ^ j"
    by (simp add: j power_int_add)
  finally have "x / quantum x = of_int (m * 2 ^ j)" by simp
  then have "round_half_even (x / quantum x) = m * 2 ^ j" by (simp only: rhe_of_int)
  then have "fl x = of_int (m * 2 ^ j) * 2 powi (E - 52)" using x0 by (simp add: fl_def qb(1))
  also have "\<dots> = of_int m * ((2::rat) ^ j * 2 powi (E - 52))" by simp
  also have "(2::rat) ^ j * 2 powi (E - 52) = 2 powi k" by (simp add: j power_int_add)
  finally show ?thesis by (simp add: x_def)
qed

lemma fl_of_int: "\<bar>n\<bar> < 2 ^ 53 \<Longrightarrow> fl (of_int n) = of_int n"
  using fl_exact [of n 0] by simp

lemma fl_nonneg: "0 \<le> x \<Longrightarrow> 0 \<le> fl x"
proof -
  assume x: "0 \<le> x"
  have "0 \<le> x / quantum x" using x quantum_pos [of x] by simp
  then have "0 \<le> round_half_even (x / quantum x)" using rhe_ge_int [of 0] by simp
  then show ?thesis using quantum_pos [of x] by (simp add: fl_def)
qed

lemma fl_upper:
  assumes "x \<noteq> 0"
  shows "\<bar>fl x\<bar> \<le> 2 powi (max (floor_log2 \<bar>x\<bar>) (- 1022) + 1)"
proof -
  define E where "E = max (floor_log2 \<bar>x\<bar>) (- 1022)"
  note qb = quantum_bounds [OF assms, folded E_def]
  define q where "q = quantum x"
  have q0: "0 < q" by (simp add: q_def quantum_pos)
  have qq: "(2::rat) powi (E + 1) = 2 ^ 53 * q"
    using pow2_shift53 [of E] by (simp add: q_def qb(1))
  have "\<bar>x\<bar> / q < 2 ^ 53" using qb(2) q0 by (simp add: qq field_simps)
  moreover have "\<bar>q\<bar> = q" using q0 by simp
  ultimately have "\<bar>x / q\<bar> \<le> of_int (2 ^ 53)" by (simp add: abs_divide)
  then have b1: "x / q \<le> of_int (2 ^ 53)" and b2: "of_int (- (2 ^ 53)) \<le> x / q"
    by (simp_all add: abs_if split: if_splits)
  have "round_half_even (x / q) \<le> 2 ^ 53" using b1 by (rule rhe_le_int)
  moreover have "- (2 ^ 53) \<le> round_half_even (x / q)" using b2 by (rule rhe_ge_int)
  ultimately have "\<bar>round_half_even (x / q)\<bar> \<le> 2 ^ 53" by simp
  then have "\<bar>(of_int (round_half_even (x / q)) :: rat)\<bar> \<le> of_int (2 ^ 53)"
    by (simp only: of_int_abs [symmetric] of_int_le_iff)
  then have "\<bar>(of_int (round_half_even (x / q)) :: rat)\<bar> * q \<le> 2 ^ 53 * q"
    using q0 by (intro mult_right_mono) simp_all
  then show ?thesis using assms q0 by (simp add: fl_def q_def [symmetric] abs_mult qq E_def [symmetric])
qed

lemma fl_lower:
  assumes "0 < x" and "- 1022 < floor_log2 x"
  shows "2 powi (floor_log2 x) \<le> fl x"
proof -
  have x0: "x \<noteq> 0" using assms by simp
  define E where "E = max (floor_log2 \<bar>x\<bar>) (- 1022)"
  have EE: "E = floor_log2 x" using assms by (simp add: E_def)
  note qb = quantum_bounds [OF x0, folded E_def]
  define q where "q = quantum x"
  have q0: "0 < q" by (simp add: q_def quantum_pos)
  have qq: "(2::rat) powi E = 2 ^ 52 * q"
    using pow2_shift52 [of E] by (simp add: q_def qb(1))
  have "2 powi E \<le> x" using qb(4) assms by (simp add: EE)
  then have "of_int (2 ^ 52) \<le> x / q" using q0 by (simp add: qq field_simps)
  then have "2 ^ 52 \<le> round_half_even (x / q)" by (rule rhe_ge_int)
  then have "(of_int (2 ^ 52) :: rat) \<le> of_int (round_half_even (x / q))"
    by (simp only: of_int_le_iff)
  then have "2 ^ 52 * q \<le> of_int (round_half_even (x / q)) * q"
    using q0 by (intro mult_right_mono) simp_all
  then have "2 powi E \<le> of_int (round_half_even (x / q)) * q" by (simp only: qq [symmetric])
  then show ?thesis using x0 by (simp add: fl_def q_def [symmetric] EE [symmetric])
qed

lemma fl_mono_pos:
  assumes "0 < x" and "x \<le> y"
  shows "fl x \<le> fl y"
proof -
  have y0: "0 < y" using assms by simp
  define Ex where "Ex = max (floor_log2 \<bar>x\<bar>) (- 1022)"
  define Ey where "Ey = max (floor_log2 \<bar>y\<bar>) (- 1022)"
  have le: "Ex \<le> Ey" using floor_log2_mono [OF assms] assms y0 by (simp add: Ex_def Ey_def max_def)
  show ?thesis
  proof (cases "Ex = Ey")
    case True
    then have q: "quantum x = quantum y" by (simp add: quantum_def Ex_def Ey_def)
    have "x / quantum y \<le> y / quantum y" using assms quantum_pos [of y] by (simp add: divide_right_mono)
    then have "round_half_even (x / quantum y) \<le> round_half_even (y / quantum y)" by (rule rhe_mono)
    then have "(of_int (round_half_even (x / quantum y)) :: rat) \<le> of_int (round_half_even (y / quantum y))"
      by (simp only: of_int_le_iff)
    then have "of_int (round_half_even (x / quantum y)) * quantum y \<le> of_int (round_half_even (y / quantum y)) * quantum y"
      using quantum_pos [of y] by (intro mult_right_mono) simp_all
    then show ?thesis using assms y0 by (simp add: fl_def q)
  next
    case False
    with le have lt: "Ex < Ey" by simp
    then have "- 1022 < Ey" by (simp add: Ex_def)
    then have n: "- 1022 < floor_log2 y" and EE: "Ey = floor_log2 y"
      using y0 by (simp_all add: Ey_def max_def split: if_splits)
    have "fl x \<le> \<bar>fl x\<bar>" by simp
    also have "\<dots> \<le> 2 powi (Ex + 1)" using fl_upper [of x] assms by (simp add: Ex_def)
    also have "\<dots> \<le> 2 powi Ey" using lt by (simp add: pow2_le_iff)
    also have "\<dots> \<le> fl y" using fl_lower [OF y0 n] by (simp add: EE)
    finally show ?thesis .
  qed
qed

lemma fl_mono:
  assumes "x \<le> y"
  shows "fl x \<le> fl y"
proof -
  consider "0 < x" | "x \<le> 0" "0 \<le> y" | "y < 0" using assms by linarith
  then show ?thesis
  proof cases
    case 1
    then show ?thesis using assms by (rule fl_mono_pos)
  next
    case 2
    have "fl x = - fl (- x)" by (simp add: fl_neg)
    moreover have "0 \<le> fl (- x)" using 2 by (intro fl_nonneg) simp
    moreover have "0 \<le> fl y" using 2 by (intro fl_nonneg)
    ultimately show ?thesis by simp
  next
    case 3
    then have "0 < - y" "- y \<le> - x" using assms by simp_all
    then have "fl (- y) \<le> fl (- x)" by (rule fl_mono_pos)
    then show ?thesis by (simp add: fl_neg)
  qed
qed


lemma rnd_eqI:
  assumes "2 powi e \<le> \<bar>x\<bar>" and "\<bar>x\<bar> < 2 powi (e + 1)" and "e \<le> 1022"
    and "\<bar>x / 2 powi (max e (- 1022) - 52) - of_int m\<bar> < 1 / 2 \<or>
         (\<bar>x / 2 powi (max e (- 1022) - 52) - of_int m\<bar> = 1 / 2 \<and> even m)"
    and "y = of_int m * 2 powi (max e (- 1022) - 52)"
  shows "rnd x = Fin y"
proof -
  have fx: "fl x = y" using fl_eqI [OF assms(1,2) refl assms(4)] assms(5) by simp
  have "0 < \<bar>x\<bar>" using assms(1) zero_less_power_int [of "2::rat" e] by linarith
  then have x0: "x \<noteq> 0" by simp
  have "\<bar>fl x\<bar> \<le> 2 powi (max e (- 1022) + 1)"
    using fl_upper [OF x0] by (simp add: floor_log2_unique [OF assms(1,2)])
  also have "\<dots> \<le> 2 powi 1023" using assms(3) by (simp only: pow2_le_iff)
  also have "\<dots> < 2 ^ 1024" by simp
  finally show ?thesis by (simp add: rnd_def Let_def fx [symmetric])
qed

lemma rnd_exact:
  assumes "\<bar>m\<bar> < 2 ^ 53" and "- 1074 \<le> k" and "k \<le> 970"
  shows "rnd (of_int m * 2 powi k) = Fin (of_int m * 2 powi k)"
proof -
  have "\<bar>of_int m * (2::rat) powi k\<bar> = of_int \<bar>m\<bar> * 2 powi k" by (simp add: abs_mult)
  also have "\<dots> \<le> of_int (2 ^ 53) * 2 powi k"
  proof (rule mult_right_mono)
    have "\<bar>m\<bar> \<le> 2 ^ 53" using assms(1) by simp
    then show "(of_int \<bar>m\<bar> :: rat) \<le> of_int (2 ^ 53)" by (simp only: of_int_le_iff)
    show "0 \<le> (2::rat) powi k" by simp
  qed
  also have "\<dots> \<le> of_int (2 ^ 53) * 2 powi 970"
  proof (rule mult_left_mono)
    show "(2::rat) powi k \<le> 2 powi 970" using assms(3) by (simp only: pow2_le_iff)
    show "0 \<le> (of_int (2 ^ 53) :: rat)" by simp
  qed
  also have "\<dots> < 2 ^ 1024" by simp
  finally show ?thesis by (simp add: rnd_def Let_def fl_exact [OF assms(1,2)])
qed

lemma rnd_of_int: "\<bar>n\<bar> < 2 ^ 53 \<Longrightarrow> rnd (of_int n) = Fin (of_int n)"
  using rnd_exact [of n 0] by simp

lemma rnd_numeral: "(numeral n :: int) < 2 ^ 53 \<Longrightarrow> rnd (numeral n) = Fin (numeral n)"
  using rnd_of_int [of "numeral n"] by simp

lemma rnd_0: "rnd 0 = Fin 0"
  using rnd_of_int [of 0] by simp

lemma rnd_1: "rnd 1 = Fin 1"
  using rnd_of_int [of 1] by simp

text \<open>The integer roundings at given operands.\<close>

lemma Math_round_eqI:
  "of_int r \<le> a + 1 / 2 \<Longrightarrow> a + 1 / 2 < of_int r + 1 \<Longrightarrow> Math_round (Fin a) = Fin (of_int r)"
  by (simp add: floor_unique)

lemma Math_ceil_eqI:
  "of_int r - 1 < a \<Longrightarrow> a \<le> of_int r \<Longrightarrow> Math_ceil (Fin a) = Fin (of_int r)"
  by (simp add: ceiling_unique)

lemma js_div_Fin: "b \<noteq> 0 \<Longrightarrow> js_div (Fin a) (Fin b) = rnd (a / b)"
  by simp

lemmas js_ops =
  js_add.simps js_mul.simps js_div.simps Math_round.simps Math_ceil.simps to_decimal.simps

section \<open>Properties of the column coercion\<close>

text \<open>
  The decimal of 16 significant digits is determined by the decade of its argument and
  the nearest multiple of the last digit's unit there; it never crosses a multiple of
  that unit, so a whole number of at most 16 digits is written as it is and bounds
  what is written for a smaller number.
\<close>

lemma pow10_less_iff: "(10::rat) powi a < 10 powi b \<longleftrightarrow> a < b"
proof
  assume h: "(10::rat) powi a < 10 powi b"
  show "a < b"
  proof (rule ccontr)
    assume "\<not> a < b"
    then have "b \<le> a" by simp
    then have "(10::rat) powi b \<le> 10 powi a" by (intro power_int_increasing) auto
    with h show False by simp
  qed
next
  assume "a < b" then show "(10::rat) powi a < 10 powi b"
    by (intro power_int_strict_increasing) auto
qed


lemma pow10_nat: "(10::rat) powi (int n) = 10 ^ n"
  by (simp add: power_int_def)

lemma floor_log10_bounds:
  assumes "0 < x"
  shows "10 powi floor_log10 x \<le> x" and "x < 10 powi (floor_log10 x + 1)"
proof -
  have "10 powi floor_log10 x \<le> x \<and> x < 10 powi (floor_log10 x + 1)"
  proof (cases "1 \<le> x")
    case True
    define n where "n = nat \<lfloor>x\<rfloor>"
    define d where "d = floorlog 10 n"
    have n1: "1 \<le> \<lfloor>x\<rfloor>" using True by (simp add: le_floor_iff)
    then have n0: "0 < n" by (simp add: n_def)
    have nx: "(of_nat n :: rat) = of_int \<lfloor>x\<rfloor>" using n1 by (simp add: n_def)
    from floorlog_bounds [of n 10] n0
    have lo: "10 ^ (d - 1) \<le> n" and hi: "n < 10 ^ d" by (simp_all add: d_def)
    have d1: "1 \<le> d" using n0 floorlog_eq_zero_iff [of 10 n] by (simp add: d_def)
    have e: "floor_log10 x = int (d - 1)"
      using True d1 by (simp add: floor_log10_def n_def d_def)
    have "(10::rat) ^ (d - 1) = of_nat (10 ^ (d - 1))" by simp
    also have "\<dots> \<le> of_nat n" using lo by (simp only: of_nat_le_iff)
    also have "\<dots> \<le> x" by (simp add: nx)
    finally have A: "10 powi floor_log10 x \<le> x" by (simp add: e pow10_nat)
    have "n + 1 \<le> 10 ^ d" using hi by simp
    then have "(of_nat (n + 1) :: rat) \<le> of_nat (10 ^ d)" by (simp only: of_nat_le_iff)
    moreover have "x < of_nat (n + 1)" using floor_correct [of x] nx by simp
    ultimately have "x < (of_nat (10 ^ d) :: rat)" by linarith
    also have "\<dots> = 10 powi (int d)" by (simp add: pow10_nat)
    also have "int d = floor_log10 x + 1" using d1 by (simp add: e)
    finally have B: "x < 10 powi (floor_log10 x + 1)" .
    from A B show ?thesis by simp
  next
    case False
    define y where "y = 1 / x"
    define m where "m = nat (\<lceil>y\<rceil> - 1)"
    define d where "d = floorlog 10 m"
    have y1: "1 < y" using False assms by (simp add: y_def)
    have c1: "1 \<le> \<lceil>y\<rceil> - 1" using y1 by (simp add: less_ceiling_iff)
    then have m0: "0 < m" by (simp add: m_def)
    have mc: "(of_nat m :: rat) = of_int (\<lceil>y\<rceil> - 1)" using c1 by (simp add: m_def)
    have my: "of_nat m < y" using ceiling_correct [of y] by (simp add: mc)
    have ym: "y \<le> of_nat (m + 1)" using ceiling_correct [of y] mc by simp
    from floorlog_bounds [of m 10] m0
    have lo: "10 ^ (d - 1) \<le> m" and hi: "m < 10 ^ d" by (simp_all add: d_def)
    have d1: "1 \<le> d" using m0 floorlog_eq_zero_iff [of 10 m] by (simp add: d_def)
    have e: "floor_log10 x = - int d"
      using False by (simp add: floor_log10_def m_def d_def y_def)
    have "m + 1 \<le> 10 ^ d" using hi by simp
    then have "(of_nat (m + 1) :: rat) \<le> of_nat (10 ^ d)" by (simp only: of_nat_le_iff)
    with ym have "y \<le> (of_nat (10 ^ d) :: rat)" by linarith
    then have "1 / x \<le> 10 ^ d" by (simp add: y_def)
    then have "1 \<le> 10 ^ d * x" using assms by (simp add: field_simps)
    then have A: "10 powi (- int d) \<le> x"
      by (simp add: power_int_minus pow10_nat field_simps)
    have "(of_nat (10 ^ (d - 1)) :: rat) \<le> of_nat m" using lo by (simp only: of_nat_le_iff)
    with my have "(of_nat (10 ^ (d - 1)) :: rat) < y" by linarith
    then have "(10::rat) ^ (d - 1) < 1 / x" by (simp add: y_def)
    then have h: "x * 10 ^ (d - 1) < 1" using assms by (simp add: field_simps)
    have P0: "0 < (10::rat) ^ (d - 1)" by simp
    have "x < 1 / 10 ^ (d - 1)" using h P0 by (simp add: pos_less_divide_eq)
    also have "1 / 10 ^ (d - 1) = (10::rat) powi (- int (d - 1))"
      by (simp add: power_int_minus pow10_nat field_simps)
    also have "- int (d - 1) = - int d + 1" using d1 by simp
    finally have B: "x < 10 powi (- int d + 1)" .
    from A B show ?thesis by (simp add: e)
  qed
  then show "10 powi floor_log10 x \<le> x" and "x < 10 powi (floor_log10 x + 1)" by auto
qed

lemma floor_log10_unique:
  assumes "10 powi e \<le> x" and "x < 10 powi (e + 1)"
  shows "floor_log10 x = e"
proof -
  have x0: "0 < x" using assms(1) zero_less_power_int [of "10::rat" e] by linarith
  note b = floor_log10_bounds [OF x0]
  have "(10::rat) powi e < 10 powi (floor_log10 x + 1)" using assms(1) b(2) by linarith
  then have 1: "e < floor_log10 x + 1" by (simp only: pow10_less_iff)
  have "(10::rat) powi floor_log10 x < 10 powi (e + 1)" using assms(2) b(1) by linarith
  then have 2: "floor_log10 x < e + 1" by (simp only: pow10_less_iff)
  from 1 2 show ?thesis by simp
qed



lemma decimal16_0: "decimal16 0 = 0"
  by (simp add: decimal16_def)

lemma decimal16_neg: "decimal16 (- x) = - decimal16 x"
  by (simp add: decimal16_def rhe_neg Let_def)

lemma decimal16_eqI:
  assumes "10 powi e \<le> \<bar>x\<bar>" and "\<bar>x\<bar> < 10 powi (e + 1)"
    and "q = 10 powi (e - 15)"
    and "\<bar>x / q - of_int m\<bar> < 1 / 2 \<or> (\<bar>x / q - of_int m\<bar> = 1 / 2 \<and> even m)"
  shows "decimal16 x = of_int m * q"
proof -
  have "0 < \<bar>x\<bar>" using assms(1) zero_less_power_int [of "10::rat" e] by linarith
  then have x0: "x \<noteq> 0" by simp
  have e: "floor_log10 \<bar>x\<bar> = e" by (rule floor_log10_unique [OF assms(1,2)])
  show ?thesis using x0 rhe_eqI [OF assms(4)] by (simp add: decimal16_def Let_def e assms(3))
qed

lemma decimal16_grid:
  assumes "x \<noteq> 0" and "g = of_int j * 10 powi (floor_log10 \<bar>x\<bar> - 15)"
  shows "x \<le> g \<Longrightarrow> decimal16 x \<le> g" and "g \<le> x \<Longrightarrow> g \<le> decimal16 x"
proof -
  define u :: rat where "u = 10 powi (floor_log10 \<bar>x\<bar> - 15)"
  have u0: "0 < u" by (simp add: u_def)
  have d: "decimal16 x = of_int (round_half_even (x / u)) * u"
    using assms(1) by (simp add: decimal16_def Let_def u_def)
  have g: "g = of_int j * u" by (simp add: assms(2) u_def)
  show "decimal16 x \<le> g" if "x \<le> g"
  proof -
    have "x / u \<le> of_int j" using that u0 by (simp add: g pos_divide_le_eq)
    then have "round_half_even (x / u) \<le> j" by (rule rhe_le_int)
    then have "(of_int (round_half_even (x / u)) :: rat) \<le> of_int j" by (simp only: of_int_le_iff)
    then show ?thesis using u0 by (simp add: d g)
  qed
  show "g \<le> decimal16 x" if "g \<le> x"
  proof -
    have "of_int j \<le> x / u" using that u0 by (simp add: g pos_le_divide_eq)
    then have "j \<le> round_half_even (x / u)" by (rule rhe_ge_int)
    then have "(of_int j :: rat) \<le> of_int (round_half_even (x / u))" by (simp only: of_int_le_iff)
    then show ?thesis using u0 by (simp add: d g)
  qed
qed


lemma decimal16_ge_pow:
  assumes "0 < x"
  shows "10 powi floor_log10 x \<le> decimal16 x"
proof -
  have "(10::rat) powi (15 + (floor_log10 x - 15)) = 10 powi 15 * 10 powi (floor_log10 x - 15)"
    by (rule power_int_add) simp
  then have g: "(10::rat) powi floor_log10 x = of_int (10 ^ 15) * 10 powi (floor_log10 \<bar>x\<bar> - 15)"
    using assms by simp
  have x0: "x \<noteq> 0" using assms by simp
  show ?thesis by (rule decimal16_grid(2) [OF x0 g]) (rule floor_log10_bounds [OF assms])
qed




lemma decimal16_nonneg: "0 \<le> x \<Longrightarrow> 0 \<le> decimal16 x"
proof (cases "x = 0")
  case True
  then show ?thesis by (simp add: decimal16_0)
next
  case False
  assume "0 \<le> x"
  with False have x0: "0 < x" by simp
  have "(0::rat) < 10 powi floor_log10 x" by simp
  also have "\<dots> \<le> decimal16 x" by (rule decimal16_ge_pow [OF x0])
  finally show ?thesis by simp
qed



lemma round_half_away_neg: "round_half_away (- x) = - round_half_away x"
proof -
  have "\<lfloor>(1 / 2 :: rat)\<rfloor> = 0" by (rule floor_unique) simp_all
  then show ?thesis by (cases "x = 0") (auto simp: round_half_away_def)
qed

text \<open>The coercion at given operands, and at the opposite of an operand.\<close>

lemma to_decimal_eqI:
  assumes "10 powi e \<le> x" and "x < 10 powi (e + 1)"
    and "\<bar>x / 10 powi (e - 15) - of_int m\<bar> < 1 / 2 \<or>
         (\<bar>x / 10 powi (e - 15) - of_int m\<bar> = 1 / 2 \<and> even m)"
    and "of_int r \<le> (of_int m :: rat) * 10 powi (e - 15) * 10 ^ s + 1 / 2"
    and "(of_int m :: rat) * 10 powi (e - 15) * 10 ^ s + 1 / 2 < of_int r + 1"
    and "r < 10 ^ p"
  shows "to_decimal p s (Fin x) = Some (of_int r / 10 ^ s)"
proof -
  have x0: "0 < x" using assms(1) zero_less_power_int [of "10::rat" e] by linarith
  then have ax: "\<bar>x\<bar> = x" by simp
  have d: "decimal16 x = of_int m * 10 powi (e - 15)"
    by (rule decimal16_eqI [OF _ _ refl assms(3)]) (simp_all add: ax assms(1,2))
  have "0 \<le> decimal16 x" using x0 by (simp add: decimal16_nonneg)
  then have n: "0 \<le> decimal16 x * 10 ^ s" by simp
  have f: "\<lfloor>decimal16 x * 10 ^ s + 1 / 2\<rfloor> = r" using assms(4,5) by (simp add: d floor_unique)
  have "0 \<le> \<lfloor>decimal16 x * 10 ^ s + 1 / 2\<rfloor>" unfolding zero_le_floor using n by simp
  then have r0: "0 \<le> r" by (simp add: f)
  have "round_half_away (decimal16 x * 10 ^ s) = r" using n f by (simp add: round_half_away_def)
  then show ?thesis using assms(6) r0 by (simp add: Let_def)
qed

lemma to_decimal_0: "to_decimal p s (Fin 0) = Some 0"
proof -
  have "\<lfloor>(1 / 2 :: rat)\<rfloor> = 0" by (rule floor_unique) simp_all
  then show ?thesis by (simp add: decimal16_0 round_half_away_def)
qed

lemma to_decimal_neg:
  assumes "to_decimal p s (Fin x) = Some v"
  shows "to_decimal p s (Fin (- x)) = Some (- v)"
proof -
  have "round_half_away (decimal16 (- x) * 10 ^ s) = - round_half_away (decimal16 x * 10 ^ s)"
    using round_half_away_neg [of "decimal16 x * 10 ^ s"] by (simp add: decimal16_neg)
  then show ?thesis using assms by (auto simp: Let_def split: if_splits)
qed




text \<open>The day of an instant that is a midnight is that instant.\<close>

lemma to_date_days [simp]: "to_date (n * msPerDay) = n * msPerDay"
  by (simp add: to_date_def)

lemma to_date_0 [simp]: "to_date 0 = 0"
  by (simp add: to_date_def)

section \<open>Evaluated operations\<close>

text \<open>
  Each operation met in the examples below, at its operands: the rounded result,
  certified by its binade and its multiple of the spacing.
\<close>

lemma ev_1: "lit (1 / 2) = Fin (1 / 2)"
  by (simp only: lit_def) (rule rnd_eqI [where e = "- 1" and m = "4503599627370496"], simp_all)

lemma ev_2: "js_mul (Fin 4) (Fin (1 / 2)) = Fin 2"
  by (simp only: js_mul.simps) (rule rnd_eqI [where e = "1" and m = "4503599627370496"], simp_all)

lemma ev_3: "lit 3 = Fin 3"
  by (simp only: lit_def) (rule rnd_eqI [where e = "1" and m = "6755399441055744"], simp_all)

lemma ev_4: "js_add (Fin 0) (Fin 2) = Fin 2"
  by (simp only: js_add.simps) (rule rnd_eqI [where e = "1" and m = "4503599627370496"], simp_all)

lemma ev_5: "lit (4 / 5) = Fin (3602879701896397 / 4503599627370496)"
  by (simp only: lit_def) (rule rnd_eqI [where e = "- 1" and m = "7205759403792794"], simp_all)

lemma ev_6: "js_mul (Fin 2) (Fin (3602879701896397 / 4503599627370496)) = Fin (3602879701896397 / 2251799813685248)"
  by (simp only: js_mul.simps) (rule rnd_eqI [where e = "0" and m = "7205759403792794"], simp_all)

lemma ev_7: "js_add (Fin 2) (Fin (3602879701896397 / 2251799813685248)) = Fin (8106479329266893 / 2251799813685248)"
  by (simp only: js_add.simps) (rule rnd_eqI [where e = "1" and m = "8106479329266893"], simp_all)

lemma ev_8: "lit 1 = Fin 1"
  by (simp only: lit_def) (rule rnd_eqI [where e = "0" and m = "4503599627370496"], simp_all)

lemma ev_9: "lit 2 = Fin 2"
  by (simp only: lit_def) (rule rnd_eqI [where e = "1" and m = "4503599627370496"], simp_all)

lemma ev_10: "js_add (Fin (8106479329266893 / 2251799813685248)) (Fin 2) = Fin (3152519739159347 / 562949953421312)"
  by (simp only: js_add.simps) (rule rnd_eqI [where e = "2" and m = "6305039478318694"], simp_all)

lemma ev_11: "js_add (Fin (3152519739159347 / 562949953421312)) (Fin (1 / 2)) = Fin (3433994715870003 / 562949953421312)"
  by (simp only: js_add.simps) (rule rnd_eqI [where e = "2" and m = "6867989431740006"], simp_all)

lemma ev_12: "lit 10 = Fin 10"
  by (simp only: lit_def) (rule rnd_eqI [where e = "3" and m = "5629499534213120"], simp_all)

lemma ev_13: "lit (61 / 10) = Fin (3433994715870003 / 562949953421312)"
  by (simp only: lit_def) (rule rnd_eqI [where e = "2" and m = "6867989431740006"], simp_all)

lemma ev_14: "to_decimal 3 2 (Fin (3433994715870003 / 562949953421312)) = Some (61 / 10)"
  using to_decimal_eqI [of "0" "3433994715870003 / 562949953421312" "6100000000000000" "610" 2 3] by simp

lemma ev_15: "lit 6 = Fin 6"
  by (simp only: lit_def) (rule rnd_eqI [where e = "2" and m = "6755399441055744"], simp_all)

lemma ev_16: "lit 8 = Fin 8"
  by (simp only: lit_def) (rule rnd_eqI [where e = "3" and m = "4503599627370496"], simp_all)

lemma ev_17: "lit 8000 = Fin 8000"
  by (simp only: lit_def) (rule rnd_eqI [where e = "12" and m = "8796093022208000"], simp_all)

lemma ev_18: "lit 5000 = Fin 5000"
  by (simp only: lit_def) (rule rnd_eqI [where e = "12" and m = "5497558138880000"], simp_all)

lemma ev_19: "lit (3 / 2) = Fin (3 / 2)"
  by (simp only: lit_def) (rule rnd_eqI [where e = "0" and m = "6755399441055744"], simp_all)

lemma ev_20: "js_sub (Fin (3 / 2)) (Fin 1) = Fin (1 / 2)"
  by (simp only: js_sub_def js_neg.simps js_add.simps) (rule rnd_eqI [where e = "- 1" and m = "4503599627370496"], simp_all)

lemma ev_21: "js_mul (Fin 8000) (Fin (1 / 2)) = Fin 4000"
  by (simp only: js_mul.simps) (rule rnd_eqI [where e = "11" and m = "8796093022208000"], simp_all)

lemma ev_22: "lit (13 / 10) = Fin (5854679515581645 / 4503599627370496)"
  by (simp only: lit_def) (rule rnd_eqI [where e = "0" and m = "5854679515581645"], simp_all)

lemma ev_23: "js_sub (Fin (5854679515581645 / 4503599627370496)) (Fin 1) = Fin (1351079888211149 / 4503599627370496)"
  by (simp only: js_sub_def js_neg.simps js_add.simps) (rule rnd_eqI [where e = "- 2" and m = "5404319552844596"], simp_all)

lemma ev_24: "js_mul (Fin 8000) (Fin (1351079888211149 / 4503599627370496)) = Fin (5277655813324801 / 2199023255552)"
  by (simp only: js_mul.simps) (rule rnd_eqI [where e = "11" and m = "5277655813324801"], simp_all)

lemma ev_25: "js_add (Fin 8000) (Fin 4000) = Fin 12000"
  by (simp only: js_add.simps) (rule rnd_eqI [where e = "13" and m = "6597069766656000"], simp_all)

lemma ev_26: "js_add (Fin 12000) (Fin (5277655813324801 / 2199023255552)) = Fin 14400"
  by (simp only: js_add.simps) (rule rnd_eqI [where e = "13" and m = "7916483719987200"], simp_all)

lemma ev_27: "lit (23 / 20) = Fin (2589569785738035 / 2251799813685248)"
  by (simp only: lit_def) (rule rnd_eqI [where e = "0" and m = "5179139571476070"], simp_all)

lemma ev_28: "js_mul (Fin 14400) (Fin (2589569785738035 / 2251799813685248)) = Fin 16560"
  by (simp only: js_mul.simps) (rule rnd_eqI [where e = "14" and m = "4551978138992640"], simp_all)

lemma ev_29: "Math_ceil (Fin 16560) = Fin 16560"
  using Math_ceil_eqI [of "16560" "16560"] by simp

lemma ev_30: "js_mul (Fin 8) (Fin (3 / 2)) = Fin 12"
  by (simp only: js_mul.simps) (rule rnd_eqI [where e = "3" and m = "6755399441055744"], simp_all)

lemma ev_31: "Math_ceil (Fin 12) = Fin 12"
  using Math_ceil_eqI [of "12" "12"] by simp

lemma ev_32: "lit 7 = Fin 7"
  by (simp only: lit_def) (rule rnd_eqI [where e = "2" and m = "7881299347898368"], simp_all)

lemma ev_33: "js_mul (Fin 12) (Fin 7) = Fin 84"
  by (simp only: js_mul.simps) (rule rnd_eqI [where e = "6" and m = "5910974510923776"], simp_all)

lemma ev_34: "lit (3 / 10) = Fin (5404319552844595 / 18014398509481984)"
  by (simp only: lit_def) (rule rnd_eqI [where e = "- 2" and m = "5404319552844595"], simp_all)

lemma ev_35: "js_mul (Fin 14400) (Fin (5404319552844595 / 18014398509481984)) = Fin 4320"
  by (simp only: js_mul.simps) (rule rnd_eqI [where e = "12" and m = "4749890231992320"], simp_all)

lemma ev_36: "Math_round (Fin 4320) = Fin 4320"
  using Math_round_eqI [of "4320" "4320"] by simp

lemma ev_37: "lit (1 / 5) = Fin (3602879701896397 / 18014398509481984)"
  by (simp only: lit_def) (rule rnd_eqI [where e = "- 3" and m = "7205759403792794"], simp_all)

lemma ev_38: "js_mul (Fin 14400) (Fin (3602879701896397 / 18014398509481984)) = Fin 2880"
  by (simp only: js_mul.simps) (rule rnd_eqI [where e = "11" and m = "6333186975989760"], simp_all)

lemma ev_39: "Math_round (Fin 2880) = Fin 2880"
  using Math_round_eqI [of "2880" "2880"] by simp

lemma ev_40: "to_decimal 10 2 (Fin 8000) = Some 8000"
  using to_decimal_eqI [of "3" "8000" "8000000000000000" "800000" 2 10] by simp

lemma ev_41: "to_decimal 10 2 (Fin 4000) = Some 4000"
  using to_decimal_eqI [of "3" "4000" "4000000000000000" "400000" 2 10] by simp

lemma ev_42: "to_decimal 10 2 (Fin (5277655813324801 / 2199023255552)) = Some 2400"
  using to_decimal_eqI [of "3" "5277655813324801 / 2199023255552" "2400000000000000" "240000" 2 10] by simp

lemma ev_43: "to_decimal 10 2 (Fin 14400) = Some 14400"
  using to_decimal_eqI [of "4" "14400" "1440000000000000" "1440000" 2 10] by simp

lemma ev_44: "to_decimal 10 2 (Fin 16560) = Some 16560"
  using to_decimal_eqI [of "4" "16560" "1656000000000000" "1656000" 2 10] by simp

lemma ev_45: "js_mul (Fin 0) (Fin (1 / 2)) = Fin 0"
  by (simp only: js_mul.simps) (simp add: rnd_0)

lemma ev_46: "js_add (Fin 0) (Fin 0) = Fin 0"
  by (simp only: js_add.simps) (simp add: rnd_0)

lemma ev_47: "js_mul (Fin 0) (Fin (3602879701896397 / 4503599627370496)) = Fin 0"
  by (simp only: js_mul.simps) (simp add: rnd_0)

lemma ev_48: "js_add (Fin 0) (Fin 1) = Fin 1"
  by (simp only: js_add.simps) (rule rnd_eqI [where e = "0" and m = "4503599627370496"], simp_all)

lemma ev_49: "js_add (Fin 1) (Fin (1 / 2)) = Fin (3 / 2)"
  by (simp only: js_add.simps) (rule rnd_eqI [where e = "0" and m = "6755399441055744"], simp_all)

lemma ev_50: "to_decimal 3 2 (Fin (3 / 2)) = Some (3 / 2)"
  using to_decimal_eqI [of "0" "3 / 2" "1500000000000000" "150" 2 3] by simp

lemma ev_51: "lit 5001 = Fin 5001"
  by (simp only: lit_def) (rule rnd_eqI [where e = "12" and m = "5498657650507776"], simp_all)

lemma ev_52: "js_sub (Fin 1) (Fin 1) = Fin 0"
  by (simp only: js_sub_def js_neg.simps js_add.simps) (simp add: rnd_0)

lemma ev_53: "js_mul (Fin 5001) (Fin 0) = Fin 0"
  by (simp only: js_mul.simps) (simp add: rnd_0)

lemma ev_54: "js_mul (Fin 5001) (Fin (1351079888211149 / 4503599627370496)) = Fin (1649597295152333 / 1099511627776)"
  by (simp only: js_mul.simps) (rule rnd_eqI [where e = "10" and m = "6598389180609332"], simp_all)

lemma ev_55: "js_add (Fin 5001) (Fin 0) = Fin 5001"
  by (simp only: js_add.simps) (rule rnd_eqI [where e = "12" and m = "5498657650507776"], simp_all)

lemma ev_56: "js_add (Fin 5001) (Fin (1649597295152333 / 1099511627776)) = Fin (7148254945660109 / 1099511627776)"
  by (simp only: js_add.simps) (rule rnd_eqI [where e = "12" and m = "7148254945660109"], simp_all)

lemma ev_57: "js_mul (Fin (7148254945660109 / 1099511627776)) (Fin (2589569785738035 / 2251799813685248)) = Fin (8220493187509125 / 1099511627776)"
  by (simp only: js_mul.simps) (rule rnd_eqI [where e = "12" and m = "8220493187509125"], simp_all)

lemma ev_58: "Math_ceil (Fin (8220493187509125 / 1099511627776)) = Fin 7477"
  using Math_ceil_eqI [of "7477" "8220493187509125 / 1099511627776"] by simp

lemma ev_59: "lit 4 = Fin 4"
  by (simp only: lit_def) (rule rnd_eqI [where e = "2" and m = "4503599627370496"], simp_all)

lemma ev_60: "js_mul (Fin 4) (Fin 1) = Fin 4"
  by (simp only: js_mul.simps) (rule rnd_eqI [where e = "2" and m = "4503599627370496"], simp_all)

lemma ev_61: "Math_ceil (Fin 4) = Fin 4"
  using Math_ceil_eqI [of "4" "4"] by simp

lemma ev_62: "js_mul (Fin 4) (Fin 7) = Fin 28"
  by (simp only: js_mul.simps) (rule rnd_eqI [where e = "4" and m = "7881299347898368"], simp_all)

lemma ev_63: "js_mul (Fin (7148254945660109 / 1099511627776)) (Fin (5404319552844595 / 18014398509481984)) = Fin (4288952967396065 / 2199023255552)"
  by (simp only: js_mul.simps) (rule rnd_eqI [where e = "10" and m = "8577905934792130"], simp_all)

lemma ev_64: "Math_round (Fin (4288952967396065 / 2199023255552)) = Fin 1950"
  using Math_round_eqI [of "1950" "4288952967396065 / 2199023255552"] by simp

lemma ev_65: "js_mul (Fin (7148254945660109 / 1099511627776)) (Fin (3602879701896397 / 18014398509481984)) = Fin (714825494566011 / 549755813888)"
  by (simp only: js_mul.simps) (rule rnd_eqI [where e = "10" and m = "5718603956528088"], simp_all)

lemma ev_66: "Math_round (Fin (714825494566011 / 549755813888)) = Fin 1300"
  using Math_round_eqI [of "1300" "714825494566011 / 549755813888"] by simp

lemma ev_67: "to_decimal 10 2 (Fin 5001) = Some 5001"
  using to_decimal_eqI [of "3" "5001" "5001000000000000" "500100" 2 10] by simp

lemma ev_68: "to_decimal 10 2 (Fin 0) = Some 0"
  by (rule to_decimal_0)

lemma ev_69: "to_decimal 10 2 (Fin (1649597295152333 / 1099511627776)) = Some (15003 / 10)"
  using to_decimal_eqI [of "3" "1649597295152333 / 1099511627776" "1500300000000000" "150030" 2 10] by simp

lemma ev_70: "to_decimal 10 2 (Fin (7148254945660109 / 1099511627776)) = Some (65013 / 10)"
  using to_decimal_eqI [of "3" "7148254945660109 / 1099511627776" "6501300000000000" "650130" 2 10] by simp

lemma ev_71: "to_decimal 10 2 (Fin 7477) = Some 7477"
  using to_decimal_eqI [of "3" "7477" "7477000000000000" "747700" 2 10] by simp

lemma ev_72: "lit 0 = Fin 0"
  by (simp only: lit_def) (simp add: rnd_0)

lemma ev_73: "lit (- 5000) = Fin (- 5000)"
  by (simp only: lit_def) (rule rnd_eqI [where e = "12" and m = "- 5497558138880000"], simp_all)

lemma ev_74: "js_mul (Fin (- 5000)) (Fin 0) = Fin 0"
  by (simp only: js_mul.simps) (simp add: rnd_0)

lemma ev_75: "js_add (Fin (- 5000)) (Fin 0) = Fin (- 5000)"
  by (simp only: js_add.simps) (rule rnd_eqI [where e = "12" and m = "- 5497558138880000"], simp_all)

lemma ev_76: "js_mul (Fin (- 5000)) (Fin (2589569785738035 / 2251799813685248)) = Fin (- 5750)"
  by (simp only: js_mul.simps) (rule rnd_eqI [where e = "12" and m = "- 6322191859712000"], simp_all)

lemma ev_77: "Math_ceil (Fin (- 5750)) = Fin (- 5750)"
  using Math_ceil_eqI [of "- 5750" "- 5750"] by simp

lemma ev_78: "js_mul (Fin (- 5000)) (Fin (5404319552844595 / 18014398509481984)) = Fin (- 1500)"
  by (simp only: js_mul.simps) (rule rnd_eqI [where e = "10" and m = "- 6597069766656000"], simp_all)

lemma ev_79: "Math_round (Fin (- 1500)) = Fin (- 1500)"
  using Math_round_eqI [of "- 1500" "- 1500"] by simp

lemma ev_80: "js_mul (Fin (- 5000)) (Fin (3602879701896397 / 18014398509481984)) = Fin (- 1000)"
  by (simp only: js_mul.simps) (rule rnd_eqI [where e = "9" and m = "- 8796093022208000"], simp_all)

lemma ev_81: "Math_round (Fin (- 1000)) = Fin (- 1000)"
  using Math_round_eqI [of "- 1000" "- 1000"] by simp

lemma ev_82: "to_decimal 10 2 (Fin 5000) = Some 5000"
  using to_decimal_eqI [of "3" "5000" "5000000000000000" "500000" 2 10] by simp

lemma ev_83: "to_decimal 10 2 (Fin (- 5000)) = Some (- 5000)"
  using to_decimal_neg [OF ev_82] by simp

lemma ev_84: "to_decimal 10 2 (Fin 5750) = Some 5750"
  using to_decimal_eqI [of "3" "5750" "5750000000000000" "575000" 2 10] by simp

lemma ev_85: "to_decimal 10 2 (Fin (- 5750)) = Some (- 5750)"
  using to_decimal_neg [OF ev_84] by simp

lemma ev_86: "lit (500163 / 100) = Fin (5499350342833275 / 1099511627776)"
  by (simp only: lit_def) (rule rnd_eqI [where e = "12" and m = "5499350342833275"], simp_all)

lemma ev_87: "js_mul (Fin (5499350342833275 / 1099511627776)) (Fin (1351079888211149 / 4503599627370496)) = Fin (6599220411399931 / 4398046511104)"
  by (simp only: js_mul.simps) (rule rnd_eqI [where e = "10" and m = "6599220411399931"], simp_all)

lemma ev_88: "js_add (Fin (5499350342833275 / 1099511627776)) (Fin (6599220411399931 / 4398046511104)) = Fin (3574577722841629 / 549755813888)"
  by (simp only: js_add.simps) (rule rnd_eqI [where e = "12" and m = "7149155445683258"], simp_all)

lemma ev_89: "js_add (Fin (3574577722841629 / 549755813888)) (Fin (6599220411399931 / 4398046511104)) = Fin (8798960548533241 / 1099511627776)"
  by (simp only: js_add.simps) (rule rnd_eqI [where e = "12" and m = "8798960548533241"], simp_all)

lemma ev_90: "js_mul (Fin (8798960548533241 / 1099511627776)) (Fin (2589569785738035 / 2251799813685248)) = Fin (5059402315406613 / 549755813888)"
  by (simp only: js_mul.simps) (rule rnd_eqI [where e = "13" and m = "5059402315406613"], simp_all)

lemma ev_91: "Math_ceil (Fin (5059402315406613 / 549755813888)) = Fin 9203"
  using Math_ceil_eqI [of "9203" "5059402315406613 / 549755813888"] by simp

lemma ev_92: "js_mul (Fin 4) (Fin (5854679515581645 / 4503599627370496)) = Fin (5854679515581645 / 1125899906842624)"
  by (simp only: js_mul.simps) (rule rnd_eqI [where e = "2" and m = "5854679515581645"], simp_all)

lemma ev_93: "Math_ceil (Fin (5854679515581645 / 1125899906842624)) = Fin 6"
  using Math_ceil_eqI [of "6" "5854679515581645 / 1125899906842624"] by simp

lemma ev_94: "js_mul (Fin 6) (Fin 7) = Fin 42"
  by (simp only: js_mul.simps) (rule rnd_eqI [where e = "5" and m = "5910974510923776"], simp_all)

lemma ev_95: "js_mul (Fin (8798960548533241 / 1099511627776)) (Fin (5404319552844595 / 18014398509481984)) = Fin (659922041139993 / 274877906944)"
  by (simp only: js_mul.simps) (rule rnd_eqI [where e = "11" and m = "5279376329119944"], simp_all)

lemma ev_96: "Math_round (Fin (659922041139993 / 274877906944)) = Fin 2401"
  using Math_round_eqI [of "2401" "659922041139993 / 274877906944"] by simp

lemma ev_97: "js_mul (Fin (8798960548533241 / 1099511627776)) (Fin (3602879701896397 / 18014398509481984)) = Fin (7039168438826593 / 4398046511104)"
  by (simp only: js_mul.simps) (rule rnd_eqI [where e = "10" and m = "7039168438826593"], simp_all)

lemma ev_98: "Math_round (Fin (7039168438826593 / 4398046511104)) = Fin 1601"
  using Math_round_eqI [of "1601" "7039168438826593 / 4398046511104"] by simp

lemma ev_99: "to_decimal 10 2 (Fin (5499350342833275 / 1099511627776)) = Some (500163 / 100)"
  using to_decimal_eqI [of "3" "5499350342833275 / 1099511627776" "5001630000000000" "500163" 2 10] by simp

lemma ev_100: "to_decimal 10 2 (Fin (6599220411399931 / 4398046511104)) = Some (150049 / 100)"
  using to_decimal_eqI [of "3" "6599220411399931 / 4398046511104" "1500489000000000" "150049" 2 10] by simp

lemma ev_101: "to_decimal 10 2 (Fin (8798960548533241 / 1099511627776)) = Some (800261 / 100)"
  using to_decimal_eqI [of "3" "8798960548533241 / 1099511627776" "8002608000000001" "800261" 2 10] by simp

lemma ev_102: "to_decimal 10 2 (Fin 9203) = Some 9203"
  using to_decimal_eqI [of "3" "9203" "9203000000000000" "920300" 2 10] by simp

lemma ev_103: "lit (800261 / 100) = Fin (8798962747556495 / 1099511627776)"
  by (simp only: lit_def) (rule rnd_eqI [where e = "12" and m = "8798962747556495"], simp_all)

lemma ev_104: "js_mul (Fin (8798962747556495 / 1099511627776)) (Fin (2589569785738035 / 2251799813685248)) = Fin (632425447480623 / 68719476736)"
  by (simp only: js_mul.simps) (rule rnd_eqI [where e = "13" and m = "5059403579844984"], simp_all)

lemma ev_105: "Math_ceil (Fin (632425447480623 / 68719476736)) = Fin 9204"
  using Math_ceil_eqI [of "9204" "632425447480623 / 68719476736"] by simp

lemma ev_106: "js_mul (Fin 5000) (Fin 0) = Fin 0"
  by (simp only: js_mul.simps) (simp add: rnd_0)

lemma ev_107: "js_add (Fin 5000) (Fin 0) = Fin 5000"
  by (simp only: js_add.simps) (rule rnd_eqI [where e = "12" and m = "5497558138880000"], simp_all)

lemma ev_108: "js_mul (Fin 5000) (Fin (2589569785738035 / 2251799813685248)) = Fin 5750"
  by (simp only: js_mul.simps) (rule rnd_eqI [where e = "12" and m = "6322191859712000"], simp_all)

lemma ev_109: "Math_ceil (Fin 5750) = Fin 5750"
  using Math_ceil_eqI [of "5750" "5750"] by simp

lemma ev_110: "js_mul (Fin 5000) (Fin (5404319552844595 / 18014398509481984)) = Fin 1500"
  by (simp only: js_mul.simps) (rule rnd_eqI [where e = "10" and m = "6597069766656000"], simp_all)

lemma ev_111: "Math_round (Fin 1500) = Fin 1500"
  using Math_round_eqI [of "1500" "1500"] by simp

lemma ev_112: "js_mul (Fin 5000) (Fin (3602879701896397 / 18014398509481984)) = Fin 1000"
  by (simp only: js_mul.simps) (rule rnd_eqI [where e = "9" and m = "8796093022208000"], simp_all)

lemma ev_113: "Math_round (Fin 1000) = Fin 1000"
  using Math_round_eqI [of "1000" "1000"] by simp

lemma ev_114: "js_mul (Fin 5000) (Fin (1351079888211149 / 4503599627370496)) = Fin (6597069766656001 / 4398046511104)"
  by (simp only: js_mul.simps) (rule rnd_eqI [where e = "10" and m = "6597069766656001"], simp_all)

lemma ev_115: "js_add (Fin 5000) (Fin (6597069766656001 / 4398046511104)) = Fin 6500"
  by (simp only: js_add.simps) (rule rnd_eqI [where e = "12" and m = "7146825580544000"], simp_all)

lemma ev_116: "js_mul (Fin 6500) (Fin (2589569785738035 / 2251799813685248)) = Fin (8218849417625599 / 1099511627776)"
  by (simp only: js_mul.simps) (rule rnd_eqI [where e = "12" and m = "8218849417625599"], simp_all)

lemma ev_117: "Math_ceil (Fin (8218849417625599 / 1099511627776)) = Fin 7475"
  using Math_ceil_eqI [of "7475" "8218849417625599 / 1099511627776"] by simp

lemma ev_118: "js_mul (Fin 6500) (Fin (5404319552844595 / 18014398509481984)) = Fin 1950"
  by (simp only: js_mul.simps) (rule rnd_eqI [where e = "10" and m = "8576190696652800"], simp_all)

lemma ev_119: "Math_round (Fin 1950) = Fin 1950"
  using Math_round_eqI [of "1950" "1950"] by simp

lemma ev_120: "js_mul (Fin 6500) (Fin (3602879701896397 / 18014398509481984)) = Fin 1300"
  by (simp only: js_mul.simps) (rule rnd_eqI [where e = "10" and m = "5717460464435200"], simp_all)

lemma ev_121: "Math_round (Fin 1300) = Fin 1300"
  using Math_round_eqI [of "1300" "1300"] by simp

lemma ev_122: "js_mul (Fin 5000) (Fin (1 / 2)) = Fin 2500"
  by (simp only: js_mul.simps) (rule rnd_eqI [where e = "11" and m = "5497558138880000"], simp_all)

lemma ev_123: "js_add (Fin 5000) (Fin 2500) = Fin 7500"
  by (simp only: js_add.simps) (rule rnd_eqI [where e = "12" and m = "8246337208320000"], simp_all)

lemma ev_124: "js_mul (Fin 7500) (Fin (2589569785738035 / 2251799813685248)) = Fin 8625"
  by (simp only: js_mul.simps) (rule rnd_eqI [where e = "13" and m = "4741643894784000"], simp_all)

lemma ev_125: "Math_ceil (Fin 8625) = Fin 8625"
  using Math_ceil_eqI [of "8625" "8625"] by simp

lemma ev_126: "js_mul (Fin 7500) (Fin (5404319552844595 / 18014398509481984)) = Fin 2250"
  by (simp only: js_mul.simps) (rule rnd_eqI [where e = "11" and m = "4947802324992000"], simp_all)

lemma ev_127: "Math_round (Fin 2250) = Fin 2250"
  using Math_round_eqI [of "2250" "2250"] by simp

lemma ev_128: "js_mul (Fin 7500) (Fin (3602879701896397 / 18014398509481984)) = Fin 1500"
  by (simp only: js_mul.simps) (rule rnd_eqI [where e = "10" and m = "6597069766656000"], simp_all)

lemma ev_129: "js_add (Fin 6500) (Fin 0) = Fin 6500"
  by (simp only: js_add.simps) (rule rnd_eqI [where e = "12" and m = "7146825580544000"], simp_all)

lemma ev_130: "js_add (Fin 6500) (Fin (6597069766656001 / 4398046511104)) = Fin 8000"
  by (simp only: js_add.simps) (rule rnd_eqI [where e = "12" and m = "8796093022208000"], simp_all)

lemma ev_131: "js_mul (Fin 8000) (Fin (2589569785738035 / 2251799813685248)) = Fin 9200"
  by (simp only: js_mul.simps) (rule rnd_eqI [where e = "13" and m = "5057753487769600"], simp_all)

lemma ev_132: "Math_ceil (Fin 9200) = Fin 9200"
  using Math_ceil_eqI [of "9200" "9200"] by simp

lemma ev_133: "js_mul (Fin 8000) (Fin (5404319552844595 / 18014398509481984)) = Fin 2400"
  by (simp only: js_mul.simps) (rule rnd_eqI [where e = "11" and m = "5277655813324800"], simp_all)

lemma ev_134: "Math_round (Fin 2400) = Fin 2400"
  using Math_round_eqI [of "2400" "2400"] by simp

lemma ev_135: "js_mul (Fin 8000) (Fin (3602879701896397 / 18014398509481984)) = Fin 1600"
  by (simp only: js_mul.simps) (rule rnd_eqI [where e = "10" and m = "7036874417766400"], simp_all)

lemma ev_136: "Math_round (Fin 1600) = Fin 1600"
  using Math_round_eqI [of "1600" "1600"] by simp

lemma ev_137: "js_add (Fin 6500) (Fin 2500) = Fin 9000"
  by (simp only: js_add.simps) (rule rnd_eqI [where e = "13" and m = "4947802324992000"], simp_all)

lemma ev_138: "js_mul (Fin 9000) (Fin (2589569785738035 / 2251799813685248)) = Fin 10350"
  by (simp only: js_mul.simps) (rule rnd_eqI [where e = "13" and m = "5689972673740800"], simp_all)

lemma ev_139: "Math_ceil (Fin 10350) = Fin 10350"
  using Math_ceil_eqI [of "10350" "10350"] by simp

lemma ev_140: "js_mul (Fin 9000) (Fin (5404319552844595 / 18014398509481984)) = Fin 2700"
  by (simp only: js_mul.simps) (rule rnd_eqI [where e = "11" and m = "5937362789990400"], simp_all)

lemma ev_141: "Math_round (Fin 2700) = Fin 2700"
  using Math_round_eqI [of "2700" "2700"] by simp

lemma ev_142: "js_mul (Fin 9000) (Fin (3602879701896397 / 18014398509481984)) = Fin 1800"
  by (simp only: js_mul.simps) (rule rnd_eqI [where e = "10" and m = "7916483719987200"], simp_all)

lemma ev_143: "Math_round (Fin 1800) = Fin 1800"
  using Math_round_eqI [of "1800" "1800"] by simp

lemma ev_144: "js_add (Fin 7500) (Fin 0) = Fin 7500"
  by (simp only: js_add.simps) (rule rnd_eqI [where e = "12" and m = "8246337208320000"], simp_all)

lemma ev_145: "js_mul (Fin 4) (Fin (3 / 2)) = Fin 6"
  by (simp only: js_mul.simps) (rule rnd_eqI [where e = "2" and m = "6755399441055744"], simp_all)

lemma ev_146: "Math_ceil (Fin 6) = Fin 6"
  using Math_ceil_eqI [of "6" "6"] by simp

lemma ev_147: "js_add (Fin 7500) (Fin (6597069766656001 / 4398046511104)) = Fin 9000"
  by (simp only: js_add.simps) (rule rnd_eqI [where e = "13" and m = "4947802324992000"], simp_all)

lemma ev_148: "js_add (Fin 7500) (Fin 2500) = Fin 10000"
  by (simp only: js_add.simps) (rule rnd_eqI [where e = "13" and m = "5497558138880000"], simp_all)

lemma ev_149: "js_mul (Fin 10000) (Fin (2589569785738035 / 2251799813685248)) = Fin 11500"
  by (simp only: js_mul.simps) (rule rnd_eqI [where e = "13" and m = "6322191859712000"], simp_all)

lemma ev_150: "Math_ceil (Fin 11500) = Fin 11500"
  using Math_ceil_eqI [of "11500" "11500"] by simp

lemma ev_151: "js_mul (Fin 10000) (Fin (5404319552844595 / 18014398509481984)) = Fin 3000"
  by (simp only: js_mul.simps) (rule rnd_eqI [where e = "11" and m = "6597069766656000"], simp_all)

lemma ev_152: "Math_round (Fin 3000) = Fin 3000"
  using Math_round_eqI [of "3000" "3000"] by simp

lemma ev_153: "js_mul (Fin 10000) (Fin (3602879701896397 / 18014398509481984)) = Fin 2000"
  by (simp only: js_mul.simps) (rule rnd_eqI [where e = "10" and m = "8796093022208000"], simp_all)

lemma ev_154: "Math_round (Fin 2000) = Fin 2000"
  using Math_round_eqI [of "2000" "2000"] by simp

lemma ev_155: "lit (9 / 5) = Fin (8106479329266893 / 4503599627370496)"
  by (simp only: lit_def) (rule rnd_eqI [where e = "0" and m = "8106479329266893"], simp_all)

lemma ev_156: "js_sub (Fin (8106479329266893 / 4503599627370496)) (Fin 1) = Fin (3602879701896397 / 4503599627370496)"
  by (simp only: js_sub_def js_neg.simps js_add.simps) (rule rnd_eqI [where e = "- 1" and m = "7205759403792794"], simp_all)

lemma ev_157: "js_mul (Fin 5000) (Fin (3602879701896397 / 4503599627370496)) = Fin 4000"
  by (simp only: js_mul.simps) (rule rnd_eqI [where e = "11" and m = "8796093022208000"], simp_all)

lemma ev_158: "js_add (Fin 5000) (Fin 4000) = Fin 9000"
  by (simp only: js_add.simps) (rule rnd_eqI [where e = "13" and m = "4947802324992000"], simp_all)

lemma ev_159: "js_add (Fin 9000) (Fin 0) = Fin 9000"
  by (simp only: js_add.simps) (rule rnd_eqI [where e = "13" and m = "4947802324992000"], simp_all)

lemma ev_160: "js_mul (Fin 4) (Fin (8106479329266893 / 4503599627370496)) = Fin (8106479329266893 / 1125899906842624)"
  by (simp only: js_mul.simps) (rule rnd_eqI [where e = "2" and m = "8106479329266893"], simp_all)

lemma ev_161: "Math_ceil (Fin (8106479329266893 / 1125899906842624)) = Fin 8"
  using Math_ceil_eqI [of "8" "8106479329266893 / 1125899906842624"] by simp

lemma ev_162: "js_mul (Fin 8) (Fin 7) = Fin 56"
  by (simp only: js_mul.simps) (rule rnd_eqI [where e = "5" and m = "7881299347898368"], simp_all)

lemma ev_163: "js_add (Fin 9000) (Fin (6597069766656001 / 4398046511104)) = Fin 10500"
  by (simp only: js_add.simps) (rule rnd_eqI [where e = "13" and m = "5772436045824000"], simp_all)

lemma ev_164: "js_mul (Fin 10500) (Fin (2589569785738035 / 2251799813685248)) = Fin (6638301452697599 / 549755813888)"
  by (simp only: js_mul.simps) (rule rnd_eqI [where e = "13" and m = "6638301452697599"], simp_all)

lemma ev_165: "Math_ceil (Fin (6638301452697599 / 549755813888)) = Fin 12075"
  using Math_ceil_eqI [of "12075" "6638301452697599 / 549755813888"] by simp

lemma ev_166: "js_mul (Fin 10500) (Fin (5404319552844595 / 18014398509481984)) = Fin 3150"
  by (simp only: js_mul.simps) (rule rnd_eqI [where e = "11" and m = "6926923254988800"], simp_all)

lemma ev_167: "Math_round (Fin 3150) = Fin 3150"
  using Math_round_eqI [of "3150" "3150"] by simp

lemma ev_168: "js_mul (Fin 10500) (Fin (3602879701896397 / 18014398509481984)) = Fin 2100"
  by (simp only: js_mul.simps) (rule rnd_eqI [where e = "11" and m = "4617948836659200"], simp_all)

lemma ev_169: "Math_round (Fin 2100) = Fin 2100"
  using Math_round_eqI [of "2100" "2100"] by simp

lemma ev_170: "js_add (Fin 9000) (Fin 2500) = Fin 11500"
  by (simp only: js_add.simps) (rule rnd_eqI [where e = "13" and m = "6322191859712000"], simp_all)

lemma ev_171: "js_mul (Fin 11500) (Fin (2589569785738035 / 2251799813685248)) = Fin (7270520638668799 / 549755813888)"
  by (simp only: js_mul.simps) (rule rnd_eqI [where e = "13" and m = "7270520638668799"], simp_all)

lemma ev_172: "Math_ceil (Fin (7270520638668799 / 549755813888)) = Fin 13225"
  using Math_ceil_eqI [of "13225" "7270520638668799 / 549755813888"] by simp

lemma ev_173: "js_mul (Fin 11500) (Fin (5404319552844595 / 18014398509481984)) = Fin 3450"
  by (simp only: js_mul.simps) (rule rnd_eqI [where e = "11" and m = "7586630231654400"], simp_all)

lemma ev_174: "Math_round (Fin 3450) = Fin 3450"
  using Math_round_eqI [of "3450" "3450"] by simp

lemma ev_175: "js_mul (Fin 11500) (Fin (3602879701896397 / 18014398509481984)) = Fin 2300"
  by (simp only: js_mul.simps) (rule rnd_eqI [where e = "11" and m = "5057753487769600"], simp_all)

lemma ev_176: "Math_round (Fin 2300) = Fin 2300"
  using Math_round_eqI [of "2300" "2300"] by simp

lemma ev_177: "js_mul (Fin 8000) (Fin 0) = Fin 0"
  by (simp only: js_mul.simps) (simp add: rnd_0)

lemma ev_178: "js_add (Fin 8000) (Fin 0) = Fin 8000"
  by (simp only: js_add.simps) (rule rnd_eqI [where e = "12" and m = "8796093022208000"], simp_all)

lemma ev_179: "js_mul (Fin 8) (Fin 1) = Fin 8"
  by (simp only: js_mul.simps) (rule rnd_eqI [where e = "3" and m = "4503599627370496"], simp_all)

lemma ev_180: "Math_ceil (Fin 8) = Fin 8"
  using Math_ceil_eqI [of "8" "8"] by simp

lemma ev_181: "js_add (Fin 8000) (Fin (5277655813324801 / 2199023255552)) = Fin 10400"
  by (simp only: js_add.simps) (rule rnd_eqI [where e = "13" and m = "5717460464435200"], simp_all)

lemma ev_182: "js_mul (Fin 10400) (Fin (2589569785738035 / 2251799813685248)) = Fin (6575079534100479 / 549755813888)"
  by (simp only: js_mul.simps) (rule rnd_eqI [where e = "13" and m = "6575079534100479"], simp_all)

lemma ev_183: "Math_ceil (Fin (6575079534100479 / 549755813888)) = Fin 11960"
  using Math_ceil_eqI [of "11960" "6575079534100479 / 549755813888"] by simp

lemma ev_184: "js_mul (Fin 10400) (Fin (5404319552844595 / 18014398509481984)) = Fin 3120"
  by (simp only: js_mul.simps) (rule rnd_eqI [where e = "11" and m = "6860952557322240"], simp_all)

lemma ev_185: "Math_round (Fin 3120) = Fin 3120"
  using Math_round_eqI [of "3120" "3120"] by simp

lemma ev_186: "js_mul (Fin 10400) (Fin (3602879701896397 / 18014398509481984)) = Fin 2080"
  by (simp only: js_mul.simps) (rule rnd_eqI [where e = "11" and m = "4573968371548160"], simp_all)

lemma ev_187: "Math_round (Fin 2080) = Fin 2080"
  using Math_round_eqI [of "2080" "2080"] by simp

lemma ev_188: "js_mul (Fin 12000) (Fin (2589569785738035 / 2251799813685248)) = Fin (7586630231654399 / 549755813888)"
  by (simp only: js_mul.simps) (rule rnd_eqI [where e = "13" and m = "7586630231654399"], simp_all)

lemma ev_189: "Math_ceil (Fin (7586630231654399 / 549755813888)) = Fin 13800"
  using Math_ceil_eqI [of "13800" "7586630231654399 / 549755813888"] by simp

lemma ev_190: "js_mul (Fin 12000) (Fin (5404319552844595 / 18014398509481984)) = Fin 3600"
  by (simp only: js_mul.simps) (rule rnd_eqI [where e = "11" and m = "7916483719987200"], simp_all)

lemma ev_191: "Math_round (Fin 3600) = Fin 3600"
  using Math_round_eqI [of "3600" "3600"] by simp

lemma ev_192: "js_mul (Fin 12000) (Fin (3602879701896397 / 18014398509481984)) = Fin 2400"
  by (simp only: js_mul.simps) (rule rnd_eqI [where e = "11" and m = "5277655813324800"], simp_all)

lemma ev_193: "js_add (Fin 10400) (Fin 0) = Fin 10400"
  by (simp only: js_add.simps) (rule rnd_eqI [where e = "13" and m = "5717460464435200"], simp_all)

lemma ev_194: "js_mul (Fin 8) (Fin (5854679515581645 / 4503599627370496)) = Fin (5854679515581645 / 562949953421312)"
  by (simp only: js_mul.simps) (rule rnd_eqI [where e = "3" and m = "5854679515581645"], simp_all)

lemma ev_195: "Math_ceil (Fin (5854679515581645 / 562949953421312)) = Fin 11"
  using Math_ceil_eqI [of "11" "5854679515581645 / 562949953421312"] by simp

lemma ev_196: "js_mul (Fin 11) (Fin 7) = Fin 77"
  by (simp only: js_mul.simps) (rule rnd_eqI [where e = "6" and m = "5418393301680128"], simp_all)

lemma ev_197: "js_add (Fin 10400) (Fin (5277655813324801 / 2199023255552)) = Fin 12800"
  by (simp only: js_add.simps) (rule rnd_eqI [where e = "13" and m = "7036874417766400"], simp_all)

lemma ev_198: "js_mul (Fin 12800) (Fin (2589569785738035 / 2251799813685248)) = Fin (8092405580431359 / 549755813888)"
  by (simp only: js_mul.simps) (rule rnd_eqI [where e = "13" and m = "8092405580431359"], simp_all)

lemma ev_199: "Math_ceil (Fin (8092405580431359 / 549755813888)) = Fin 14720"
  using Math_ceil_eqI [of "14720" "8092405580431359 / 549755813888"] by simp

lemma ev_200: "js_mul (Fin 12800) (Fin (5404319552844595 / 18014398509481984)) = Fin 3840"
  by (simp only: js_mul.simps) (rule rnd_eqI [where e = "11" and m = "8444249301319680"], simp_all)

lemma ev_201: "Math_round (Fin 3840) = Fin 3840"
  using Math_round_eqI [of "3840" "3840"] by simp

lemma ev_202: "js_mul (Fin 12800) (Fin (3602879701896397 / 18014398509481984)) = Fin 2560"
  by (simp only: js_mul.simps) (rule rnd_eqI [where e = "11" and m = "5629499534213120"], simp_all)

lemma ev_203: "Math_round (Fin 2560) = Fin 2560"
  using Math_round_eqI [of "2560" "2560"] by simp

lemma ev_204: "js_add (Fin 10400) (Fin 4000) = Fin 14400"
  by (simp only: js_add.simps) (rule rnd_eqI [where e = "13" and m = "7916483719987200"], simp_all)

lemma ev_205: "js_add (Fin 12000) (Fin 0) = Fin 12000"
  by (simp only: js_add.simps) (rule rnd_eqI [where e = "13" and m = "6597069766656000"], simp_all)

lemma ev_206: "js_add (Fin 12000) (Fin 4000) = Fin 16000"
  by (simp only: js_add.simps) (rule rnd_eqI [where e = "13" and m = "8796093022208000"], simp_all)

lemma ev_207: "js_mul (Fin 16000) (Fin (2589569785738035 / 2251799813685248)) = Fin 18400"
  by (simp only: js_mul.simps) (rule rnd_eqI [where e = "14" and m = "5057753487769600"], simp_all)

lemma ev_208: "Math_ceil (Fin 18400) = Fin 18400"
  using Math_ceil_eqI [of "18400" "18400"] by simp

lemma ev_209: "js_mul (Fin 16000) (Fin (5404319552844595 / 18014398509481984)) = Fin 4800"
  by (simp only: js_mul.simps) (rule rnd_eqI [where e = "12" and m = "5277655813324800"], simp_all)

lemma ev_210: "Math_round (Fin 4800) = Fin 4800"
  using Math_round_eqI [of "4800" "4800"] by simp

lemma ev_211: "js_mul (Fin 16000) (Fin (3602879701896397 / 18014398509481984)) = Fin 3200"
  by (simp only: js_mul.simps) (rule rnd_eqI [where e = "11" and m = "7036874417766400"], simp_all)

lemma ev_212: "Math_round (Fin 3200) = Fin 3200"
  using Math_round_eqI [of "3200" "3200"] by simp

lemma ev_213: "js_mul (Fin 8000) (Fin (3602879701896397 / 4503599627370496)) = Fin 6400"
  by (simp only: js_mul.simps) (rule rnd_eqI [where e = "12" and m = "7036874417766400"], simp_all)

lemma ev_214: "js_add (Fin 8000) (Fin 6400) = Fin 14400"
  by (simp only: js_add.simps) (rule rnd_eqI [where e = "13" and m = "7916483719987200"], simp_all)

lemma ev_215: "js_add (Fin 14400) (Fin 0) = Fin 14400"
  by (simp only: js_add.simps) (rule rnd_eqI [where e = "13" and m = "7916483719987200"], simp_all)

lemma ev_216: "js_mul (Fin 8) (Fin (8106479329266893 / 4503599627370496)) = Fin (8106479329266893 / 562949953421312)"
  by (simp only: js_mul.simps) (rule rnd_eqI [where e = "3" and m = "8106479329266893"], simp_all)

lemma ev_217: "Math_ceil (Fin (8106479329266893 / 562949953421312)) = Fin 15"
  using Math_ceil_eqI [of "15" "8106479329266893 / 562949953421312"] by simp

lemma ev_218: "js_mul (Fin 15) (Fin 7) = Fin 105"
  by (simp only: js_mul.simps) (rule rnd_eqI [where e = "6" and m = "7388718138654720"], simp_all)

lemma ev_219: "js_add (Fin 14400) (Fin (5277655813324801 / 2199023255552)) = Fin 16800"
  by (simp only: js_add.simps) (rule rnd_eqI [where e = "14" and m = "4617948836659200"], simp_all)

lemma ev_220: "js_mul (Fin 16800) (Fin (2589569785738035 / 2251799813685248)) = Fin 19320"
  by (simp only: js_mul.simps) (rule rnd_eqI [where e = "14" and m = "5310641162158080"], simp_all)

lemma ev_221: "Math_ceil (Fin 19320) = Fin 19320"
  using Math_ceil_eqI [of "19320" "19320"] by simp

lemma ev_222: "js_mul (Fin 16800) (Fin (5404319552844595 / 18014398509481984)) = Fin 5040"
  by (simp only: js_mul.simps) (rule rnd_eqI [where e = "12" and m = "5541538603991040"], simp_all)

lemma ev_223: "Math_round (Fin 5040) = Fin 5040"
  using Math_round_eqI [of "5040" "5040"] by simp

lemma ev_224: "js_mul (Fin 16800) (Fin (3602879701896397 / 18014398509481984)) = Fin 3360"
  by (simp only: js_mul.simps) (rule rnd_eqI [where e = "11" and m = "7388718138654720"], simp_all)

lemma ev_225: "Math_round (Fin 3360) = Fin 3360"
  using Math_round_eqI [of "3360" "3360"] by simp

lemma ev_226: "js_add (Fin 14400) (Fin 4000) = Fin 18400"
  by (simp only: js_add.simps) (rule rnd_eqI [where e = "14" and m = "5057753487769600"], simp_all)

lemma ev_227: "js_mul (Fin 18400) (Fin (2589569785738035 / 2251799813685248)) = Fin 21160"
  by (simp only: js_mul.simps) (rule rnd_eqI [where e = "14" and m = "5816416510935040"], simp_all)

lemma ev_228: "Math_ceil (Fin 21160) = Fin 21160"
  using Math_ceil_eqI [of "21160" "21160"] by simp

lemma ev_229: "js_mul (Fin 18400) (Fin (5404319552844595 / 18014398509481984)) = Fin 5520"
  by (simp only: js_mul.simps) (rule rnd_eqI [where e = "12" and m = "6069304185323520"], simp_all)

lemma ev_230: "Math_round (Fin 5520) = Fin 5520"
  using Math_round_eqI [of "5520" "5520"] by simp

lemma ev_231: "js_mul (Fin 18400) (Fin (3602879701896397 / 18014398509481984)) = Fin 3680"
  by (simp only: js_mul.simps) (rule rnd_eqI [where e = "11" and m = "8092405580431360"], simp_all)

lemma ev_232: "Math_round (Fin 3680) = Fin 3680"
  using Math_round_eqI [of "3680" "3680"] by simp

lemma ev_233: "lit 12000 = Fin 12000"
  by (simp only: lit_def) (rule rnd_eqI [where e = "13" and m = "6597069766656000"], simp_all)

lemma ev_234: "js_mul (Fin 12000) (Fin 0) = Fin 0"
  by (simp only: js_mul.simps) (simp add: rnd_0)

lemma ev_235: "lit 12 = Fin 12"
  by (simp only: lit_def) (rule rnd_eqI [where e = "3" and m = "6755399441055744"], simp_all)

lemma ev_236: "js_mul (Fin 12) (Fin 1) = Fin 12"
  by (simp only: js_mul.simps) (rule rnd_eqI [where e = "3" and m = "6755399441055744"], simp_all)

lemma ev_237: "js_mul (Fin 12000) (Fin (1351079888211149 / 4503599627370496)) = Fin (7916483719987201 / 2199023255552)"
  by (simp only: js_mul.simps) (rule rnd_eqI [where e = "11" and m = "7916483719987201"], simp_all)

lemma ev_238: "js_add (Fin 12000) (Fin (7916483719987201 / 2199023255552)) = Fin 15600"
  by (simp only: js_add.simps) (rule rnd_eqI [where e = "13" and m = "8576190696652800"], simp_all)

lemma ev_239: "js_mul (Fin 15600) (Fin (2589569785738035 / 2251799813685248)) = Fin 17940"
  by (simp only: js_mul.simps) (rule rnd_eqI [where e = "14" and m = "4931309650575360"], simp_all)

lemma ev_240: "Math_ceil (Fin 17940) = Fin 17940"
  using Math_ceil_eqI [of "17940" "17940"] by simp

lemma ev_241: "js_mul (Fin 15600) (Fin (5404319552844595 / 18014398509481984)) = Fin 4680"
  by (simp only: js_mul.simps) (rule rnd_eqI [where e = "12" and m = "5145714417991680"], simp_all)

lemma ev_242: "Math_round (Fin 4680) = Fin 4680"
  using Math_round_eqI [of "4680" "4680"] by simp

lemma ev_243: "js_mul (Fin 15600) (Fin (3602879701896397 / 18014398509481984)) = Fin 3120"
  by (simp only: js_mul.simps) (rule rnd_eqI [where e = "11" and m = "6860952557322240"], simp_all)

lemma ev_244: "js_mul (Fin 12000) (Fin (1 / 2)) = Fin 6000"
  by (simp only: js_mul.simps) (rule rnd_eqI [where e = "12" and m = "6597069766656000"], simp_all)

lemma ev_245: "js_add (Fin 12000) (Fin 6000) = Fin 18000"
  by (simp only: js_add.simps) (rule rnd_eqI [where e = "14" and m = "4947802324992000"], simp_all)

lemma ev_246: "js_mul (Fin 18000) (Fin (2589569785738035 / 2251799813685248)) = Fin 20700"
  by (simp only: js_mul.simps) (rule rnd_eqI [where e = "14" and m = "5689972673740800"], simp_all)

lemma ev_247: "Math_ceil (Fin 20700) = Fin 20700"
  using Math_ceil_eqI [of "20700" "20700"] by simp

lemma ev_248: "js_mul (Fin 18000) (Fin (5404319552844595 / 18014398509481984)) = Fin 5400"
  by (simp only: js_mul.simps) (rule rnd_eqI [where e = "12" and m = "5937362789990400"], simp_all)

lemma ev_249: "Math_round (Fin 5400) = Fin 5400"
  using Math_round_eqI [of "5400" "5400"] by simp

lemma ev_250: "js_mul (Fin 18000) (Fin (3602879701896397 / 18014398509481984)) = Fin 3600"
  by (simp only: js_mul.simps) (rule rnd_eqI [where e = "11" and m = "7916483719987200"], simp_all)

lemma ev_251: "js_add (Fin 15600) (Fin 0) = Fin 15600"
  by (simp only: js_add.simps) (rule rnd_eqI [where e = "13" and m = "8576190696652800"], simp_all)

lemma ev_252: "js_mul (Fin 12) (Fin (5854679515581645 / 4503599627370496)) = Fin (2195504818343117 / 140737488355328)"
  by (simp only: js_mul.simps) (rule rnd_eqI [where e = "3" and m = "8782019273372468"], simp_all)

lemma ev_253: "Math_ceil (Fin (2195504818343117 / 140737488355328)) = Fin 16"
  using Math_ceil_eqI [of "16" "2195504818343117 / 140737488355328"] by simp

lemma ev_254: "js_mul (Fin 16) (Fin 7) = Fin 112"
  by (simp only: js_mul.simps) (rule rnd_eqI [where e = "6" and m = "7881299347898368"], simp_all)

lemma ev_255: "js_add (Fin 15600) (Fin (7916483719987201 / 2199023255552)) = Fin 19200"
  by (simp only: js_add.simps) (rule rnd_eqI [where e = "14" and m = "5277655813324800"], simp_all)

lemma ev_256: "js_mul (Fin 19200) (Fin (2589569785738035 / 2251799813685248)) = Fin 22080"
  by (simp only: js_mul.simps) (rule rnd_eqI [where e = "14" and m = "6069304185323520"], simp_all)

lemma ev_257: "Math_ceil (Fin 22080) = Fin 22080"
  using Math_ceil_eqI [of "22080" "22080"] by simp

lemma ev_258: "js_mul (Fin 19200) (Fin (5404319552844595 / 18014398509481984)) = Fin 5760"
  by (simp only: js_mul.simps) (rule rnd_eqI [where e = "12" and m = "6333186975989760"], simp_all)

lemma ev_259: "Math_round (Fin 5760) = Fin 5760"
  using Math_round_eqI [of "5760" "5760"] by simp

lemma ev_260: "js_mul (Fin 19200) (Fin (3602879701896397 / 18014398509481984)) = Fin 3840"
  by (simp only: js_mul.simps) (rule rnd_eqI [where e = "11" and m = "8444249301319680"], simp_all)

lemma ev_261: "js_add (Fin 15600) (Fin 6000) = Fin 21600"
  by (simp only: js_add.simps) (rule rnd_eqI [where e = "14" and m = "5937362789990400"], simp_all)

lemma ev_262: "js_mul (Fin 21600) (Fin (2589569785738035 / 2251799813685248)) = Fin (6827967208488959 / 274877906944)"
  by (simp only: js_mul.simps) (rule rnd_eqI [where e = "14" and m = "6827967208488959"], simp_all)

lemma ev_263: "Math_ceil (Fin (6827967208488959 / 274877906944)) = Fin 24840"
  using Math_ceil_eqI [of "24840" "6827967208488959 / 274877906944"] by simp

lemma ev_264: "js_mul (Fin 21600) (Fin (5404319552844595 / 18014398509481984)) = Fin 6480"
  by (simp only: js_mul.simps) (rule rnd_eqI [where e = "12" and m = "7124835347988480"], simp_all)

lemma ev_265: "Math_round (Fin 6480) = Fin 6480"
  using Math_round_eqI [of "6480" "6480"] by simp

lemma ev_266: "js_mul (Fin 21600) (Fin (3602879701896397 / 18014398509481984)) = Fin 4320"
  by (simp only: js_mul.simps) (rule rnd_eqI [where e = "12" and m = "4749890231992320"], simp_all)

lemma ev_267: "js_add (Fin 18000) (Fin 0) = Fin 18000"
  by (simp only: js_add.simps) (rule rnd_eqI [where e = "14" and m = "4947802324992000"], simp_all)

lemma ev_268: "js_mul (Fin 12) (Fin (3 / 2)) = Fin 18"
  by (simp only: js_mul.simps) (rule rnd_eqI [where e = "4" and m = "5066549580791808"], simp_all)

lemma ev_269: "Math_ceil (Fin 18) = Fin 18"
  using Math_ceil_eqI [of "18" "18"] by simp

lemma ev_270: "js_mul (Fin 18) (Fin 7) = Fin 126"
  by (simp only: js_mul.simps) (rule rnd_eqI [where e = "6" and m = "8866461766385664"], simp_all)

lemma ev_271: "js_add (Fin 18000) (Fin (7916483719987201 / 2199023255552)) = Fin 21600"
  by (simp only: js_add.simps) (rule rnd_eqI [where e = "14" and m = "5937362789990400"], simp_all)

lemma ev_272: "js_add (Fin 18000) (Fin 6000) = Fin 24000"
  by (simp only: js_add.simps) (rule rnd_eqI [where e = "14" and m = "6597069766656000"], simp_all)

lemma ev_273: "js_mul (Fin 24000) (Fin (2589569785738035 / 2251799813685248)) = Fin (7586630231654399 / 274877906944)"
  by (simp only: js_mul.simps) (rule rnd_eqI [where e = "14" and m = "7586630231654399"], simp_all)

lemma ev_274: "Math_ceil (Fin (7586630231654399 / 274877906944)) = Fin 27600"
  using Math_ceil_eqI [of "27600" "7586630231654399 / 274877906944"] by simp

lemma ev_275: "js_mul (Fin 24000) (Fin (5404319552844595 / 18014398509481984)) = Fin 7200"
  by (simp only: js_mul.simps) (rule rnd_eqI [where e = "12" and m = "7916483719987200"], simp_all)

lemma ev_276: "Math_round (Fin 7200) = Fin 7200"
  using Math_round_eqI [of "7200" "7200"] by simp

lemma ev_277: "js_mul (Fin 24000) (Fin (3602879701896397 / 18014398509481984)) = Fin 4800"
  by (simp only: js_mul.simps) (rule rnd_eqI [where e = "12" and m = "5277655813324800"], simp_all)

lemma ev_278: "js_mul (Fin 12000) (Fin (3602879701896397 / 4503599627370496)) = Fin 9600"
  by (simp only: js_mul.simps) (rule rnd_eqI [where e = "13" and m = "5277655813324800"], simp_all)

lemma ev_279: "js_add (Fin 12000) (Fin 9600) = Fin 21600"
  by (simp only: js_add.simps) (rule rnd_eqI [where e = "14" and m = "5937362789990400"], simp_all)

lemma ev_280: "js_add (Fin 21600) (Fin 0) = Fin 21600"
  by (simp only: js_add.simps) (rule rnd_eqI [where e = "14" and m = "5937362789990400"], simp_all)

lemma ev_281: "js_mul (Fin 12) (Fin (8106479329266893 / 4503599627370496)) = Fin (3039929748475085 / 140737488355328)"
  by (simp only: js_mul.simps) (rule rnd_eqI [where e = "4" and m = "6079859496950170"], simp_all)

lemma ev_282: "Math_ceil (Fin (3039929748475085 / 140737488355328)) = Fin 22"
  using Math_ceil_eqI [of "22" "3039929748475085 / 140737488355328"] by simp

lemma ev_283: "js_mul (Fin 22) (Fin 7) = Fin 154"
  by (simp only: js_mul.simps) (rule rnd_eqI [where e = "7" and m = "5418393301680128"], simp_all)

lemma ev_284: "js_add (Fin 21600) (Fin (7916483719987201 / 2199023255552)) = Fin 25200"
  by (simp only: js_add.simps) (rule rnd_eqI [where e = "14" and m = "6926923254988800"], simp_all)

lemma ev_285: "js_mul (Fin 25200) (Fin (2589569785738035 / 2251799813685248)) = Fin (7965961743237119 / 274877906944)"
  by (simp only: js_mul.simps) (rule rnd_eqI [where e = "14" and m = "7965961743237119"], simp_all)

lemma ev_286: "Math_ceil (Fin (7965961743237119 / 274877906944)) = Fin 28980"
  using Math_ceil_eqI [of "28980" "7965961743237119 / 274877906944"] by simp

lemma ev_287: "js_mul (Fin 25200) (Fin (5404319552844595 / 18014398509481984)) = Fin 7560"
  by (simp only: js_mul.simps) (rule rnd_eqI [where e = "12" and m = "8312307905986560"], simp_all)

lemma ev_288: "Math_round (Fin 7560) = Fin 7560"
  using Math_round_eqI [of "7560" "7560"] by simp

lemma ev_289: "js_mul (Fin 25200) (Fin (3602879701896397 / 18014398509481984)) = Fin 5040"
  by (simp only: js_mul.simps) (rule rnd_eqI [where e = "12" and m = "5541538603991040"], simp_all)

lemma ev_290: "js_add (Fin 21600) (Fin 6000) = Fin 27600"
  by (simp only: js_add.simps) (rule rnd_eqI [where e = "14" and m = "7586630231654400"], simp_all)

lemma ev_291: "js_mul (Fin 27600) (Fin (2589569785738035 / 2251799813685248)) = Fin (8724624766402559 / 274877906944)"
  by (simp only: js_mul.simps) (rule rnd_eqI [where e = "14" and m = "8724624766402559"], simp_all)

lemma ev_292: "Math_ceil (Fin (8724624766402559 / 274877906944)) = Fin 31740"
  using Math_ceil_eqI [of "31740" "8724624766402559 / 274877906944"] by simp

lemma ev_293: "js_mul (Fin 27600) (Fin (5404319552844595 / 18014398509481984)) = Fin 8280"
  by (simp only: js_mul.simps) (rule rnd_eqI [where e = "13" and m = "4551978138992640"], simp_all)

lemma ev_294: "Math_round (Fin 8280) = Fin 8280"
  using Math_round_eqI [of "8280" "8280"] by simp

lemma ev_295: "js_mul (Fin 27600) (Fin (3602879701896397 / 18014398509481984)) = Fin 5520"
  by (simp only: js_mul.simps) (rule rnd_eqI [where e = "12" and m = "6069304185323520"], simp_all)

lemma ev_296: "lit 10000 = Fin 10000"
  by (simp only: lit_def) (rule rnd_eqI [where e = "13" and m = "5497558138880000"], simp_all)

lemma ev_297: "js_mul (Fin 10000) (Fin 0) = Fin 0"
  by (simp only: js_mul.simps) (simp add: rnd_0)

lemma ev_298: "js_add (Fin 10000) (Fin 0) = Fin 10000"
  by (simp only: js_add.simps) (rule rnd_eqI [where e = "13" and m = "5497558138880000"], simp_all)

lemma ev_299: "js_mul (Fin 10) (Fin 1) = Fin 10"
  by (simp only: js_mul.simps) (rule rnd_eqI [where e = "3" and m = "5629499534213120"], simp_all)

lemma ev_300: "Math_ceil (Fin 10) = Fin 10"
  using Math_ceil_eqI [of "10" "10"] by simp

lemma ev_301: "js_mul (Fin 10) (Fin 7) = Fin 70"
  by (simp only: js_mul.simps) (rule rnd_eqI [where e = "6" and m = "4925812092436480"], simp_all)

lemma ev_302: "js_mul (Fin 10000) (Fin (1351079888211149 / 4503599627370496)) = Fin (6597069766656001 / 2199023255552)"
  by (simp only: js_mul.simps) (rule rnd_eqI [where e = "11" and m = "6597069766656001"], simp_all)

lemma ev_303: "js_add (Fin 10000) (Fin (6597069766656001 / 2199023255552)) = Fin 13000"
  by (simp only: js_add.simps) (rule rnd_eqI [where e = "13" and m = "7146825580544000"], simp_all)

lemma ev_304: "js_mul (Fin 13000) (Fin (2589569785738035 / 2251799813685248)) = Fin (8218849417625599 / 549755813888)"
  by (simp only: js_mul.simps) (rule rnd_eqI [where e = "13" and m = "8218849417625599"], simp_all)

lemma ev_305: "Math_ceil (Fin (8218849417625599 / 549755813888)) = Fin 14950"
  using Math_ceil_eqI [of "14950" "8218849417625599 / 549755813888"] by simp

lemma ev_306: "js_mul (Fin 13000) (Fin (5404319552844595 / 18014398509481984)) = Fin 3900"
  by (simp only: js_mul.simps) (rule rnd_eqI [where e = "11" and m = "8576190696652800"], simp_all)

lemma ev_307: "Math_round (Fin 3900) = Fin 3900"
  using Math_round_eqI [of "3900" "3900"] by simp

lemma ev_308: "js_mul (Fin 13000) (Fin (3602879701896397 / 18014398509481984)) = Fin 2600"
  by (simp only: js_mul.simps) (rule rnd_eqI [where e = "11" and m = "5717460464435200"], simp_all)

lemma ev_309: "Math_round (Fin 2600) = Fin 2600"
  using Math_round_eqI [of "2600" "2600"] by simp

lemma ev_310: "js_mul (Fin 10000) (Fin (1 / 2)) = Fin 5000"
  by (simp only: js_mul.simps) (rule rnd_eqI [where e = "12" and m = "5497558138880000"], simp_all)

lemma ev_311: "js_add (Fin 10000) (Fin 5000) = Fin 15000"
  by (simp only: js_add.simps) (rule rnd_eqI [where e = "13" and m = "8246337208320000"], simp_all)

lemma ev_312: "js_mul (Fin 15000) (Fin (2589569785738035 / 2251799813685248)) = Fin 17250"
  by (simp only: js_mul.simps) (rule rnd_eqI [where e = "14" and m = "4741643894784000"], simp_all)

lemma ev_313: "Math_ceil (Fin 17250) = Fin 17250"
  using Math_ceil_eqI [of "17250" "17250"] by simp

lemma ev_314: "js_mul (Fin 15000) (Fin (5404319552844595 / 18014398509481984)) = Fin 4500"
  by (simp only: js_mul.simps) (rule rnd_eqI [where e = "12" and m = "4947802324992000"], simp_all)

lemma ev_315: "Math_round (Fin 4500) = Fin 4500"
  using Math_round_eqI [of "4500" "4500"] by simp

lemma ev_316: "js_mul (Fin 15000) (Fin (3602879701896397 / 18014398509481984)) = Fin 3000"
  by (simp only: js_mul.simps) (rule rnd_eqI [where e = "11" and m = "6597069766656000"], simp_all)

lemma ev_317: "js_add (Fin 13000) (Fin 0) = Fin 13000"
  by (simp only: js_add.simps) (rule rnd_eqI [where e = "13" and m = "7146825580544000"], simp_all)

lemma ev_318: "js_mul (Fin 10) (Fin (5854679515581645 / 4503599627370496)) = Fin 13"
  by (simp only: js_mul.simps) (rule rnd_eqI [where e = "3" and m = "7318349394477056"], simp_all)

lemma ev_319: "Math_ceil (Fin 13) = Fin 13"
  using Math_ceil_eqI [of "13" "13"] by simp

lemma ev_320: "js_mul (Fin 13) (Fin 7) = Fin 91"
  by (simp only: js_mul.simps) (rule rnd_eqI [where e = "6" and m = "6403555720167424"], simp_all)

lemma ev_321: "js_add (Fin 13000) (Fin (6597069766656001 / 2199023255552)) = Fin 16000"
  by (simp only: js_add.simps) (rule rnd_eqI [where e = "13" and m = "8796093022208000"], simp_all)

lemma ev_322: "js_add (Fin 13000) (Fin 5000) = Fin 18000"
  by (simp only: js_add.simps) (rule rnd_eqI [where e = "14" and m = "4947802324992000"], simp_all)

lemma ev_323: "js_add (Fin 15000) (Fin 0) = Fin 15000"
  by (simp only: js_add.simps) (rule rnd_eqI [where e = "13" and m = "8246337208320000"], simp_all)

lemma ev_324: "js_mul (Fin 10) (Fin (3 / 2)) = Fin 15"
  by (simp only: js_mul.simps) (rule rnd_eqI [where e = "3" and m = "8444249301319680"], simp_all)

lemma ev_325: "Math_ceil (Fin 15) = Fin 15"
  using Math_ceil_eqI [of "15" "15"] by simp

lemma ev_326: "js_add (Fin 15000) (Fin (6597069766656001 / 2199023255552)) = Fin 18000"
  by (simp only: js_add.simps) (rule rnd_eqI [where e = "14" and m = "4947802324992000"], simp_all)

lemma ev_327: "js_add (Fin 15000) (Fin 5000) = Fin 20000"
  by (simp only: js_add.simps) (rule rnd_eqI [where e = "14" and m = "5497558138880000"], simp_all)

lemma ev_328: "js_mul (Fin 20000) (Fin (2589569785738035 / 2251799813685248)) = Fin 23000"
  by (simp only: js_mul.simps) (rule rnd_eqI [where e = "14" and m = "6322191859712000"], simp_all)

lemma ev_329: "Math_ceil (Fin 23000) = Fin 23000"
  using Math_ceil_eqI [of "23000" "23000"] by simp

lemma ev_330: "js_mul (Fin 20000) (Fin (5404319552844595 / 18014398509481984)) = Fin 6000"
  by (simp only: js_mul.simps) (rule rnd_eqI [where e = "12" and m = "6597069766656000"], simp_all)

lemma ev_331: "Math_round (Fin 6000) = Fin 6000"
  using Math_round_eqI [of "6000" "6000"] by simp

lemma ev_332: "js_mul (Fin 20000) (Fin (3602879701896397 / 18014398509481984)) = Fin 4000"
  by (simp only: js_mul.simps) (rule rnd_eqI [where e = "11" and m = "8796093022208000"], simp_all)

lemma ev_333: "Math_round (Fin 4000) = Fin 4000"
  using Math_round_eqI [of "4000" "4000"] by simp

lemma ev_334: "js_mul (Fin 10000) (Fin (3602879701896397 / 4503599627370496)) = Fin 8000"
  by (simp only: js_mul.simps) (rule rnd_eqI [where e = "12" and m = "8796093022208000"], simp_all)

lemma ev_335: "js_add (Fin 10000) (Fin 8000) = Fin 18000"
  by (simp only: js_add.simps) (rule rnd_eqI [where e = "14" and m = "4947802324992000"], simp_all)

lemma ev_336: "js_mul (Fin 10) (Fin (8106479329266893 / 4503599627370496)) = Fin 18"
  by (simp only: js_mul.simps) (rule rnd_eqI [where e = "4" and m = "5066549580791808"], simp_all)

lemma ev_337: "js_add (Fin 18000) (Fin (6597069766656001 / 2199023255552)) = Fin 21000"
  by (simp only: js_add.simps) (rule rnd_eqI [where e = "14" and m = "5772436045824000"], simp_all)

lemma ev_338: "js_mul (Fin 21000) (Fin (2589569785738035 / 2251799813685248)) = Fin (6638301452697599 / 274877906944)"
  by (simp only: js_mul.simps) (rule rnd_eqI [where e = "14" and m = "6638301452697599"], simp_all)

lemma ev_339: "Math_ceil (Fin (6638301452697599 / 274877906944)) = Fin 24150"
  using Math_ceil_eqI [of "24150" "6638301452697599 / 274877906944"] by simp

lemma ev_340: "js_mul (Fin 21000) (Fin (5404319552844595 / 18014398509481984)) = Fin 6300"
  by (simp only: js_mul.simps) (rule rnd_eqI [where e = "12" and m = "6926923254988800"], simp_all)

lemma ev_341: "Math_round (Fin 6300) = Fin 6300"
  using Math_round_eqI [of "6300" "6300"] by simp

lemma ev_342: "js_mul (Fin 21000) (Fin (3602879701896397 / 18014398509481984)) = Fin 4200"
  by (simp only: js_mul.simps) (rule rnd_eqI [where e = "12" and m = "4617948836659200"], simp_all)

lemma ev_343: "Math_round (Fin 4200) = Fin 4200"
  using Math_round_eqI [of "4200" "4200"] by simp

lemma ev_344: "js_add (Fin 18000) (Fin 5000) = Fin 23000"
  by (simp only: js_add.simps) (rule rnd_eqI [where e = "14" and m = "6322191859712000"], simp_all)

lemma ev_345: "js_mul (Fin 23000) (Fin (2589569785738035 / 2251799813685248)) = Fin (7270520638668799 / 274877906944)"
  by (simp only: js_mul.simps) (rule rnd_eqI [where e = "14" and m = "7270520638668799"], simp_all)

lemma ev_346: "Math_ceil (Fin (7270520638668799 / 274877906944)) = Fin 26450"
  using Math_ceil_eqI [of "26450" "7270520638668799 / 274877906944"] by simp

lemma ev_347: "js_mul (Fin 23000) (Fin (5404319552844595 / 18014398509481984)) = Fin 6900"
  by (simp only: js_mul.simps) (rule rnd_eqI [where e = "12" and m = "7586630231654400"], simp_all)

lemma ev_348: "Math_round (Fin 6900) = Fin 6900"
  using Math_round_eqI [of "6900" "6900"] by simp

lemma ev_349: "js_mul (Fin 23000) (Fin (3602879701896397 / 18014398509481984)) = Fin 4600"
  by (simp only: js_mul.simps) (rule rnd_eqI [where e = "12" and m = "5057753487769600"], simp_all)

lemma ev_350: "Math_round (Fin 4600) = Fin 4600"
  using Math_round_eqI [of "4600" "4600"] by simp

lemma ev_351: "lit (27 / 20) = Fin (3039929748475085 / 2251799813685248)"
  by (simp only: lit_def) (rule rnd_eqI [where e = "0" and m = "6079859496950170"], simp_all)

lemma ev_352: "js_sub (Fin (3039929748475085 / 2251799813685248)) (Fin 1) = Fin (788129934789837 / 2251799813685248)"
  by (simp only: js_sub_def js_neg.simps js_add.simps) (rule rnd_eqI [where e = "- 2" and m = "6305039478318696"], simp_all)

lemma ev_353: "js_mul (Fin 7500) (Fin (788129934789837 / 2251799813685248)) = Fin (5772436045824001 / 2199023255552)"
  by (simp only: js_mul.simps) (rule rnd_eqI [where e = "11" and m = "5772436045824001"], simp_all)

lemma ev_354: "js_add (Fin 7500) (Fin (5772436045824001 / 2199023255552)) = Fin 10125"
  by (simp only: js_add.simps) (rule rnd_eqI [where e = "13" and m = "5566277615616000"], simp_all)

lemma ev_355: "lit 100 = Fin 100"
  by (simp only: lit_def) (rule rnd_eqI [where e = "6" and m = "7036874417766400"], simp_all)

lemma ev_356: "js_mul (Fin 10125) (Fin 100) = Fin 1012500"
  by (simp only: js_mul.simps) (rule rnd_eqI [where e = "19" and m = "8697308774400000"], simp_all)

lemma ev_357: "Math_round (Fin 1012500) = Fin 1012500"
  using Math_round_eqI [of "1012500" "1012500"] by simp

lemma ev_358: "js_div (Fin 1012500) (Fin 100) = Fin 10125"
  by (subst js_div_Fin, simp) (rule rnd_eqI [where e = "13" and m = "5566277615616000"], simp_all)

lemma ev_359: "js_mul (Fin 2500) (Fin 100) = Fin 250000"
  by (simp only: js_mul.simps) (rule rnd_eqI [where e = "17" and m = "8589934592000000"], simp_all)

lemma ev_360: "Math_round (Fin 250000) = Fin 250000"
  using Math_round_eqI [of "250000" "250000"] by simp

lemma ev_361: "js_div (Fin 250000) (Fin 100) = Fin 2500"
  by (subst js_div_Fin, simp) (rule rnd_eqI [where e = "11" and m = "5497558138880000"], simp_all)

lemma ev_362: "js_mul (Fin (5772436045824001 / 2199023255552)) (Fin 100) = Fin (4509715660800001 / 17179869184)"
  by (simp only: js_mul.simps) (rule rnd_eqI [where e = "18" and m = "4509715660800001"], simp_all)

lemma ev_363: "Math_round (Fin (4509715660800001 / 17179869184)) = Fin 262500"
  using Math_round_eqI [of "262500" "4509715660800001 / 17179869184"] by simp

lemma ev_364: "js_div (Fin 262500) (Fin 100) = Fin 2625"
  by (subst js_div_Fin, simp) (rule rnd_eqI [where e = "11" and m = "5772436045824000"], simp_all)

lemma ev_365: "js_mul (Fin 7500) (Fin 0) = Fin 0"
  by (simp only: js_mul.simps) (simp add: rnd_0)

lemma ev_366: "js_mul (Fin 7500) (Fin 100) = Fin 750000"
  by (simp only: js_mul.simps) (rule rnd_eqI [where e = "19" and m = "6442450944000000"], simp_all)

lemma ev_367: "Math_round (Fin 750000) = Fin 750000"
  using Math_round_eqI [of "750000" "750000"] by simp

lemma ev_368: "js_div (Fin 750000) (Fin 100) = Fin 7500"
  by (subst js_div_Fin, simp) (rule rnd_eqI [where e = "12" and m = "8246337208320000"], simp_all)

lemma ev_369: "js_mul (Fin 0) (Fin 100) = Fin 0"
  by (simp only: js_mul.simps) (simp add: rnd_0)

lemma ev_370: "Math_round (Fin 0) = Fin 0"
  using Math_round_eqI [of "0" "0"] by simp

lemma ev_371: "js_div (Fin 0) (Fin 100) = Fin 0"
  by (subst js_div_Fin, simp) (simp add: rnd_0)

lemmas evals =
  ev_1 ev_2 ev_3 ev_4 ev_5 ev_6 ev_7 ev_8 ev_9 ev_10
  ev_11 ev_12 ev_13 ev_14 ev_15 ev_16 ev_17 ev_18 ev_19 ev_20
  ev_21 ev_22 ev_23 ev_24 ev_25 ev_26 ev_27 ev_28 ev_29 ev_30
  ev_31 ev_32 ev_33 ev_34 ev_35 ev_36 ev_37 ev_38 ev_39 ev_40
  ev_41 ev_42 ev_43 ev_44 ev_45 ev_46 ev_47 ev_48 ev_49 ev_50
  ev_51 ev_52 ev_53 ev_54 ev_55 ev_56 ev_57 ev_58 ev_59 ev_60
  ev_61 ev_62 ev_63 ev_64 ev_65 ev_66 ev_67 ev_68 ev_69 ev_70
  ev_71 ev_72 ev_73 ev_74 ev_75 ev_76 ev_77 ev_78 ev_79 ev_80
  ev_81 ev_82 ev_83 ev_84 ev_85 ev_86 ev_87 ev_88 ev_89 ev_90
  ev_91 ev_92 ev_93 ev_94 ev_95 ev_96 ev_97 ev_98 ev_99 ev_100
  ev_101 ev_102 ev_103 ev_104 ev_105 ev_106 ev_107 ev_108 ev_109 ev_110
  ev_111 ev_112 ev_113 ev_114 ev_115 ev_116 ev_117 ev_118 ev_119 ev_120
  ev_121 ev_122 ev_123 ev_124 ev_125 ev_126 ev_127 ev_128 ev_129 ev_130
  ev_131 ev_132 ev_133 ev_134 ev_135 ev_136 ev_137 ev_138 ev_139 ev_140
  ev_141 ev_142 ev_143 ev_144 ev_145 ev_146 ev_147 ev_148 ev_149 ev_150
  ev_151 ev_152 ev_153 ev_154 ev_155 ev_156 ev_157 ev_158 ev_159 ev_160
  ev_161 ev_162 ev_163 ev_164 ev_165 ev_166 ev_167 ev_168 ev_169 ev_170
  ev_171 ev_172 ev_173 ev_174 ev_175 ev_176 ev_177 ev_178 ev_179 ev_180
  ev_181 ev_182 ev_183 ev_184 ev_185 ev_186 ev_187 ev_188 ev_189 ev_190
  ev_191 ev_192 ev_193 ev_194 ev_195 ev_196 ev_197 ev_198 ev_199 ev_200
  ev_201 ev_202 ev_203 ev_204 ev_205 ev_206 ev_207 ev_208 ev_209 ev_210
  ev_211 ev_212 ev_213 ev_214 ev_215 ev_216 ev_217 ev_218 ev_219 ev_220
  ev_221 ev_222 ev_223 ev_224 ev_225 ev_226 ev_227 ev_228 ev_229 ev_230
  ev_231 ev_232 ev_233 ev_234 ev_235 ev_236 ev_237 ev_238 ev_239 ev_240
  ev_241 ev_242 ev_243 ev_244 ev_245 ev_246 ev_247 ev_248 ev_249 ev_250
  ev_251 ev_252 ev_253 ev_254 ev_255 ev_256 ev_257 ev_258 ev_259 ev_260
  ev_261 ev_262 ev_263 ev_264 ev_265 ev_266 ev_267 ev_268 ev_269 ev_270
  ev_271 ev_272 ev_273 ev_274 ev_275 ev_276 ev_277 ev_278 ev_279 ev_280
  ev_281 ev_282 ev_283 ev_284 ev_285 ev_286 ev_287 ev_288 ev_289 ev_290
  ev_291 ev_292 ev_293 ev_294 ev_295 ev_296 ev_297 ev_298 ev_299 ev_300
  ev_301 ev_302 ev_303 ev_304 ev_305 ev_306 ev_307 ev_308 ev_309 ev_310
  ev_311 ev_312 ev_313 ev_314 ev_315 ev_316 ev_317 ev_318 ev_319 ev_320
  ev_321 ev_322 ev_323 ev_324 ev_325 ev_326 ev_327 ev_328 ev_329 ev_330
  ev_331 ev_332 ev_333 ev_334 ev_335 ev_336 ev_337 ev_338 ev_339 ev_340
  ev_341 ev_342 ev_343 ev_344 ev_345 ev_346 ev_347 ev_348 ev_349 ev_350
  ev_351 ev_352 ev_353 ev_354 ev_355 ev_356 ev_357 ev_358 ev_359 ev_360
  ev_361 ev_362 ev_363 ev_364 ev_365 ev_366 ev_367 ev_368 ev_369 ev_370
  ev_371

section \<open>The worked example of the specification\<close>

lemma ex_score:
  "calculateComplexity fullstack (Some ex_scope) urgent = Fin (3433994715870003 / 562949953421312)"
  by (simp add: calculateComplexity_def ex_scope_def or_list_def or_string_def js_length_def
      complexIntegrationTypes_def typeComplexity_def js_or_def evals del: js_ops)

lemma ex_level: "complexityLevel (Fin (3433994715870003 / 562949953421312)) = high"
  by (simp add: complexityLevel_def evals)

lemma ex_data:
  "quoteData default_BASE_RATES ex_project (Fin (3433994715870003 / 562949953421312)) now =
    \<lparr>d_baseRate = Fin 8000, d_complexityAdjustment = Fin 4000,
     d_urgencyAdjustment = Fin (5277655813324801 / 2199023255552),
     d_totalEstimate = Fin 14400, d_notToExceed = Fin 16560,
     d_estimatedTimelineWeeks = Fin 12, d_deliveryDate = Some (now + 84 * msPerDay),
     d_paymentStructure = \<lparr>deposit = Fin 4320, milestone_1 = Fin 4320,
       milestone_2 = Fin 2880, final = Fin 2880\<rparr>,
     d_validUntil = now + 30 * msPerDay\<rparr>"
  by (simp add: quoteData_def ex_level ex_project_def default_BASE_RATES_def js_or_def
      COMPLEXITY_MULTIPLIERS_def URGENCY_MULTIPLIERS_def or_urgency_def baseTimeline_def
      evals del: js_ops)

lemma ex_create:
  "createQuote ''q1'' ''p1'' ''u1''
     (quoteData default_BASE_RATES ex_project (Fin (3433994715870003 / 562949953421312)) now) =
   Some (ex_quote now)"
  by (simp add: ex_data createQuote_def ex_quote_def evals del: js_ops)

lemma ex_generate:
  "generateQuote default_BASE_RATES now ''q1'' (Some ''u1'') ''p1'' ex_db =
    (Ok (ex_quote now),
     \<lparr>projectAssessments =
        [ex_project\<lparr>complexityScore := Some (61 / 10), p_status := quote_generated\<rparr>],
      projectQuotes = [ex_quote now],
      auditLogs = [\<lparr>a_userId = ''u1'', action = ''quote_generated'',
                    entityType = ''quote'', entityId = ''q1''\<rparr>]\<rparr>)"
proof -
  have p: "projectType ex_project = fullstack" "projectScope ex_project = Some ex_scope"
    "p_urgency ex_project = Some urgent" "complexityScore ex_project = None"
    "p_id ex_project = ''p1''" "p_userId ex_project = ''u1''"
    by (simp_all add: ex_project_def)
  have q: "q_id (ex_quote now) = ''q1''" by (simp add: ex_quote_def)
  show ?thesis
    by (simp add: generateQuote_def ex_db_def p q or_urgency_def ex_score ex_create evals
        del: js_ops)
qed


text \<open>
  Claim C2. For the project of type \<^verbatim>\<open>fullstack\<close> with no stored complexity score, four
  features, two \<^verbatim>\<open>payment\<close> integrations, no \<^verbatim>\<open>scope.timeline\<close> and urgency \<^verbatim>\<open>urgent\<close>,
  \<^verbatim>\<open>calculateComplexity\<close> returns the double \<^verbatim>\<open>6.1\<close>, which lies in the band of level
  \<^verbatim>\<open>high\<close> with multiplier \<^verbatim>\<open>1.5\<close>; the urgency multiplier is \<^verbatim>\<open>1.3\<close>; and the quote that
  \<^verbatim>\<open>generateQuote\<close> produces has base rate 8000, complexity adjustment 4000, urgency
  adjustment 2400, total estimate 14400 and not-to-exceed 16560. The urgency adjustment
  is \<^verbatim>\<open>8000 * (1.3 - 1)\<close>, in binary64 the double next above 2400 (2400 + 2^-41); the
  two-decimal column stores it as 2400.00, and the total computed from it is the double
  14400.
\<close>

theorem generateQuote_worked_example:
  "calculateComplexity fullstack (Some ex_scope) urgent = lit (61 / 10) \<and>
   complexityLevel (lit (61 / 10)) = high \<and>
   \<not> js_lt (lit (61 / 10)) (lit 6) \<and> js_lt (lit (61 / 10)) (lit 8) \<and>
   COMPLEXITY_MULTIPLIERS high = lit (3 / 2) \<and>
   URGENCY_MULTIPLIERS urgent = lit (13 / 10) \<and>
   d_urgencyAdjustment (quoteData default_BASE_RATES ex_project (lit (61 / 10)) now) =
     Fin (2400 + 1 / 2 ^ 41) \<and>
   d_totalEstimate (quoteData default_BASE_RATES ex_project (lit (61 / 10)) now) = Fin 14400 \<and>
   (\<exists>q s'. generateQuote default_BASE_RATES now ''q1'' (Some ''u1'') ''p1'' ex_db = (Ok q, s') \<and>
      projectQuotes s' = [q] \<and>
      baseRate q = 8000 \<and> complexityAdjustment q = 4000 \<and> urgencyAdjustment q = 2400 \<and>
      totalEstimate q = 14400 \<and> notToExceed q = 16560)"
proof -
  have l: "lit (61 / 10) = Fin (3433994715870003 / 562949953421312)" by (simp add: evals)
  have 1: "calculateComplexity fullstack (Some ex_scope) urgent = lit (61 / 10)"
    by (simp add: ex_score l)
  have 2: "complexityLevel (lit (61 / 10)) = high" by (simp add: ex_level l)
  have 3: "\<not> js_lt (lit (61 / 10)) (lit 6)" "js_lt (lit (61 / 10)) (lit 8)"
    by (simp_all add: evals)
  have 4: "COMPLEXITY_MULTIPLIERS high = lit (3 / 2)" "URGENCY_MULTIPLIERS urgent = lit (13 / 10)"
    by (simp_all add: COMPLEXITY_MULTIPLIERS_def URGENCY_MULTIPLIERS_def)
  have 5: "d_urgencyAdjustment (quoteData default_BASE_RATES ex_project (lit (61 / 10)) now) =
      Fin (2400 + 1 / 2 ^ 41)"
    "d_totalEstimate (quoteData default_BASE_RATES ex_project (lit (61 / 10)) now) = Fin 14400"
    by (simp_all add: l ex_data)
  have 6: "\<exists>q s'. generateQuote default_BASE_RATES now ''q1'' (Some ''u1'') ''p1'' ex_db = (Ok q, s') \<and>
      projectQuotes s' = [q] \<and>
      baseRate q = 8000 \<and> complexityAdjustment q = 4000 \<and> urgencyAdjustment q = 2400 \<and>
      totalEstimate q = 14400 \<and> notToExceed q = 16560"
    by (simp add: ex_generate ex_quote_def)
  from 1 2 3 4 5 6 show ?thesis by blast
qed

section \<open>Accepting a quote\<close>

text \<open>
  Claim C5. When the owner of a quote asks to accept it after its \<^verbatim>\<open>validUntil\<close> instant,
  \<^verbatim>\<open>acceptQuote\<close> answers 400 \<^verbatim>\<open>Quote has expired\<close> whatever the status of the quote is, and
  the store is left as it was.
\<close>

theorem acceptQuote_expired:
  assumes "find (\<lambda>q. q_id q = quoteId) (projectQuotes s) = Some quote"
    and "q_userId quote = uid"
    and "validUntil quote < now"
  shows "acceptQuote now (Some uid) quoteId s = (Status 400 ''Quote has expired'', s)"
  using assms by (simp add: acceptQuote_def)

theorem acceptQuote_expired_witness:
  "find (\<lambda>q. q_id q = ''q1'') (projectQuotes ex_db_accepted) =
     Some ((ex_quote 0)\<lparr>q_status := accepted\<rparr>) \<and>
   q_userId ((ex_quote 0)\<lparr>q_status := accepted\<rparr>) = ''u1'' \<and>
   validUntil ((ex_quote 0)\<lparr>q_status := accepted\<rparr>) < 31 * msPerDay \<and>
   acceptQuote (31 * msPerDay) (Some ''u1'') ''q1'' ex_db_accepted =
     (Status 400 ''Quote has expired'', ex_db_accepted)"
proof -
  have 1: "find (\<lambda>q. q_id q = ''q1'') (projectQuotes ex_db_accepted) =
     Some ((ex_quote 0)\<lparr>q_status := accepted\<rparr>)"
    by (simp add: ex_db_accepted_def ex_db_quoted_def ex_quote_def)
  have 2: "q_userId ((ex_quote 0)\<lparr>q_status := accepted\<rparr>) = ''u1''"
    by (simp add: ex_quote_def)
  have 3: "validUntil ((ex_quote 0)\<lparr>q_status := accepted\<rparr>) < 31 * msPerDay"
    by (simp add: ex_quote_def to_date_def msPerDay_def)
  from acceptQuote_expired [OF 1 2 3] 1 2 3 show ?thesis by simp
qed

section \<open>Declining a quote\<close>




section \<open>Generating a quote\<close>

text \<open>
  The runs of \<^verbatim>\<open>generateQuote\<close>: either no quote is stored and the answer is not a
  success, or the requester owns the project, no active quote existed for it, and the
  one quote created from the computed figures is appended to the table.
\<close>

lemma createQuote_Some:
  assumes "createQuote newId projectId uid d = Some quote"
  shows "q_projectId quote = projectId \<and> q_status quote = pending \<and> q_id quote = newId \<and>
         q_userId quote = uid \<and>
         to_decimal 10 2 (d_totalEstimate d) = Some (totalEstimate quote) \<and>
         to_decimal 10 2 (d_notToExceed d) = Some (notToExceed quote) \<and>
         to_decimal 10 2 (d_baseRate d) = Some (baseRate quote)"
  using assms by (auto simp: createQuote_def split: option.splits)

lemma find_None_filter: "find P xs = None \<Longrightarrow> filter P xs = []"
  by (induction xs) (auto split: if_splits)

lemma generateQuote_cases:
  fixes R now newId userId projectId s
  defines "r \<equiv> generateQuote R now newId userId projectId s"
  obtains (kept) "projectQuotes (snd r) = projectQuotes s" and "\<And>q. fst r \<noteq> Ok q"
  | (created) project quote where
      "userId = Some (p_userId project)"
      "find (\<lambda>p. p_id p = projectId) (projectAssessments s) = Some project"
      "find (\<lambda>q. q_projectId q = projectId \<and> q_status q \<in> set activeStatuses)
         (projectQuotes s) = None"
      "createQuote newId projectId (p_userId project)
         (quoteData R project
            (case complexityScore project of
               Some c \<Rightarrow> lit c
             | None \<Rightarrow> calculateComplexity (projectType project) (projectScope project)
                         (or_urgency (p_urgency project))) now) = Some quote"
      "projectQuotes (snd r) = projectQuotes s @ [quote]"
      "fst r = Ok quote \<or> fst r = Thrown"
proof (cases userId)
  case None
  then have "r = (Status 401 ''Unauthorized'', s)" by (simp add: r_def generateQuote_def)
  then show ?thesis by (intro kept) simp_all
next
  case (Some uid)
  show ?thesis
  proof (cases "find (\<lambda>p. p_id p = projectId) (projectAssessments s)")
    case None
    then have "r = (Status 404 ''Project not found'', s)"
      using Some by (simp add: r_def generateQuote_def)
    then show ?thesis by (intro kept) simp_all
  next
    case project: (Some project)
    show ?thesis
    proof (cases "p_userId project = uid")
      case False
      then have "r = (Status 403 ''Access denied'', s)"
        using Some project by (simp add: r_def generateQuote_def)
      then show ?thesis by (intro kept) simp_all
    next
      case owner: True
      show ?thesis
      proof (cases "find (\<lambda>q. q_projectId q = projectId \<and> q_status q \<in> set activeStatuses)
                      (projectQuotes s)")
        case (Some existing)
        then have "r = (Status 400 ''Active quote already exists for this project'', s)"
          using \<open>userId = Some uid\<close> project owner by (simp add: r_def generateQuote_def)
        then show ?thesis by (intro kept) simp_all
      next
        case noactive: None
        define score where "score =
          (case complexityScore project of
             Some c \<Rightarrow> lit c
           | None \<Rightarrow> calculateComplexity (projectType project) (projectScope project)
                       (or_urgency (p_urgency project)))"
        define s1o where "s1o =
          (if complexityScore project = None
           then (case to_decimal 3 2 score of
                   None \<Rightarrow> None
                 | Some c \<Rightarrow>
                  (case update_first (\<lambda>p. p_id p = projectId)
                          (\<lambda>p. p\<lparr>complexityScore := Some c\<rparr>) (projectAssessments s) of
                     None \<Rightarrow> None
                   | Some (_, ps) \<Rightarrow> Some (s\<lparr>projectAssessments := ps\<rparr>)))
           else Some s)"
        have r: "r =
          (case s1o of
             None \<Rightarrow> (Thrown, s)
           | Some s1 \<Rightarrow>
            (case createQuote newId projectId uid (quoteData R project score now) of
               None \<Rightarrow> (Thrown, s1)
             | Some quote \<Rightarrow>
              (let s2 = s1\<lparr>projectQuotes := projectQuotes s1 @ [quote]\<rparr>
               in case update_first (\<lambda>p. p_id p = projectId)
                         (\<lambda>p. p\<lparr>p_status := quote_generated\<rparr>) (projectAssessments s2) of
                    None \<Rightarrow> (Thrown, s2)
                  | Some (_, ps) \<Rightarrow>
                      (Ok quote,
                       s2\<lparr>projectAssessments := ps,
                          auditLogs := auditLogs s2 @
                            [\<lparr>a_userId = uid, action = ''quote_generated'',
                              entityType = ''quote'', entityId = q_id quote\<rparr>]\<rparr>))))"
          unfolding r_def generateQuote_def score_def s1o_def Let_def
          using \<open>userId = Some uid\<close> project owner noactive by simp
        show ?thesis
        proof (cases s1o)
          case None
          then have "r = (Thrown, s)" by (simp add: r)
          then show ?thesis by (intro kept) simp_all
        next
          case s1: (Some s1)
          have s1q: "projectQuotes s1 = projectQuotes s"
            using s1 by (auto simp: s1o_def split: if_splits option.splits prod.splits)
          show ?thesis
          proof (cases "createQuote newId projectId uid (quoteData R project score now)")
            case None
            then have "r = (Thrown, s1)" using s1 by (simp add: r)
            then show ?thesis using s1q by (intro kept) simp_all
          next
            case quote: (Some quote)
            have "projectQuotes (snd r) = projectQuotes s @ [quote] \<and>
                  (fst r = Ok quote \<or> fst r = Thrown)"
              using s1 quote s1q by (auto simp: r Let_def split: option.splits prod.splits)
            then show ?thesis
              using \<open>userId = Some uid\<close> project owner noactive quote
              by (intro created [of project quote]) (simp_all add: score_def)
          qed
        qed
      qed
    qed
  qed
qed


lemma at_most_one_active_snoc:
  assumes "at_most_one_active s" and "projectQuotes s' = projectQuotes s @ [quote]"
    and "activeQuotes s (q_projectId quote) = []"
  shows "at_most_one_active s'"
proof -
  have a: "activeQuotes s' pid =
      activeQuotes s pid @
      (if q_projectId quote = pid \<and> q_status quote \<in> set activeStatuses then [quote] else [])"
    for pid
    by (simp add: activeQuotes_def assms(2))
  have old: "length (activeQuotes s' (q_projectId q)) \<le> 1" if "q \<in> set (projectQuotes s)" for q
  proof (cases "q_projectId q = q_projectId quote")
    case True
    then show ?thesis using assms(3) by (simp add: a)
  next
    case False
    have "length (activeQuotes s (q_projectId q)) \<le> 1"
      using assms(1) that by (simp add: at_most_one_active_def list_all_iff)
    then show ?thesis using False by (simp add: a)
  qed
  have new: "length (activeQuotes s' (q_projectId quote)) \<le> 1"
    using assms(3) by (simp add: a)
  have "\<forall>q \<in> set (projectQuotes s'). length (activeQuotes s' (q_projectId q)) \<le> 1"
  proof
    fix q
    assume "q \<in> set (projectQuotes s')"
    then have "q \<in> set (projectQuotes s @ [quote])" by (simp only: assms(2))
    then have "q \<in> set (projectQuotes s) \<or> q = quote" by auto
    then show "length (activeQuotes s' (q_projectId q)) \<le> 1" using old new by blast
  qed
  then show ?thesis by (simp add: at_most_one_active_def list_all_iff)
qed

lemma at_most_one_active_quotes:
  "projectQuotes s' = projectQuotes s \<Longrightarrow> at_most_one_active s' = at_most_one_active s"
  by (simp add: at_most_one_active_def activeQuotes_def)

lemma generateQuote_keeps_invariant:
  assumes inv: "at_most_one_active s"
  shows "at_most_one_active (snd (generateQuote R now newId userId projectId s))"
proof (cases rule: generateQuote_cases [of R now newId userId projectId s])
  case kept
  then show ?thesis using inv at_most_one_active_quotes [OF kept(1)] by simp
next
  case (created project quote)
  have "q_projectId quote = projectId" using createQuote_Some [OF created(4)] by simp
  moreover have "activeQuotes s projectId = []"
    using find_None_filter [OF created(3)] by (simp add: activeQuotes_def)
  ultimately show ?thesis using at_most_one_active_snoc [OF inv created(5)] by simp
qed

lemma generateQuote_active_no_quote:
  assumes act: "activeQuotes s projectId \<noteq> []"
  shows "projectQuotes (snd (generateQuote R now newId userId projectId s)) = projectQuotes s"
    and "fst (generateQuote R now newId userId projectId s) \<noteq> Ok q"
proof -
  have "projectQuotes (snd (generateQuote R now newId userId projectId s)) = projectQuotes s \<and>
      fst (generateQuote R now newId userId projectId s) \<noteq> Ok q"
  proof (cases rule: generateQuote_cases [of R now newId userId projectId s])
    case kept
    then show ?thesis by simp
  next
    case (created project quote)
    have "activeQuotes s projectId = []"
      using find_None_filter [OF created(3)] by (simp add: activeQuotes_def)
    with act show ?thesis by simp
  qed
  then show "projectQuotes (snd (generateQuote R now newId userId projectId s)) = projectQuotes s"
    and "fst (generateQuote R now newId userId projectId s) \<noteq> Ok q" by simp_all
qed

lemma generateQuote_duplicate:
  assumes "activeQuotes s projectId \<noteq> []"
    and "find (\<lambda>p. p_id p = projectId) (projectAssessments s) = Some project"
    and "p_userId project = uid"
  shows "generateQuote R now newId (Some uid) projectId s =
        (Status 400 ''Active quote already exists for this project'', s)"
proof -
  have "find (\<lambda>q. q_projectId q = projectId \<and> q_status q \<in> set activeStatuses)
      (projectQuotes s) \<noteq> None"
    using find_None_filter [of "\<lambda>q. q_projectId q = projectId \<and> q_status q \<in> set activeStatuses"
        "projectQuotes s"] assms(1)
    by (auto simp: activeQuotes_def)
  then obtain e where "find (\<lambda>q. q_projectId q = projectId \<and> q_status q \<in> set activeStatuses)
      (projectQuotes s) = Some e" by auto
  then show ?thesis using assms(2,3) by (simp add: generateQuote_def)
qed

text \<open>
  Claim C6. Every call of \<^verbatim>\<open>generateQuote\<close> preserves the invariant that no project has
  more than one quote in status \<^verbatim>\<open>pending\<close>, \<^verbatim>\<open>sent\<close> or \<^verbatim>\<open>accepted\<close>. When such a quote
  exists for the project, the call stores no quote and does not succeed; made by the owner
  of the project, it answers 400 \<^verbatim>\<open>Active quote already exists for this project\<close> and
  leaves the store as it was.
\<close>

theorem generateQuote_one_active:
  "(at_most_one_active s \<longrightarrow>
      at_most_one_active (snd (generateQuote R now newId userId projectId s))) \<and>
   (activeQuotes s projectId \<noteq> [] \<longrightarrow>
      projectQuotes (snd (generateQuote R now newId userId projectId s)) = projectQuotes s \<and>
      (\<forall>q. fst (generateQuote R now newId userId projectId s) \<noteq> Ok q)) \<and>
   (activeQuotes s projectId \<noteq> [] \<and>
    find (\<lambda>p. p_id p = projectId) (projectAssessments s) = Some project \<and>
    p_userId project = uid \<longrightarrow>
      generateQuote R now newId (Some uid) projectId s =
        (Status 400 ''Active quote already exists for this project'', s))"
  using generateQuote_keeps_invariant [of s R now newId userId projectId]
    generateQuote_active_no_quote [of s projectId R now newId userId]
    generateQuote_duplicate [of s projectId project uid R now newId]
  by blast

theorem generateQuote_one_active_witness:
  "at_most_one_active ex_db_quoted \<and>
   activeQuotes ex_db_quoted ''p1'' \<noteq> [] \<and>
   find (\<lambda>p. p_id p = ''p1'') (projectAssessments ex_db_quoted) =
     Some (ex_project\<lparr>complexityScore := Some (61 / 10), p_status := quote_generated\<rparr>) \<and>
   p_userId (ex_project\<lparr>complexityScore := Some (61 / 10), p_status := quote_generated\<rparr>) = ''u1'' \<and>
   at_most_one_active
     (snd (generateQuote default_BASE_RATES 5 ''q2'' (Some ''u1'') ''p1'' ex_db_quoted)) \<and>
   projectQuotes (snd (generateQuote default_BASE_RATES 5 ''q2'' (Some ''u1'') ''p1'' ex_db_quoted)) =
     projectQuotes ex_db_quoted \<and>
   generateQuote default_BASE_RATES 5 ''q2'' (Some ''u1'') ''p1'' ex_db_quoted =
     (Status 400 ''Active quote already exists for this project'', ex_db_quoted)"
proof -
  have 1: "at_most_one_active ex_db_quoted"
    by (simp add: at_most_one_active_def activeQuotes_def ex_db_quoted_def)
  have 2: "activeQuotes ex_db_quoted ''p1'' \<noteq> []"
    by (simp add: activeQuotes_def ex_db_quoted_def ex_quote_def activeStatuses_def)
  have 3: "find (\<lambda>p. p_id p = ''p1'') (projectAssessments ex_db_quoted) =
     Some (ex_project\<lparr>complexityScore := Some (61 / 10), p_status := quote_generated\<rparr>)"
    by (simp add: ex_db_quoted_def ex_project_def)
  have 4: "p_userId (ex_project\<lparr>complexityScore := Some (61 / 10), p_status := quote_generated\<rparr>) = ''u1''"
    by (simp add: ex_project_def)
  from generateQuote_one_active [of ex_db_quoted default_BASE_RATES 5 "''q2''" "Some ''u1''" "''p1''"
      "ex_project\<lparr>complexityScore := Some (61 / 10), p_status := quote_generated\<rparr>" "''u1''"]
    1 2 3 4
  show ?thesis by simp
qed

section \<open>Bundle pricing\<close>

lemma find_None_iff_all: "find P xs = None \<longleftrightarrow> (\<forall>x\<in>set xs. \<not> P x)"
  by (induction xs) auto

lemma find_Some_ex: "\<exists>x\<in>set xs. P x \<Longrightarrow> \<exists>y. find P xs = Some y"
  by (induction xs) auto

lemma calculatePricing_no_category:
  assumes "find (categoryMatches ilike key) (revenueCategories t) = None"
  shows "calculatePricing ilike t b key skey r = Inl (CategoryNotFound key)"
  using assms by (simp add: calculatePricing_def)

lemma calculatePricing_no_scale:
  assumes "find (categoryMatches ilike key) (revenueCategories t) = Some c"
    and "find (scaleMatches ilike skey) (companyScales t) = None"
  shows "calculatePricing ilike t b key skey r = Inl (ScaleNotFound skey)"
  using assms by (simp add: calculatePricing_def)

lemma calculatePricing_no_price:
  assumes "find (categoryMatches ilike key) (revenueCategories t) = Some c"
    and "find (scaleMatches ilike skey) (companyScales t) = Some sc"
    and "find (pricingMatches b c sc) (basePricings t) = None"
  shows "calculatePricing ilike t b key skey r = Inl (PricingNotFound b key skey)"
  using assms by (simp add: calculatePricing_def)

lemma calculatePricing_found:
  assumes "find (categoryMatches ilike key) (revenueCategories t) = Some c"
    and "find (scaleMatches ilike skey) (companyScales t) = Some sc"
    and "find (pricingMatches b c sc) (basePricings t) = Some p"
  shows "calculatePricing ilike t b key skey r =
    (let cm = (case find (\<lambda>c. rating c = r) (complexityTiers t) of
                 Some tier \<Rightarrow> lit (adjustmentMultiplier tier) | None \<Rightarrow> lit 1);
         base = lit (basePrice p);
         sm = lit (multiplier sc);
         sa = js_mul base (js_sub sm (lit 1));
         cav = js_mul (js_add base sa) (js_sub cm (lit 1))
     in Inr \<lparr>basePricing = base, scaleMultiplier = sm, pc_complexityAdjustment = cm,
              finalPrice = round2 (js_add (js_add base sa) cav),
              breakdown = \<lparr>b_base = base, b_scaleAdjustment = round2 sa,
                            b_complexityAdjustment = round2 cav\<rparr>\<rparr>)"
  using assms by (simp add: calculatePricing_def Let_def)

lemma ex_pricing_lookups:
  "find (categoryMatches ilike ''saas'') (revenueCategories ex_pricing_db) =
     Some \<lparr>rc_id = ''rc1'', rc_name = ''SaaS'', rc_code = ''saas''\<rparr>"
  "find (scaleMatches ilike ''medium_10m'') (companyScales ex_pricing_db) =
     Some \<lparr>cs_id = ''cs1'', cs_name = ''Medium ($1M - $10M)'', cs_code = ''medium_10m'',
           multiplier = 3 / 2\<rparr>"
  "find (pricingMatches ''bundle_saas_starter''
           \<lparr>rc_id = ''rc1'', rc_name = ''SaaS'', rc_code = ''saas''\<rparr>
           \<lparr>cs_id = ''cs1'', cs_name = ''Medium ($1M - $10M)'', cs_code = ''medium_10m'',
             multiplier = 3 / 2\<rparr>) (basePricings ex_pricing_db) =
     Some \<lparr>bundleId = ''bundle_saas_starter'', revenueCategoryId = ''rc1'',
            companyScaleId = ''cs1'', basePrice = 5000\<rparr>"
  by (simp_all add: ex_pricing_db_def categoryMatches_def scaleMatches_def pricingMatches_def)

lemma ex_tiers:
  "find (\<lambda>c. rating c = 7) (complexityTiers ex_pricing_db) =
     Some \<lparr>rating = 7, adjustmentMultiplier = 27 / 20\<rparr>"
  "find (\<lambda>c. rating c = 11) (complexityTiers ex_pricing_db) = None"
  by (simp_all add: ex_pricing_db_def)

lemma ex_pricing_7:
  "calculatePricing ilike ex_pricing_db ''bundle_saas_starter'' ''saas'' ''medium_10m'' 7 =
     Inr \<lparr>basePricing = Fin 5000, scaleMultiplier = Fin (3 / 2),
           pc_complexityAdjustment = Fin (3039929748475085 / 2251799813685248),
           finalPrice = Fin 10125,
           breakdown = \<lparr>b_base = Fin 5000, b_scaleAdjustment = Fin 2500,
                         b_complexityAdjustment = Fin 2625\<rparr>\<rparr>"
  by (simp add: calculatePricing_found [OF ex_pricing_lookups] ex_tiers round2_def Let_def evals
      del: js_ops)

lemma ex_pricing_11:
  "calculatePricing ilike ex_pricing_db ''bundle_saas_starter'' ''saas'' ''medium_10m'' 11 =
     Inr \<lparr>basePricing = Fin 5000, scaleMultiplier = Fin (3 / 2),
           pc_complexityAdjustment = Fin 1,
           finalPrice = Fin 7500,
           breakdown = \<lparr>b_base = Fin 5000, b_scaleAdjustment = Fin 2500,
                         b_complexityAdjustment = Fin 0\<rparr>\<rparr>"
  by (simp add: calculatePricing_found [OF ex_pricing_lookups] ex_tiers round2_def Let_def evals
      del: js_ops)

text \<open>The lookups of the examples under the operator of the database.\<close>

lemma ex_pricing_patterns:
  "pg_ilike ''SaaS'' ''SAAS''" "pg_ilike ''SaaS'' ''s__s''" "pg_ilike ''SaaS'' ''%''"
  "pg_ilike ''Medium ($1M - $10M)'' ''medium%''"
  "pg_ilike ''Pre-Revenue'' ''PRE_REVENUE''"
  "\<not> pg_ilike ''SaaS'' ''ECOMMERCE''" "\<not> pg_ilike ''E-Commerce'' ''ECOMMERCE''"
  "\<not> pg_ilike ''Medium ($1M - $10M)'' ''MEDIUM_10M''"
  "\<not> pg_ilike ''Pre-Revenue'' ''MEDIUM_10M''"
  by code_simp+

text \<open>
  Claim C7, as stated, fails: a category key that differs from a stored code by letter
  case only, and that no display name matches, is not found; and when both keys miss, the
  error is the one of the category.
\<close>

theorem calculatePricing_code_case_counterexample:
  "rc_code \<lparr>rc_id = ''rc2'', rc_name = ''E-Commerce'', rc_code = ''ecommerce''\<rparr> = ''ecommerce'' \<and>
   map lower_char ''ECOMMERCE'' = ''ecommerce'' \<and>
   calculatePricing pg_ilike ex_pricing_db ''bundle_saas_starter'' ''ECOMMERCE'' ''medium_10m'' 7 =
     Inl (CategoryNotFound ''ECOMMERCE'') \<and>
   calculatePricing pg_ilike ex_pricing_db ''bundle_saas_starter'' ''nowhere'' ''nowhere'' 7 \<noteq>
     Inl (ScaleNotFound ''nowhere'')"
  by code_simp

text \<open>
  Claim C7, amended. The category and the scale are each looked up by their code as it
  is written, or by their display name under the case-insensitive pattern match of the
  database, whatever that operator answers. When no category matches,
  \<^verbatim>\<open>calculatePricing\<close> throws the category error; when a category matches and no scale
  does, it throws the scale error; when both match, it throws neither.
\<close>

theorem calculatePricing_lookup:
  "((\<forall>c\<in>set (revenueCategories t). rc_code c \<noteq> key \<and> \<not> ilike (rc_name c) key) \<longrightarrow>
      calculatePricing ilike t b key skey r = Inl (CategoryNotFound key)) \<and>
   ((\<exists>c\<in>set (revenueCategories t). rc_code c = key \<or> ilike (rc_name c) key) \<and>
    (\<forall>c\<in>set (companyScales t). cs_code c \<noteq> skey \<and> \<not> ilike (cs_name c) skey) \<longrightarrow>
      calculatePricing ilike t b key skey r = Inl (ScaleNotFound skey)) \<and>
   ((\<exists>c\<in>set (revenueCategories t). rc_code c = key \<or> ilike (rc_name c) key) \<and>
    (\<exists>c\<in>set (companyScales t). cs_code c = skey \<or> ilike (cs_name c) skey) \<longrightarrow>
      (\<forall>k. calculatePricing ilike t b key skey r \<noteq> Inl (CategoryNotFound k)) \<and>
      (\<forall>k. calculatePricing ilike t b key skey r \<noteq> Inl (ScaleNotFound k)))"
proof (intro conjI impI)
  assume "\<forall>c\<in>set (revenueCategories t). rc_code c \<noteq> key \<and> \<not> ilike (rc_name c) key"
  then have "find (categoryMatches ilike key) (revenueCategories t) = None"
    by (simp add: find_None_iff_all categoryMatches_def)
  then show "calculatePricing ilike t b key skey r = Inl (CategoryNotFound key)"
    by (rule calculatePricing_no_category)
next
  assume h: "(\<exists>c\<in>set (revenueCategories t). rc_code c = key \<or> ilike (rc_name c) key) \<and>
    (\<forall>c\<in>set (companyScales t). cs_code c \<noteq> skey \<and> \<not> ilike (cs_name c) skey)"
  then obtain c where "find (categoryMatches ilike key) (revenueCategories t) = Some c"
    using find_Some_ex [of "revenueCategories t" "categoryMatches ilike key"]
    by (auto simp: categoryMatches_def)
  moreover have "find (scaleMatches ilike skey) (companyScales t) = None"
    using h by (simp add: find_None_iff_all scaleMatches_def)
  ultimately show "calculatePricing ilike t b key skey r = Inl (ScaleNotFound skey)"
    by (rule calculatePricing_no_scale)
next
  assume h: "(\<exists>c\<in>set (revenueCategories t). rc_code c = key \<or> ilike (rc_name c) key) \<and>
    (\<exists>c\<in>set (companyScales t). cs_code c = skey \<or> ilike (cs_name c) skey)"
  then obtain c where c: "find (categoryMatches ilike key) (revenueCategories t) = Some c"
    using find_Some_ex [of "revenueCategories t" "categoryMatches ilike key"]
    by (auto simp: categoryMatches_def)
  from h obtain sc where sc: "find (scaleMatches ilike skey) (companyScales t) = Some sc"
    using find_Some_ex [of "companyScales t" "scaleMatches ilike skey"]
    by (auto simp: scaleMatches_def)
  have "(\<forall>k. calculatePricing ilike t b key skey r \<noteq> Inl (CategoryNotFound k)) \<and>
      (\<forall>k. calculatePricing ilike t b key skey r \<noteq> Inl (ScaleNotFound k))"
  proof (cases "find (pricingMatches b c sc) (basePricings t)")
    case None
    then show ?thesis by (simp add: calculatePricing_no_price [OF c sc])
  next
    case (Some p)
    then show ?thesis by (simp add: calculatePricing_found [OF c sc] Let_def)
  qed
  then show "\<forall>k. calculatePricing ilike t b key skey r \<noteq> Inl (CategoryNotFound k)"
    and "\<forall>k. calculatePricing ilike t b key skey r \<noteq> Inl (ScaleNotFound k)" by simp_all
qed

theorem calculatePricing_lookup_witness:
  "list_all (\<lambda>c. rc_code c \<noteq> ''ECOMMERCE'' \<and> \<not> pg_ilike (rc_name c) ''ECOMMERCE'')
     (revenueCategories ex_pricing_db) \<and>
   calculatePricing pg_ilike ex_pricing_db ''bundle_saas_starter'' ''ECOMMERCE'' ''medium_10m'' 7 =
     Inl (CategoryNotFound ''ECOMMERCE'') \<and>
   (\<exists>c\<in>set (revenueCategories ex_pricing_db).
      rc_code c = ''s__s'' \<or> pg_ilike (rc_name c) ''s__s'') \<and>
   list_all (\<lambda>c. cs_code c \<noteq> ''MEDIUM_10M'' \<and> \<not> pg_ilike (cs_name c) ''MEDIUM_10M'')
     (companyScales ex_pricing_db) \<and>
   calculatePricing pg_ilike ex_pricing_db ''bundle_saas_starter'' ''s__s'' ''MEDIUM_10M'' 7 =
     Inl (ScaleNotFound ''MEDIUM_10M'') \<and>
   (\<exists>c\<in>set (revenueCategories ex_pricing_db).
      rc_code c = ''SAAS'' \<or> pg_ilike (rc_name c) ''SAAS'') \<and>
   (\<exists>c\<in>set (companyScales ex_pricing_db).
      cs_code c = ''PRE_REVENUE'' \<or> pg_ilike (cs_name c) ''PRE_REVENUE'') \<and>
   (\<forall>k. calculatePricing pg_ilike ex_pricing_db ''bundle_saas_starter'' ''SAAS'' ''PRE_REVENUE'' 7 \<noteq>
      Inl (CategoryNotFound k)) \<and>
   (\<forall>k. calculatePricing pg_ilike ex_pricing_db ''bundle_saas_starter'' ''SAAS'' ''PRE_REVENUE'' 7 \<noteq>
      Inl (ScaleNotFound k)) \<and>
   (\<exists>res. calculatePricing pg_ilike ex_pricing_db ''bundle_saas_starter'' ''%'' ''medium%'' 7 =
      Inr res \<and> finalPrice res = Fin 10125)"
proof -
  note p = ex_pricing_patterns
  have 1: "list_all (\<lambda>c. rc_code c \<noteq> ''ECOMMERCE'' \<and> \<not> pg_ilike (rc_name c) ''ECOMMERCE'')
     (revenueCategories ex_pricing_db)"
    by (simp add: ex_pricing_db_def p)
  have 2: "\<exists>c\<in>set (revenueCategories ex_pricing_db).
      rc_code c = ''s__s'' \<or> pg_ilike (rc_name c) ''s__s''"
    by (simp add: ex_pricing_db_def p)
  have 3: "list_all (\<lambda>c. cs_code c \<noteq> ''MEDIUM_10M'' \<and> \<not> pg_ilike (cs_name c) ''MEDIUM_10M'')
     (companyScales ex_pricing_db)"
    by (simp add: ex_pricing_db_def p)
  have 4: "\<exists>c\<in>set (revenueCategories ex_pricing_db).
      rc_code c = ''SAAS'' \<or> pg_ilike (rc_name c) ''SAAS''"
    by (simp add: ex_pricing_db_def p)
  have 5: "\<exists>c\<in>set (companyScales ex_pricing_db).
      cs_code c = ''PRE_REVENUE'' \<or> pg_ilike (cs_name c) ''PRE_REVENUE''"
    by (simp add: ex_pricing_db_def p)
  have c: "find (categoryMatches pg_ilike ''%'') (revenueCategories ex_pricing_db) =
     Some \<lparr>rc_id = ''rc1'', rc_name = ''SaaS'', rc_code = ''saas''\<rparr>"
    by (simp add: ex_pricing_db_def categoryMatches_def p)
  have sc: "find (scaleMatches pg_ilike ''medium%'') (companyScales ex_pricing_db) =
     Some \<lparr>cs_id = ''cs1'', cs_name = ''Medium ($1M - $10M)'', cs_code = ''medium_10m'',
           multiplier = 3 / 2\<rparr>"
    by (simp add: ex_pricing_db_def scaleMatches_def p)
  have 6: "\<exists>res. calculatePricing pg_ilike ex_pricing_db ''bundle_saas_starter'' ''%'' ''medium%'' 7 =
      Inr res \<and> finalPrice res = Fin 10125"
    by (simp add: calculatePricing_found [OF c sc ex_pricing_lookups(3)] ex_tiers round2_def
        Let_def evals del: js_ops)
  from calculatePricing_lookup [where t = ex_pricing_db and key = "''ECOMMERCE''" and ilike = pg_ilike
        and b = "''bundle_saas_starter''" and skey = "''medium_10m''" and r = 7]
    calculatePricing_lookup [where t = ex_pricing_db and key = "''s__s''" and ilike = pg_ilike
        and b = "''bundle_saas_starter''" and skey = "''MEDIUM_10M''" and r = 7]
    calculatePricing_lookup [where t = ex_pricing_db and key = "''SAAS''" and ilike = pg_ilike
        and b = "''bundle_saas_starter''" and skey = "''PRE_REVENUE''" and r = 7]
    1 2 3 4 5 6
  show ?thesis unfolding list_all_iff by blast
qed


text \<open>
  Claim C8. A complexity rating that matches no tier is no error: with category, scale
  and price row found, \<^verbatim>\<open>calculatePricing\<close> returns a result computed with the multiplier
  \<^verbatim>\<open>1.0\<close>. A miss on the category, on the scale or on the price row is an error.
\<close>

theorem calculatePricing_tier_default:
  "(find (categoryMatches ilike key) (revenueCategories t) = None \<longrightarrow>
      calculatePricing ilike t b key skey r = Inl (CategoryNotFound key)) \<and>
   (find (categoryMatches ilike key) (revenueCategories t) = Some c \<and>
    find (scaleMatches ilike skey) (companyScales t) = None \<longrightarrow>
      calculatePricing ilike t b key skey r = Inl (ScaleNotFound skey)) \<and>
   (find (categoryMatches ilike key) (revenueCategories t) = Some c \<and>
    find (scaleMatches ilike skey) (companyScales t) = Some sc \<and>
    find (pricingMatches b c sc) (basePricings t) = None \<longrightarrow>
      calculatePricing ilike t b key skey r = Inl (PricingNotFound b key skey)) \<and>
   (find (categoryMatches ilike key) (revenueCategories t) = Some c \<and>
    find (scaleMatches ilike skey) (companyScales t) = Some sc \<and>
    find (pricingMatches b c sc) (basePricings t) = Some p \<and>
    find (\<lambda>c. rating c = r) (complexityTiers t) = None \<longrightarrow>
      (\<exists>res. calculatePricing ilike t b key skey r = Inr res \<and>
         pc_complexityAdjustment res = lit 1 \<and>
         basePricing res = lit (basePrice p) \<and>
         scaleMultiplier res = lit (multiplier sc) \<and>
         finalPrice res =
           round2 (js_add
             (js_add (lit (basePrice p))
                (js_mul (lit (basePrice p)) (js_sub (lit (multiplier sc)) (lit 1))))
             (js_mul
                (js_add (lit (basePrice p))
                   (js_mul (lit (basePrice p)) (js_sub (lit (multiplier sc)) (lit 1))))
                (js_sub (lit 1) (lit 1))))))"
proof (intro conjI impI)
  assume "find (categoryMatches ilike key) (revenueCategories t) = None"
  then show "calculatePricing ilike t b key skey r = Inl (CategoryNotFound key)"
    by (rule calculatePricing_no_category)
next
  assume "find (categoryMatches ilike key) (revenueCategories t) = Some c \<and>
    find (scaleMatches ilike skey) (companyScales t) = None"
  then show "calculatePricing ilike t b key skey r = Inl (ScaleNotFound skey)"
    by (simp add: calculatePricing_no_scale)
next
  assume "find (categoryMatches ilike key) (revenueCategories t) = Some c \<and>
    find (scaleMatches ilike skey) (companyScales t) = Some sc \<and>
    find (pricingMatches b c sc) (basePricings t) = None"
  then show "calculatePricing ilike t b key skey r = Inl (PricingNotFound b key skey)"
    by (simp add: calculatePricing_no_price)
next
  assume h: "find (categoryMatches ilike key) (revenueCategories t) = Some c \<and>
    find (scaleMatches ilike skey) (companyScales t) = Some sc \<and>
    find (pricingMatches b c sc) (basePricings t) = Some p \<and>
    find (\<lambda>c. rating c = r) (complexityTiers t) = None"
  then show "\<exists>res. calculatePricing ilike t b key skey r = Inr res \<and>
         pc_complexityAdjustment res = lit 1 \<and>
         basePricing res = lit (basePrice p) \<and>
         scaleMultiplier res = lit (multiplier sc) \<and>
         finalPrice res =
           round2 (js_add
             (js_add (lit (basePrice p))
                (js_mul (lit (basePrice p)) (js_sub (lit (multiplier sc)) (lit 1))))
             (js_mul
                (js_add (lit (basePrice p))
                   (js_mul (lit (basePrice p)) (js_sub (lit (multiplier sc)) (lit 1))))
                (js_sub (lit 1) (lit 1))))"
    using h by (simp add: calculatePricing_found [of ilike key t c skey sc b p] Let_def)
qed

theorem calculatePricing_tier_default_witness:
  "find (categoryMatches pg_ilike ''nowhere'') (revenueCategories ex_pricing_db) = None \<and>
   calculatePricing pg_ilike ex_pricing_db ''bundle_saas_starter'' ''nowhere'' ''medium_10m'' 11 =
     Inl (CategoryNotFound ''nowhere'') \<and>
   find (categoryMatches pg_ilike ''saas'') (revenueCategories ex_pricing_db) =
     Some \<lparr>rc_id = ''rc1'', rc_name = ''SaaS'', rc_code = ''saas''\<rparr> \<and>
   find (scaleMatches pg_ilike ''nowhere'') (companyScales ex_pricing_db) = None \<and>
   calculatePricing pg_ilike ex_pricing_db ''bundle_saas_starter'' ''saas'' ''nowhere'' 11 =
     Inl (ScaleNotFound ''nowhere'') \<and>
   find (scaleMatches pg_ilike ''medium_10m'') (companyScales ex_pricing_db) =
     Some \<lparr>cs_id = ''cs1'', cs_name = ''Medium ($1M - $10M)'', cs_code = ''medium_10m'',
           multiplier = 3 / 2\<rparr> \<and>
   find (pricingMatches ''bundle_none''
           \<lparr>rc_id = ''rc1'', rc_name = ''SaaS'', rc_code = ''saas''\<rparr>
           \<lparr>cs_id = ''cs1'', cs_name = ''Medium ($1M - $10M)'', cs_code = ''medium_10m'',
             multiplier = 3 / 2\<rparr>) (basePricings ex_pricing_db) = None \<and>
   calculatePricing pg_ilike ex_pricing_db ''bundle_none'' ''saas'' ''medium_10m'' 11 =
     Inl (PricingNotFound ''bundle_none'' ''saas'' ''medium_10m'') \<and>
   find (pricingMatches ''bundle_saas_starter''
           \<lparr>rc_id = ''rc1'', rc_name = ''SaaS'', rc_code = ''saas''\<rparr>
           \<lparr>cs_id = ''cs1'', cs_name = ''Medium ($1M - $10M)'', cs_code = ''medium_10m'',
             multiplier = 3 / 2\<rparr>) (basePricings ex_pricing_db) =
     Some \<lparr>bundleId = ''bundle_saas_starter'', revenueCategoryId = ''rc1'',
            companyScaleId = ''cs1'', basePrice = 5000\<rparr> \<and>
   find (\<lambda>c. rating c = 11) (complexityTiers ex_pricing_db) = None \<and>
   (\<exists>res. calculatePricing pg_ilike ex_pricing_db ''bundle_saas_starter'' ''saas'' ''medium_10m'' 11 = Inr res \<and>
      pc_complexityAdjustment res = Fin 1 \<and> finalPrice res = Fin 7500)"
proof -
  let ?c = "\<lparr>rc_id = ''rc1'', rc_name = ''SaaS'', rc_code = ''saas''\<rparr>"
  let ?sc = "\<lparr>cs_id = ''cs1'', cs_name = ''Medium ($1M - $10M)'', cs_code = ''medium_10m'',
             multiplier = 3 / 2\<rparr>"
  let ?p = "\<lparr>bundleId = ''bundle_saas_starter'', revenueCategoryId = ''rc1'',
            companyScaleId = ''cs1'', basePrice = 5000\<rparr>"
  have 1: "find (categoryMatches pg_ilike ''nowhere'') (revenueCategories ex_pricing_db) = None"
    by code_simp
  have 2: "find (scaleMatches pg_ilike ''nowhere'') (companyScales ex_pricing_db) = None"
    by code_simp
  have 3: "find (pricingMatches ''bundle_none'' ?c ?sc) (basePricings ex_pricing_db) = None"
    by (simp add: ex_pricing_db_def pricingMatches_def)
  have 4: "find (\<lambda>c. rating c = 11) (complexityTiers ex_pricing_db) = None"
    by (rule ex_tiers(2))
  note l = ex_pricing_lookups
  have a: "calculatePricing pg_ilike ex_pricing_db ''bundle_saas_starter'' ''nowhere'' ''medium_10m'' 11 =
     Inl (CategoryNotFound ''nowhere'')"
    using calculatePricing_tier_default [of pg_ilike "''nowhere''" ex_pricing_db "''bundle_saas_starter''"
        "''medium_10m''" 11] 1 by blast
  have b: "calculatePricing pg_ilike ex_pricing_db ''bundle_saas_starter'' ''saas'' ''nowhere'' 11 =
     Inl (ScaleNotFound ''nowhere'')"
    using calculatePricing_tier_default [of pg_ilike "''saas''" ex_pricing_db "''bundle_saas_starter''"
        "''nowhere''" 11 ?c] l(1) 2 by blast
  have c: "calculatePricing pg_ilike ex_pricing_db ''bundle_none'' ''saas'' ''medium_10m'' 11 =
     Inl (PricingNotFound ''bundle_none'' ''saas'' ''medium_10m'')"
    using calculatePricing_tier_default [of pg_ilike "''saas''" ex_pricing_db "''bundle_none''"
        "''medium_10m''" 11 ?c ?sc] l(1,2) 3 by blast
  have "\<exists>res. calculatePricing pg_ilike ex_pricing_db ''bundle_saas_starter'' ''saas'' ''medium_10m'' 11 = Inr res \<and>
      pc_complexityAdjustment res = lit 1"
    using calculatePricing_tier_default [of pg_ilike "''saas''" ex_pricing_db "''bundle_saas_starter''"
        "''medium_10m''" 11 ?c ?sc ?p] l 4 by blast
  then have d: "\<exists>res. calculatePricing pg_ilike ex_pricing_db ''bundle_saas_starter'' ''saas'' ''medium_10m'' 11 = Inr res \<and>
      pc_complexityAdjustment res = Fin 1 \<and> finalPrice res = Fin 7500"
    by (simp add: ex_pricing_11)
  from 1 2 3 4 l a b c d show ?thesis by blast
qed

text \<open>
  Claim C3. With the price row, the scale and the category found, \<^verbatim>\<open>calculatePricing\<close>
  takes the scale adjustment \<^verbatim>\<open>base * (scaleMultiplier - 1)\<close> on the base price, the
  complexity adjustment \<^verbatim>\<open>(base + scaleAdjustment) * (complexityMultiplier - 1)\<close> on the
  scale-adjusted amount, and returns their sum with the base, rounded to two decimals
  by \<^verbatim>\<open>Math.round(x * 100) / 100\<close>, the two adjustments of the breakdown rounded
  likewise. For the base price 5000, the scale multiplier 1.5 and the tier multiplier
  1.35 it returns the scale adjustment 2500, the complexity adjustment 2625 and the final
  price 10125.
\<close>

theorem calculatePricing_compounds:
  "(find (categoryMatches ilike key) (revenueCategories t) = Some c \<and>
    find (scaleMatches ilike skey) (companyScales t) = Some sc \<and>
    find (pricingMatches b c sc) (basePricings t) = Some p \<and>
    find (\<lambda>c. rating c = r) (complexityTiers t) = Some tier \<longrightarrow>
      (\<exists>res sa cav.
         sa = js_mul (lit (basePrice p)) (js_sub (lit (multiplier sc)) (lit 1)) \<and>
         cav = js_mul (js_add (lit (basePrice p)) sa)
                 (js_sub (lit (adjustmentMultiplier tier)) (lit 1)) \<and>
         calculatePricing ilike t b key skey r = Inr res \<and>
         finalPrice res = round2 (js_add (js_add (lit (basePrice p)) sa) cav) \<and>
         b_scaleAdjustment (breakdown res) = round2 sa \<and>
         b_complexityAdjustment (breakdown res) = round2 cav \<and>
         b_base (breakdown res) = lit (basePrice p))) \<and>
   (\<exists>res. calculatePricing ilike ex_pricing_db ''bundle_saas_starter'' ''saas'' ''medium_10m'' 7 = Inr res \<and>
      basePricing res = Fin 5000 \<and> scaleMultiplier res = lit (3 / 2) \<and>
      pc_complexityAdjustment res = lit (135 / 100) \<and>
      b_scaleAdjustment (breakdown res) = Fin 2500 \<and>
      b_complexityAdjustment (breakdown res) = Fin 2625 \<and>
      finalPrice res = Fin 10125)"
proof (intro conjI impI)
  assume h: "find (categoryMatches ilike key) (revenueCategories t) = Some c \<and>
    find (scaleMatches ilike skey) (companyScales t) = Some sc \<and>
    find (pricingMatches b c sc) (basePricings t) = Some p \<and>
    find (\<lambda>c. rating c = r) (complexityTiers t) = Some tier"
  then show "\<exists>res sa cav.
         sa = js_mul (lit (basePrice p)) (js_sub (lit (multiplier sc)) (lit 1)) \<and>
         cav = js_mul (js_add (lit (basePrice p)) sa)
                 (js_sub (lit (adjustmentMultiplier tier)) (lit 1)) \<and>
         calculatePricing ilike t b key skey r = Inr res \<and>
         finalPrice res = round2 (js_add (js_add (lit (basePrice p)) sa) cav) \<and>
         b_scaleAdjustment (breakdown res) = round2 sa \<and>
         b_complexityAdjustment (breakdown res) = round2 cav \<and>
         b_base (breakdown res) = lit (basePrice p)"
    by (simp add: calculatePricing_found [of ilike key t c skey sc b p] Let_def)
next
  show "\<exists>res. calculatePricing ilike ex_pricing_db ''bundle_saas_starter'' ''saas'' ''medium_10m'' 7 = Inr res \<and>
      basePricing res = Fin 5000 \<and> scaleMultiplier res = lit (3 / 2) \<and>
      pc_complexityAdjustment res = lit (135 / 100) \<and>
      b_scaleAdjustment (breakdown res) = Fin 2500 \<and>
      b_complexityAdjustment (breakdown res) = Fin 2625 \<and>
      finalPrice res = Fin 10125"
    by (simp add: ex_pricing_7 evals)
qed

theorem calculatePricing_compounds_witness:
  "find (categoryMatches pg_ilike ''saas'') (revenueCategories ex_pricing_db) =
     Some \<lparr>rc_id = ''rc1'', rc_name = ''SaaS'', rc_code = ''saas''\<rparr> \<and>
   find (scaleMatches pg_ilike ''medium_10m'') (companyScales ex_pricing_db) =
     Some \<lparr>cs_id = ''cs1'', cs_name = ''Medium ($1M - $10M)'', cs_code = ''medium_10m'',
           multiplier = 3 / 2\<rparr> \<and>
   find (pricingMatches ''bundle_saas_starter''
           \<lparr>rc_id = ''rc1'', rc_name = ''SaaS'', rc_code = ''saas''\<rparr>
           \<lparr>cs_id = ''cs1'', cs_name = ''Medium ($1M - $10M)'', cs_code = ''medium_10m'',
             multiplier = 3 / 2\<rparr>) (basePricings ex_pricing_db) =
     Some \<lparr>bundleId = ''bundle_saas_starter'', revenueCategoryId = ''rc1'',
            companyScaleId = ''cs1'', basePrice = 5000\<rparr> \<and>
   find (\<lambda>c. rating c = 7) (complexityTiers ex_pricing_db) =
     Some \<lparr>rating = 7, adjustmentMultiplier = 27 / 20\<rparr> \<and>
   (\<exists>res. calculatePricing pg_ilike ex_pricing_db ''bundle_saas_starter'' ''saas'' ''medium_10m'' 7 = Inr res \<and>
      finalPrice res =
        round2 (js_add (js_add (Fin 5000) (Fin 2500)) (Fin (2625 + 1 / 2 ^ 41))) \<and>
      finalPrice res = Fin 10125)"
proof -
  let ?c = "\<lparr>rc_id = ''rc1'', rc_name = ''SaaS'', rc_code = ''saas''\<rparr>"
  let ?sc = "\<lparr>cs_id = ''cs1'', cs_name = ''Medium ($1M - $10M)'', cs_code = ''medium_10m'',
             multiplier = 3 / 2\<rparr>"
  let ?p = "\<lparr>bundleId = ''bundle_saas_starter'', revenueCategoryId = ''rc1'',
            companyScaleId = ''cs1'', basePrice = 5000\<rparr>"
  let ?tier = "\<lparr>rating = 7, adjustmentMultiplier = 27 / 20\<rparr>"
  note l = ex_pricing_lookups ex_tiers(1)
  from calculatePricing_compounds [of pg_ilike "''saas''" ex_pricing_db ?c "''medium_10m''" ?sc
      "''bundle_saas_starter''" ?p 7 ?tier] l
  have "\<exists>res. calculatePricing pg_ilike ex_pricing_db ''bundle_saas_starter'' ''saas'' ''medium_10m'' 7 = Inr res \<and>
      finalPrice res =
        round2 (js_add
          (js_add (lit 5000) (js_mul (lit 5000) (js_sub (lit (3 / 2)) (lit 1))))
          (js_mul (js_add (lit 5000) (js_mul (lit 5000) (js_sub (lit (3 / 2)) (lit 1))))
             (js_sub (lit (27 / 20)) (lit 1)))) \<and>
      finalPrice res = Fin 10125"
    by auto
  then have "\<exists>res. calculatePricing pg_ilike ex_pricing_db ''bundle_saas_starter'' ''saas'' ''medium_10m'' 7 = Inr res \<and>
      finalPrice res =
        round2 (js_add (js_add (Fin 5000) (Fin 2500)) (Fin (2625 + 1 / 2 ^ 41))) \<and>
      finalPrice res = Fin 10125"
    by (simp add: evals del: js_ops)
  with l show ?thesis by blast
qed

section \<open>The range of the complexity score\<close>

lemma rnd_cases: "rnd x = Fin (fl x) \<or> rnd x = PInf \<and> 0 < fl x \<or> rnd x = NInf \<and> fl x \<le> 0"
  by (auto simp: rnd_def Let_def)

lemma rnd_FinD: "rnd x = Fin y \<Longrightarrow> y = fl x"
  by (auto simp: rnd_def Let_def split: if_splits)

lemma fl_half: "fl (5 / 2) = 5 / 2" "fl (3 / 2) = 3 / 2" "fl (1 / 2) = 1 / 2"
  using fl_exact [of 5 "- 1"] fl_exact [of 3 "- 1"] fl_exact [of 1 "- 1"] by simp_all

lemma number_between_Fin: "number_between l h (Fin y) \<longleftrightarrow> l \<le> y \<and> y \<le> h"
  by (simp add: number_between_def)

lemma number_betweenE:
  assumes "number_between l h n"
  obtains y where "n = Fin y" "l \<le> y" "y \<le> h"
  using assms by (cases n) (auto simp: number_between_def)

lemma rnd_between:
  assumes "l \<le> x" and "x \<le> h" and "fl l = l" and "fl h = h"
    and "- (2 ^ 1024) < l" and "h < 2 ^ 1024"
  shows "number_between l h (rnd x)"
proof -
  have "l \<le> fl x" using fl_mono [OF assms(1)] assms(3) by simp
  moreover have "fl x \<le> h" using fl_mono [OF assms(2)] assms(4) by simp
  ultimately show ?thesis using assms(5,6)
    by (simp add: rnd_def Let_def number_between_def abs_if)
qed

lemma js_add_between:
  assumes "number_between l1 h1 a" and "number_between l2 h2 b"
    and "fl (l1 + l2) = l1 + l2" and "fl (h1 + h2) = h1 + h2"
    and "- (2 ^ 1024) < l1 + l2" and "h1 + h2 < 2 ^ 1024"
  shows "number_between (l1 + l2) (h1 + h2) (js_add a b)"
proof -
  from assms(1) obtain x where a: "a = Fin x" "l1 \<le> x" "x \<le> h1" by (rule number_betweenE)
  from assms(2) obtain y where b: "b = Fin y" "l2 \<le> y" "y \<le> h2" by (rule number_betweenE)
  have "number_between (l1 + l2) (h1 + h2) (rnd (x + y))"
    using a b assms(3-6) by (intro rnd_between) simp_all
  then show ?thesis by (simp add: a b)
qed

lemma capped_between:
  assumes "0 \<le> x" and "0 \<le> c"
  shows "number_between 0 c (Math_min (rnd x) (Fin c))"
proof -
  have nn: "0 \<le> fl x" using assms(1) by (rule fl_nonneg)
  from rnd_cases [of x] show ?thesis
  proof (elim disjE conjE)
    assume "rnd x = Fin (fl x)"
    then show ?thesis using nn assms(2) by (simp add: number_between_def)
  next
    assume "rnd x = PInf"
    then show ?thesis using assms(2) by (simp add: number_between_def)
  next
    assume "rnd x = NInf" "fl x \<le> 0"
    then have "fl x = 0" using nn by simp
    moreover have "\<bar>fl x\<bar> \<ge> 2 ^ 1024" using \<open>rnd x = NInf\<close>
      by (auto simp: rnd_def Let_def split: if_splits)
    ultimately show ?thesis by simp
  qed
qed

lemma number_between_mono:
  "number_between l h n \<Longrightarrow> l' \<le> l \<Longrightarrow> h \<le> h' \<Longrightarrow> number_between l' h' n"
  by (cases n) (auto simp: number_between_def)

lemma lits: "lit (1 / 2) = Fin (1 / 2)" "lit 3 = Fin 3"
  "lit (4 / 5) = Fin (3602879701896397 / 4503599627370496)"
  "lit (3 / 2) = Fin (3 / 2)" "lit (5 / 2) = Fin (5 / 2)" "lit 1 = Fin 1" "lit 2 = Fin 2"
  "lit 10 = Fin 10"
  using rnd_exact [of 5 "- 1"] rnd_exact [of 3 "- 1"] rnd_exact [of 1 "- 1"]
  by (simp_all add: evals) (simp_all add: lit_def rnd_numeral)

lemma typeComplexity_Fin: "typeComplexity T = Fin (baseContribution T)"
  by (cases T) (simp_all add: typeComplexity_def baseContribution_def lits)

lemma baseContribution_bounds: "1 \<le> baseContribution T" "baseContribution T \<le> 3"
  "fl (baseContribution T) = baseContribution T"
  using fl_of_int [of 1] fl_of_int [of 2] fl_of_int [of 3]
  by (cases T; simp add: baseContribution_def fl_half)+

lemma fl_ints: "fl 0 = 0" "fl 3 = 3" "fl 6 = 6" "fl 9 = 9" "fl 12 = 12" "fl 13 = 13"
  using fl_of_int [of 0] fl_of_int [of 3] fl_of_int [of 6] fl_of_int [of 9]
    fl_of_int [of 12] fl_of_int [of 13] by simp_all

lemma calculateComplexity_between:
  "number_between (baseContribution T) 10 (calculateComplexity T scope u)"
proof -
  define fs where "fs = or_list (case scope of None \<Rightarrow> None | Some s \<Rightarrow> features s) []"
  define cis where "cis = filter (\<lambda>i. itype i \<in> set complexIntegrationTypes)
      (or_list (case scope of None \<Rightarrow> None | Some s \<Rightarrow> integrations s) [])"
  define tl where "tl = or_string (case scope of None \<Rightarrow> None | Some s \<Rightarrow> timeline s) ''standard''"
  define s1 where "s1 = js_add (Fin 0) (Math_min (js_mul (js_length fs) (lit (1 / 2))) (lit 3))"
  define s2 where "s2 = js_add s1 (Math_min (js_mul (js_length cis) (lit (4 / 5))) (lit 3))"
  define s3 where "s3 = (if tl = ''urgent'' then js_add s2 (lit (3 / 2)) else s2)"
  define s4 where "s4 = (if tl = ''critical'' then js_add s3 (lit (5 / 2)) else s3)"
  define s5 where "s5 = js_add s4 (js_or (typeComplexity T) (lit 1))"
  define s6 where "s6 = (if u = urgent then js_add s5 (lit (1 / 2)) else s5)"
  define s7 where "s7 = (if u = critical then js_add s6 (lit 1) else s6)"
  have cc: "calculateComplexity T scope u = Math_min s7 (lit 10)"
    unfolding calculateComplexity_def Let_def s7_def s6_def s5_def s4_def s3_def s2_def s1_def
      tl_def cis_def fs_def ..
  have m1: "number_between 0 3 (Math_min (js_mul (js_length fs) (lit (1 / 2))) (lit 3))"
    using capped_between [of "of_nat (length fs) * (1 / 2)" 3]
    by (simp add: js_length_def lits)
  have m2: "number_between 0 3 (Math_min (js_mul (js_length cis) (lit (4 / 5))) (lit 3))"
    using capped_between [of "of_nat (length cis) * (3602879701896397 / 4503599627370496)" 3]
    by (simp add: js_length_def lits)
  have b1: "number_between 0 3 s1"
    unfolding s1_def
    using js_add_between [OF _ m1, of 0 0 "Fin 0"] by (simp add: number_between_Fin fl_ints)
  have b2: "number_between 0 6 s2"
    unfolding s2_def using js_add_between [OF b1 m2] by (simp add: fl_ints)
  have b3: "number_between 0 (15 / 2) s3 \<and> (tl \<noteq> ''urgent'' \<longrightarrow> number_between 0 6 s3)"
  proof (cases "tl = ''urgent''")
    case True
    have "number_between (0 + 3 / 2) (6 + 3 / 2) (js_add s2 (Fin (3 / 2)))"
      using fl_exact [of 3 "- 1"] fl_exact [of 15 "- 1"]
      by (intro js_add_between [OF b2]) (simp_all add: number_between_Fin)
    then show ?thesis
      using True number_between_mono [of "3 / 2" "15 / 2" "js_add s2 (Fin (3 / 2))" 0 "15 / 2"]
      by (simp add: s3_def lits)
  next
    case False
    then show ?thesis using b2 number_between_mono [OF b2, of 0 "15 / 2"] by (simp add: s3_def)
  qed
  have b4: "number_between 0 (17 / 2) s4"
  proof (cases "tl = ''critical''")
    case True
    then have "number_between 0 6 s3" using b3 by simp
    then have "number_between (0 + 5 / 2) (6 + 5 / 2) (js_add s3 (Fin (5 / 2)))"
      using fl_exact [of 5 "- 1"] fl_exact [of 17 "- 1"]
      by (intro js_add_between) (simp_all add: number_between_Fin)
    then show ?thesis
      using True number_between_mono [of "5 / 2" "17 / 2" "js_add s3 (Fin (5 / 2))" 0 "17 / 2"]
      by (simp add: s4_def lits)
  next
    case False
    then show ?thesis using b3 number_between_mono [of 0 "15 / 2" s3 0 "17 / 2"]
      by (simp add: s4_def)
  qed
  have b4': "number_between 0 9 s4" using b4 by (rule number_between_mono) simp_all
  have ty: "js_or (typeComplexity T) (lit 1) = Fin (baseContribution T)"
    using baseContribution_bounds(1) [of T] by (simp add: typeComplexity_Fin js_or_def)
  have b5: "number_between (baseContribution T) 12 s5"
  proof -
    from b4' obtain x where x: "s4 = Fin x" "0 \<le> x" "x \<le> 9" by (rule number_betweenE)
    have "number_between (baseContribution T) 12 (rnd (x + baseContribution T))"
      using x baseContribution_bounds [of T] by (intro rnd_between) (simp_all add: fl_ints)
    then show ?thesis by (simp add: s5_def ty x)
  qed
  have b6: "number_between (baseContribution T) 13 s6"
  proof (cases "u = urgent")
    case True
    from b5 obtain x where x: "s5 = Fin x" "baseContribution T \<le> x" "x \<le> 12"
      by (rule number_betweenE)
    have "number_between (baseContribution T) 13 (rnd (x + 1 / 2))"
      using x baseContribution_bounds [of T] by (intro rnd_between) (simp_all add: fl_ints)
    then show ?thesis using True by (simp add: s6_def lits x)
  next
    case False
    then show ?thesis using number_between_mono [OF b5, of "baseContribution T" 13]
      by (simp add: s6_def)
  qed
  have b7: "number_between (baseContribution T) 14 s7"
  proof (cases "u = critical")
    case True
    from b6 obtain x where x: "s6 = Fin x" "baseContribution T \<le> x" "x \<le> 13"
      by (rule number_betweenE)
    have "number_between (baseContribution T) 14 (rnd (x + 1))"
      using x baseContribution_bounds [of T] fl_of_int [of 14]
      by (intro rnd_between) simp_all
    then show ?thesis using True by (simp add: s7_def lits x)
  next
    case False
    then show ?thesis using number_between_mono [OF b6, of "baseContribution T" 14]
      by (simp add: s7_def)
  qed
  from b7 obtain x where x: "s7 = Fin x" "baseContribution T \<le> x" "x \<le> 14"
    by (rule number_betweenE)
  show ?thesis using x baseContribution_bounds [of T]
    by (simp add: cc lits number_between_Fin)
qed

text \<open>
  Claim C9. For every project type, scope and urgency, \<^verbatim>\<open>calculateComplexity\<close> returns a
  finite number between the base contribution of the type (creative 1.0, fullstack 2.0,
  web3 3.0, ai_automation 2.5) and 10.0. Nothing clamps from below: every other
  contribution is at least zero and binary64 addition is monotone. The result is a
  function of the three arguments alone.
\<close>

theorem calculateComplexity_range:
  "typeComplexity T = Fin (baseContribution T) \<and>
   (\<exists>y. calculateComplexity T scope u = Fin y \<and> baseContribution T \<le> y \<and> y \<le> 10) \<and>
   js_le (typeComplexity T) (calculateComplexity T scope u) \<and>
   js_le (calculateComplexity T scope u) (lit 10)"
proof -
  from calculateComplexity_between [of T scope u]
  obtain y where y: "calculateComplexity T scope u = Fin y" "baseContribution T \<le> y" "y \<le> 10"
    by (rule number_betweenE)
  then show ?thesis by (auto simp: typeComplexity_Fin lits js_le_def)
qed

section \<open>The not-to-exceed ceiling\<close>


lemma js_mul_FinD:
  assumes "js_mul a b = Fin t"
  obtains x y where "a = Fin x" "b = Fin y" "t = fl (x * y)"
  using assms by (cases a; cases b) (auto simp: Let_def dest: rnd_FinD split: if_splits)


















section \<open>The payment structure\<close>










end
